theory Spec2Isabelle
  imports Complex_Main "HOL-Library.AList" "HOL-Library.Monad_Syntax"
begin

section \<open>JSON values and the validation library boundary\<close>

text \<open>
  What \<open>json.load\<close> / \<open>json.loads\<close> return: \<open>None\<close>, \<open>bool\<close>, \<open>int\<close>, \<open>float\<close>,
  \<open>str\<close>, \<open>list\<close> and \<open>dict\<close> (keys in insertion order). Python's unbounded \<open>int\<close> is
  \<open>int\<close>. A finite \<open>float\<close> is the rational it denotes. The decoder also accepts
  \<open>Infinity\<close>, \<open>-Infinity\<close> and \<open>NaN\<close>, and a number too large for a \<open>float\<close>
  (\<open>1e999\<close>) reads as infinity: these are the floats \<open>inf\<close>, \<open>-inf\<close> and \<open>nan\<close>.
\<close>

datatype inf_nan = PosInf | NegInf | NaN

datatype pyfloat = Finite rat | NonFinite inf_nan

datatype json =
    JNull
  | JBool bool
  | JInt int
  | JFloat rat
  | JInfNaN inf_nan
  | JStr string
  | JArr "json list"
  | JObj "(string \<times> json) list"

text \<open>
  A piece of text handed to \<open>json.load(s)\<close>: either it is not JSON (the decoder raises
  \<open>JSONDecodeError\<close>) or it is the text of a JSON document.
\<close>

datatype rawtext = NotJson string | JsonText json

fun json_loads :: "rawtext \<Rightarrow> json option" where
  "json_loads (NotJson s) = None"
| "json_loads (JsonText j) = Some j"

datatype pydate = Date (year: nat) (month: nat) (day: nat)

datatype pydatetime =
  DateTime (date_part: pydate) (hour: nat) (minute: nat) (second: nat) (microsecond: nat)
           (utcoffset: "int option")

text \<open>
  The conversions of the validation library (pydantic) that the schema declarations rely
  on and that are not part of the repository: what a field of type \<open>int\<close>, \<open>float\<close> or
  \<open>bool\<close> makes of a JSON value of another type (lax mode), how \<open>date\<close> /
  \<open>datetime\<close> values are read from and written to JSON strings, and what
  \<open>model_dump(mode="json")\<close> writes for a float that is infinite or NaN (the setting
  \<open>ser_json_inf_nan\<close>, which the schemas leave at its default). They are parameters of
  the model.
\<close>

record pydantic =
  lax_int :: "json \<Rightarrow> int option"
  lax_float :: "json \<Rightarrow> pyfloat option"
  lax_bool :: "json \<Rightarrow> bool option"
  ser_json_inf_nan :: "inf_nan \<Rightarrow> json"
  parse_datetime :: "json \<Rightarrow> pydatetime option"
  format_datetime :: "pydatetime \<Rightarrow> string"
  parse_date :: "json \<Rightarrow> pydate option"
  format_date :: "pydate \<Rightarrow> string"

subsection \<open>Field types\<close>

definition validate_str :: "json \<Rightarrow> string option" where
  "validate_str j = (case j of JStr s \<Rightarrow> Some s | _ \<Rightarrow> None)"

definition validate_int :: "pydantic \<Rightarrow> json \<Rightarrow> int option" where
  "validate_int lib j = (case j of JInt i \<Rightarrow> Some i | _ \<Rightarrow> lax_int lib j)"

text \<open>A field of type \<open>float\<close> takes any float, the infinities and NaN included.\<close>

definition validate_float :: "pydantic \<Rightarrow> json \<Rightarrow> pyfloat option" where
  "validate_float lib j =
     (case j of
        JFloat f \<Rightarrow> Some (Finite f)
      | JInfNaN x \<Rightarrow> Some (NonFinite x)
      | _ \<Rightarrow> lax_float lib j)"

definition dump_float :: "pydantic \<Rightarrow> pyfloat \<Rightarrow> json" where
  "dump_float lib f = (case f of Finite r \<Rightarrow> JFloat r | NonFinite x \<Rightarrow> ser_json_inf_nan lib x)"

definition validate_bool :: "pydantic \<Rightarrow> json \<Rightarrow> bool option" where
  "validate_bool lib j = (case j of JBool b \<Rightarrow> Some b | _ \<Rightarrow> lax_bool lib j)"

definition validate_dict_any :: "json \<Rightarrow> (string \<times> json) list option" where
  "validate_dict_any j = (case j of JObj kvs \<Rightarrow> Some kvs | _ \<Rightarrow> None)"

text \<open>
  The dump of a value of type \<open>Any\<close>, as \<open>json.load\<close> built it: lists and dicts are dumped
  element by element, an infinite or NaN float as the library writes it, anything else
  as it is.
\<close>

fun dump_any :: "pydantic \<Rightarrow> json \<Rightarrow> json" where
  "dump_any lib (JInfNaN x) = ser_json_inf_nan lib x"
| "dump_any lib (JArr xs) = JArr (map (dump_any lib) xs)"
| "dump_any lib (JObj kvs) = JObj (map (\<lambda>(k, v). (k, dump_any lib v)) kvs)"
| "dump_any lib j = j"

definition validate_list :: "(json \<Rightarrow> 'a option) \<Rightarrow> json \<Rightarrow> 'a list option" where
  "validate_list v j = (case j of JArr xs \<Rightarrow> those (map v xs) | _ \<Rightarrow> None)"

text \<open>\<open>Optional[T]\<close>: \<open>None\<close> is accepted as it is, anything else must validate as \<open>T\<close>.\<close>

definition validate_optional :: "(json \<Rightarrow> 'a option) \<Rightarrow> json \<Rightarrow> 'a option option" where
  "validate_optional v j = (case j of JNull \<Rightarrow> Some None | _ \<Rightarrow> map_option Some (v j))"

text \<open>
  A field declared \<open>Field(...)\<close> is required: a missing key is a validation error.
  A field with \<open>default=\<close> or \<open>default_factory=\<close> takes the default when the key is
  missing (the default is not validated). Keys that no field names are ignored.
\<close>

definition required :: "(json \<Rightarrow> 'a option) \<Rightarrow> (string \<times> json) list \<Rightarrow> string \<Rightarrow> 'a option" where
  "required v obj k = (case map_of obj k of None \<Rightarrow> None | Some j \<Rightarrow> v j)"

definition with_default :: "'a \<Rightarrow> (json \<Rightarrow> 'a option) \<Rightarrow> (string \<times> json) list \<Rightarrow> string \<Rightarrow> 'a option" where
  "with_default d v obj k = (case map_of obj k of None \<Rightarrow> Some d | Some j \<Rightarrow> v j)"

definition dump_optional :: "('a \<Rightarrow> json) \<Rightarrow> 'a option \<Rightarrow> json" where
  "dump_optional d x = (case x of None \<Rightarrow> JNull | Some v \<Rightarrow> d v)"

definition dump_str_list :: "string list \<Rightarrow> json" where
  "dump_str_list xs = JArr (map JStr xs)"

subsection \<open>Enums\<close>

datatype SentimentLabel = positive | neutral | negative

datatype RiskLevel = low | medium | high | critical

datatype ResolutionStatus = resolved | partially_resolved | unresolved

fun SentimentLabel_value :: "SentimentLabel \<Rightarrow> string" where
  "SentimentLabel_value positive = ''positive''"
| "SentimentLabel_value neutral = ''neutral''"
| "SentimentLabel_value negative = ''negative''"

fun RiskLevel_value :: "RiskLevel \<Rightarrow> string" where
  "RiskLevel_value low = ''low''"
| "RiskLevel_value medium = ''medium''"
| "RiskLevel_value high = ''high''"
| "RiskLevel_value critical = ''critical''"

fun ResolutionStatus_value :: "ResolutionStatus \<Rightarrow> string" where
  "ResolutionStatus_value resolved = ''resolved''"
| "ResolutionStatus_value partially_resolved = ''partially_resolved''"
| "ResolutionStatus_value unresolved = ''unresolved''"

text \<open>An enum field accepts exactly the values of its members.\<close>

definition validate_enum :: "('e \<Rightarrow> string) \<Rightarrow> 'e list \<Rightarrow> json \<Rightarrow> 'e option" where
  "validate_enum val members j =
     (case j of JStr s \<Rightarrow> find (\<lambda>e. val e = s) members | _ \<Rightarrow> None)"

definition validate_SentimentLabel :: "json \<Rightarrow> SentimentLabel option" where
  "validate_SentimentLabel = validate_enum SentimentLabel_value [positive, neutral, negative]"

definition validate_RiskLevel :: "json \<Rightarrow> RiskLevel option" where
  "validate_RiskLevel = validate_enum RiskLevel_value [low, medium, high, critical]"

definition validate_ResolutionStatus :: "json \<Rightarrow> ResolutionStatus option" where
  "validate_ResolutionStatus =
     validate_enum ResolutionStatus_value [resolved, partially_resolved, unresolved]"


section \<open>The data model (\<open>app/schemas.py\<close>)\<close>

subsection \<open>Call metadata\<close>

record CallMetadata =
  call_id :: string
  client_id :: string
  audio_file :: string
  call_start_time :: "pydatetime option"
  call_end_time :: "pydatetime option"
  duration_seconds :: "pyfloat option"
  agent_name :: "string option"
  customer_phone :: "string option"
  extra_metadata :: "(string \<times> json) list"

definition validate_datetime :: "pydantic \<Rightarrow> json \<Rightarrow> pydatetime option" where
  "validate_datetime lib j = parse_datetime lib j"

definition dump_datetime :: "pydantic \<Rightarrow> pydatetime \<Rightarrow> json" where
  "dump_datetime lib d = JStr (format_datetime lib d)"

definition validate_date :: "pydantic \<Rightarrow> json \<Rightarrow> pydate option" where
  "validate_date lib j = parse_date lib j"

definition dump_date :: "pydantic \<Rightarrow> pydate \<Rightarrow> json" where
  "dump_date lib d = JStr (format_date lib d)"

definition validate_CallMetadata :: "pydantic \<Rightarrow> json \<Rightarrow> CallMetadata option" where
  "validate_CallMetadata lib j =
     (case j of
        JObj obj \<Rightarrow> do {
          a \<leftarrow> required validate_str obj ''call_id'';
          b \<leftarrow> required validate_str obj ''client_id'';
          c \<leftarrow> required validate_str obj ''audio_file'';
          d \<leftarrow> with_default None (validate_optional (validate_datetime lib)) obj ''call_start_time'';
          e \<leftarrow> with_default None (validate_optional (validate_datetime lib)) obj ''call_end_time'';
          f \<leftarrow> with_default None (validate_optional (validate_float lib)) obj ''duration_seconds'';
          g \<leftarrow> with_default None (validate_optional validate_str) obj ''agent_name'';
          h \<leftarrow> with_default None (validate_optional validate_str) obj ''customer_phone'';
          i \<leftarrow> with_default [] validate_dict_any obj ''extra_metadata'';
          Some \<lparr>call_id = a, client_id = b, audio_file = c, call_start_time = d,
                call_end_time = e, duration_seconds = f, agent_name = g,
                customer_phone = h, extra_metadata = i\<rparr>
        }
      | _ \<Rightarrow> None)"

definition dump_CallMetadata :: "pydantic \<Rightarrow> CallMetadata \<Rightarrow> json" where
  "dump_CallMetadata lib m = JObj
     [(''call_id'', JStr (call_id m)),
      (''client_id'', JStr (client_id m)),
      (''audio_file'', JStr (audio_file m)),
      (''call_start_time'', dump_optional (dump_datetime lib) (call_start_time m)),
      (''call_end_time'', dump_optional (dump_datetime lib) (call_end_time m)),
      (''duration_seconds'', dump_optional (dump_float lib) (duration_seconds m)),
      (''agent_name'', dump_optional JStr (agent_name m)),
      (''customer_phone'', dump_optional JStr (customer_phone m)),
      (''extra_metadata'', dump_any lib (JObj (extra_metadata m)))]"

subsection \<open>Sentiment and emotion\<close>

record SentimentSegment =
  segment_label :: string
  start_second :: "pyfloat option"
  end_second :: "pyfloat option"
  seg_sentiment :: SentimentLabel
  seg_notes :: "string option"

record SentimentAnalysis =
  overall :: SentimentLabel
  score :: "pyfloat option"
  emotion_tags :: "string list"
  sentiment_timeline :: "SentimentSegment list"
  sa_notes :: "string option"

definition validate_SentimentSegment :: "pydantic \<Rightarrow> json \<Rightarrow> SentimentSegment option" where
  "validate_SentimentSegment lib j =
     (case j of
        JObj obj \<Rightarrow> do {
          a \<leftarrow> required validate_str obj ''segment_label'';
          b \<leftarrow> with_default None (validate_optional (validate_float lib)) obj ''start_second'';
          c \<leftarrow> with_default None (validate_optional (validate_float lib)) obj ''end_second'';
          d \<leftarrow> required validate_SentimentLabel obj ''sentiment'';
          e \<leftarrow> with_default None (validate_optional validate_str) obj ''notes'';
          Some \<lparr>segment_label = a, start_second = b, end_second = c, seg_sentiment = d,
                seg_notes = e\<rparr>
        }
      | _ \<Rightarrow> None)"

definition dump_SentimentSegment :: "pydantic \<Rightarrow> SentimentSegment \<Rightarrow> json" where
  "dump_SentimentSegment lib g = JObj
     [(''segment_label'', JStr (segment_label g)),
      (''start_second'', dump_optional (dump_float lib) (start_second g)),
      (''end_second'', dump_optional (dump_float lib) (end_second g)),
      (''sentiment'', JStr (SentimentLabel_value (seg_sentiment g))),
      (''notes'', dump_optional JStr (seg_notes g))]"

definition validate_SentimentAnalysis :: "pydantic \<Rightarrow> json \<Rightarrow> SentimentAnalysis option" where
  "validate_SentimentAnalysis lib j =
     (case j of
        JObj obj \<Rightarrow> do {
          a \<leftarrow> required validate_SentimentLabel obj ''overall'';
          b \<leftarrow> with_default None (validate_optional (validate_float lib)) obj ''score'';
          c \<leftarrow> with_default [] (validate_list validate_str) obj ''emotion_tags'';
          d \<leftarrow> with_default [] (validate_list (validate_SentimentSegment lib)) obj
                 ''sentiment_timeline'';
          e \<leftarrow> with_default None (validate_optional validate_str) obj ''notes'';
          Some \<lparr>overall = a, score = b, emotion_tags = c, sentiment_timeline = d,
                sa_notes = e\<rparr>
        }
      | _ \<Rightarrow> None)"

definition dump_SentimentAnalysis :: "pydantic \<Rightarrow> SentimentAnalysis \<Rightarrow> json" where
  "dump_SentimentAnalysis lib s = JObj
     [(''overall'', JStr (SentimentLabel_value (overall s))),
      (''score'', dump_optional (dump_float lib) (score s)),
      (''emotion_tags'', dump_str_list (emotion_tags s)),
      (''sentiment_timeline'', JArr (map (dump_SentimentSegment lib) (sentiment_timeline s))),
      (''notes'', dump_optional JStr (sa_notes s))]"

subsection \<open>Intent and topics\<close>

record IntentTopicsAnalysis =
  primary_intent :: "string option"
  secondary_intents :: "string list"
  topics :: "string list"
  key_phrases :: "string list"
  intent_confidence :: "pyfloat option"
  ita_notes :: "string option"

definition validate_IntentTopicsAnalysis :: "pydantic \<Rightarrow> json \<Rightarrow> IntentTopicsAnalysis option" where
  "validate_IntentTopicsAnalysis lib j =
     (case j of
        JObj obj \<Rightarrow> do {
          a \<leftarrow> with_default None (validate_optional validate_str) obj ''primary_intent'';
          b \<leftarrow> with_default [] (validate_list validate_str) obj ''secondary_intents'';
          c \<leftarrow> with_default [] (validate_list validate_str) obj ''topics'';
          d \<leftarrow> with_default [] (validate_list validate_str) obj ''key_phrases'';
          e \<leftarrow> with_default None (validate_optional (validate_float lib)) obj ''intent_confidence'';
          f \<leftarrow> with_default None (validate_optional validate_str) obj ''notes'';
          Some \<lparr>primary_intent = a, secondary_intents = b, topics = c, key_phrases = d,
                intent_confidence = e, ita_notes = f\<rparr>
        }
      | _ \<Rightarrow> None)"

definition dump_IntentTopicsAnalysis :: "pydantic \<Rightarrow> IntentTopicsAnalysis \<Rightarrow> json" where
  "dump_IntentTopicsAnalysis lib t = JObj
     [(''primary_intent'', dump_optional JStr (primary_intent t)),
      (''secondary_intents'', dump_str_list (secondary_intents t)),
      (''topics'', dump_str_list (topics t)),
      (''key_phrases'', dump_str_list (key_phrases t)),
      (''intent_confidence'', dump_optional (dump_float lib) (intent_confidence t)),
      (''notes'', dump_optional JStr (ita_notes t))]"

subsection \<open>Call quality\<close>

record CallQualityScores =
  greeting :: "int option"
  listening_and_empathy :: "int option"
  clarity_of_explanations :: "int option"
  professionalism :: "int option"
  script_adherence :: "int option"

record CallQualityAnalysis =
  overall_quality_score :: "int option"
  scores :: CallQualityScores
  strengths :: "string list"
  improvements :: "string list"
  cqa_notes :: "string option"

definition validate_CallQualityScores :: "pydantic \<Rightarrow> json \<Rightarrow> CallQualityScores option" where
  "validate_CallQualityScores lib j =
     (case j of
        JObj obj \<Rightarrow> do {
          a \<leftarrow> with_default None (validate_optional (validate_int lib)) obj ''greeting'';
          b \<leftarrow> with_default None (validate_optional (validate_int lib)) obj
                 ''listening_and_empathy'';
          c \<leftarrow> with_default None (validate_optional (validate_int lib)) obj
                 ''clarity_of_explanations'';
          d \<leftarrow> with_default None (validate_optional (validate_int lib)) obj ''professionalism'';
          e \<leftarrow> with_default None (validate_optional (validate_int lib)) obj ''script_adherence'';
          Some \<lparr>greeting = a, listening_and_empathy = b, clarity_of_explanations = c,
                professionalism = d, script_adherence = e\<rparr>
        }
      | _ \<Rightarrow> None)"

definition dump_CallQualityScores :: "CallQualityScores \<Rightarrow> json" where
  "dump_CallQualityScores q = JObj
     [(''greeting'', dump_optional JInt (greeting q)),
      (''listening_and_empathy'', dump_optional JInt (listening_and_empathy q)),
      (''clarity_of_explanations'', dump_optional JInt (clarity_of_explanations q)),
      (''professionalism'', dump_optional JInt (professionalism q)),
      (''script_adherence'', dump_optional JInt (script_adherence q))]"

text \<open>\<open>default_factory=CallQualityScores\<close>: every sub-score \<open>None\<close>.\<close>

definition default_CallQualityScores :: CallQualityScores where
  "default_CallQualityScores =
     \<lparr>greeting = None, listening_and_empathy = None, clarity_of_explanations = None,
      professionalism = None, script_adherence = None\<rparr>"

definition validate_CallQualityAnalysis :: "pydantic \<Rightarrow> json \<Rightarrow> CallQualityAnalysis option" where
  "validate_CallQualityAnalysis lib j =
     (case j of
        JObj obj \<Rightarrow> do {
          a \<leftarrow> with_default None (validate_optional (validate_int lib)) obj
                 ''overall_quality_score'';
          b \<leftarrow> with_default default_CallQualityScores (validate_CallQualityScores lib) obj
                 ''scores'';
          c \<leftarrow> with_default [] (validate_list validate_str) obj ''strengths'';
          d \<leftarrow> with_default [] (validate_list validate_str) obj ''improvements'';
          e \<leftarrow> with_default None (validate_optional validate_str) obj ''notes'';
          Some \<lparr>overall_quality_score = a, scores = b, strengths = c, improvements = d,
                cqa_notes = e\<rparr>
        }
      | _ \<Rightarrow> None)"

definition dump_CallQualityAnalysis :: "CallQualityAnalysis \<Rightarrow> json" where
  "dump_CallQualityAnalysis q = JObj
     [(''overall_quality_score'', dump_optional JInt (overall_quality_score q)),
      (''scores'', dump_CallQualityScores (scores q)),
      (''strengths'', dump_str_list (strengths q)),
      (''improvements'', dump_str_list (improvements q)),
      (''notes'', dump_optional JStr (cqa_notes q))]"


subsection \<open>Compliance and risk\<close>

record PIIRedaction =
  pii_type :: string
  original_value :: "string option"
  masked_value :: "string option"

record ComplianceRiskAnalysis =
  required_phrases_present :: "string list"
  missing_required_phrases :: "string list"
  forbidden_phrases_detected :: "string list"
  pii_detected :: "PIIRedaction list"
  risk_level :: RiskLevel
  cra_notes :: "string option"

definition validate_PIIRedaction :: "json \<Rightarrow> PIIRedaction option" where
  "validate_PIIRedaction j =
     (case j of
        JObj obj \<Rightarrow> do {
          a \<leftarrow> required validate_str obj ''type'';
          b \<leftarrow> with_default None (validate_optional validate_str) obj ''original_value'';
          c \<leftarrow> with_default None (validate_optional validate_str) obj ''masked_value'';
          Some \<lparr>pii_type = a, original_value = b, masked_value = c\<rparr>
        }
      | _ \<Rightarrow> None)"

definition dump_PIIRedaction :: "PIIRedaction \<Rightarrow> json" where
  "dump_PIIRedaction r = JObj
     [(''type'', JStr (pii_type r)),
      (''original_value'', dump_optional JStr (original_value r)),
      (''masked_value'', dump_optional JStr (masked_value r))]"

text \<open>\<open>risk_level\<close> is declared \<open>Field(default=RiskLevel.low)\<close>.\<close>

definition validate_ComplianceRiskAnalysis :: "json \<Rightarrow> ComplianceRiskAnalysis option" where
  "validate_ComplianceRiskAnalysis j =
     (case j of
        JObj obj \<Rightarrow> do {
          a \<leftarrow> with_default [] (validate_list validate_str) obj ''required_phrases_present'';
          b \<leftarrow> with_default [] (validate_list validate_str) obj ''missing_required_phrases'';
          c \<leftarrow> with_default [] (validate_list validate_str) obj ''forbidden_phrases_detected'';
          d \<leftarrow> with_default [] (validate_list validate_PIIRedaction) obj ''pii_detected'';
          e \<leftarrow> with_default low validate_RiskLevel obj ''risk_level'';
          f \<leftarrow> with_default None (validate_optional validate_str) obj ''notes'';
          Some \<lparr>required_phrases_present = a, missing_required_phrases = b,
                forbidden_phrases_detected = c, pii_detected = d, risk_level = e,
                cra_notes = f\<rparr>
        }
      | _ \<Rightarrow> None)"

definition dump_ComplianceRiskAnalysis :: "ComplianceRiskAnalysis \<Rightarrow> json" where
  "dump_ComplianceRiskAnalysis c = JObj
     [(''required_phrases_present'', dump_str_list (required_phrases_present c)),
      (''missing_required_phrases'', dump_str_list (missing_required_phrases c)),
      (''forbidden_phrases_detected'', dump_str_list (forbidden_phrases_detected c)),
      (''pii_detected'', JArr (map dump_PIIRedaction (pii_detected c))),
      (''risk_level'', JStr (RiskLevel_value (risk_level c))),
      (''notes'', dump_optional JStr (cra_notes c))]"

subsection \<open>Outcome and follow-up\<close>

record FollowupAction =
  description :: string
  owner :: "string option"
  due_date :: "pydate option"

record OutcomeFollowupAnalysis =
  resolution_status :: ResolutionStatus
  final_outcome :: "string option"
  followup_actions :: "FollowupAction list"
  escalation_required :: bool
  escalation_reason :: "string option"
  ofa_notes :: "string option"

definition validate_FollowupAction :: "pydantic \<Rightarrow> json \<Rightarrow> FollowupAction option" where
  "validate_FollowupAction lib j =
     (case j of
        JObj obj \<Rightarrow> do {
          a \<leftarrow> required validate_str obj ''description'';
          b \<leftarrow> with_default None (validate_optional validate_str) obj ''owner'';
          c \<leftarrow> with_default None (validate_optional (validate_date lib)) obj ''due_date'';
          Some \<lparr>description = a, owner = b, due_date = c\<rparr>
        }
      | _ \<Rightarrow> None)"

definition dump_FollowupAction :: "pydantic \<Rightarrow> FollowupAction \<Rightarrow> json" where
  "dump_FollowupAction lib a = JObj
     [(''description'', JStr (description a)),
      (''owner'', dump_optional JStr (owner a)),
      (''due_date'', dump_optional (dump_date lib) (due_date a))]"

text \<open>
  \<open>resolution_status\<close> is declared \<open>Field(default=ResolutionStatus.unresolved)\<close>,
  \<open>escalation_required\<close> \<open>Field(default=False)\<close>.
\<close>

definition validate_OutcomeFollowupAnalysis ::
  "pydantic \<Rightarrow> json \<Rightarrow> OutcomeFollowupAnalysis option" where
  "validate_OutcomeFollowupAnalysis lib j =
     (case j of
        JObj obj \<Rightarrow> do {
          a \<leftarrow> with_default unresolved validate_ResolutionStatus obj ''resolution_status'';
          b \<leftarrow> with_default None (validate_optional validate_str) obj ''final_outcome'';
          c \<leftarrow> with_default [] (validate_list (validate_FollowupAction lib)) obj
                 ''followup_actions'';
          d \<leftarrow> with_default False (validate_bool lib) obj ''escalation_required'';
          e \<leftarrow> with_default None (validate_optional validate_str) obj ''escalation_reason'';
          f \<leftarrow> with_default None (validate_optional validate_str) obj ''notes'';
          Some \<lparr>resolution_status = a, final_outcome = b, followup_actions = c,
                escalation_required = d, escalation_reason = e, ofa_notes = f\<rparr>
        }
      | _ \<Rightarrow> None)"

definition dump_OutcomeFollowupAnalysis :: "pydantic \<Rightarrow> OutcomeFollowupAnalysis \<Rightarrow> json" where
  "dump_OutcomeFollowupAnalysis lib x = JObj
     [(''resolution_status'', JStr (ResolutionStatus_value (resolution_status x))),
      (''final_outcome'', dump_optional JStr (final_outcome x)),
      (''followup_actions'', JArr (map (dump_FollowupAction lib) (followup_actions x))),
      (''escalation_required'', JBool (escalation_required x)),
      (''escalation_reason'', dump_optional JStr (escalation_reason x)),
      (''notes'', dump_optional JStr (ofa_notes x))]"

subsection \<open>Custom metrics\<close>

record CustomMetrics =
  appointment_booked :: "bool option"
  appointment_rescheduled :: "bool option"
  refund_requested :: "bool option"
  upsell_attempted :: "bool option"
  upsell_successful :: "bool option"
  extra :: "(string \<times> json) list"

definition validate_CustomMetrics :: "pydantic \<Rightarrow> json \<Rightarrow> CustomMetrics option" where
  "validate_CustomMetrics lib j =
     (case j of
        JObj obj \<Rightarrow> do {
          a \<leftarrow> with_default None (validate_optional (validate_bool lib)) obj ''appointment_booked'';
          b \<leftarrow> with_default None (validate_optional (validate_bool lib)) obj
                 ''appointment_rescheduled'';
          c \<leftarrow> with_default None (validate_optional (validate_bool lib)) obj ''refund_requested'';
          d \<leftarrow> with_default None (validate_optional (validate_bool lib)) obj ''upsell_attempted'';
          e \<leftarrow> with_default None (validate_optional (validate_bool lib)) obj ''upsell_successful'';
          f \<leftarrow> with_default [] validate_dict_any obj ''extra'';
          Some \<lparr>appointment_booked = a, appointment_rescheduled = b, refund_requested = c,
                upsell_attempted = d, upsell_successful = e, extra = f\<rparr>
        }
      | _ \<Rightarrow> None)"

definition dump_CustomMetrics :: "pydantic \<Rightarrow> CustomMetrics \<Rightarrow> json" where
  "dump_CustomMetrics lib m = JObj
     [(''appointment_booked'', dump_optional JBool (appointment_booked m)),
      (''appointment_rescheduled'', dump_optional JBool (appointment_rescheduled m)),
      (''refund_requested'', dump_optional JBool (refund_requested m)),
      (''upsell_attempted'', dump_optional JBool (upsell_attempted m)),
      (''upsell_successful'', dump_optional JBool (upsell_successful m)),
      (''extra'', dump_any lib (JObj (extra m)))]"

subsection \<open>The full per-call record\<close>

record CallAnalysis =
  metadata :: CallMetadata
  transcript :: string
  sentiment :: "SentimentAnalysis option"
  intent_and_topics :: "IntentTopicsAnalysis option"
  call_quality :: "CallQualityAnalysis option"
  compliance_and_risk :: "ComplianceRiskAnalysis option"
  outcome_and_followup :: "OutcomeFollowupAnalysis option"
  custom_metrics :: "CustomMetrics option"
  raw_llm_outputs :: "(string \<times> json) list"

text \<open>\<open>CallAnalysis.model_validate(data)\<close>; \<open>None\<close> stands for \<open>ValidationError\<close>.\<close>

definition validate_CallAnalysis :: "pydantic \<Rightarrow> json \<Rightarrow> CallAnalysis option" where
  "validate_CallAnalysis lib j =
     (case j of
        JObj obj \<Rightarrow> do {
          a \<leftarrow> required (validate_CallMetadata lib) obj ''metadata'';
          b \<leftarrow> required validate_str obj ''transcript'';
          c \<leftarrow> with_default None (validate_optional (validate_SentimentAnalysis lib)) obj
                 ''sentiment'';
          d \<leftarrow> with_default None (validate_optional (validate_IntentTopicsAnalysis lib)) obj
                 ''intent_and_topics'';
          e \<leftarrow> with_default None (validate_optional (validate_CallQualityAnalysis lib)) obj
                 ''call_quality'';
          f \<leftarrow> with_default None (validate_optional validate_ComplianceRiskAnalysis) obj
                 ''compliance_and_risk'';
          g \<leftarrow> with_default None (validate_optional (validate_OutcomeFollowupAnalysis lib)) obj
                 ''outcome_and_followup'';
          h \<leftarrow> with_default None (validate_optional (validate_CustomMetrics lib)) obj
                 ''custom_metrics'';
          i \<leftarrow> with_default [] validate_dict_any obj ''raw_llm_outputs'';
          Some \<lparr>metadata = a, transcript = b, sentiment = c, intent_and_topics = d,
                call_quality = e, compliance_and_risk = f, outcome_and_followup = g,
                custom_metrics = h, raw_llm_outputs = i\<rparr>
        }
      | _ \<Rightarrow> None)"

text \<open>\<open>call.model_dump(mode="json")\<close>: every field, in declaration order.\<close>

definition dump_CallAnalysis :: "pydantic \<Rightarrow> CallAnalysis \<Rightarrow> json" where
  "dump_CallAnalysis lib c = JObj
     [(''metadata'', dump_CallMetadata lib (metadata c)),
      (''transcript'', JStr (transcript c)),
      (''sentiment'', dump_optional (dump_SentimentAnalysis lib) (sentiment c)),
      (''intent_and_topics'',
         dump_optional (dump_IntentTopicsAnalysis lib) (intent_and_topics c)),
      (''call_quality'', dump_optional dump_CallQualityAnalysis (call_quality c)),
      (''compliance_and_risk'', dump_optional dump_ComplianceRiskAnalysis (compliance_and_risk c)),
      (''outcome_and_followup'',
         dump_optional (dump_OutcomeFollowupAnalysis lib) (outcome_and_followup c)),
      (''custom_metrics'', dump_optional (dump_CustomMetrics lib) (custom_metrics c)),
      (''raw_llm_outputs'', dump_any lib (JObj (raw_llm_outputs c)))]"


section \<open>The analysis stages (\<open>app/analysis_*.py\<close>)\<close>

datatype stage = Sentiment | IntentTopics | Quality | Compliance | Outcome

datatype facet =
    SentimentFacet SentimentAnalysis
  | IntentTopicsFacet IntentTopicsAnalysis
  | QualityFacet CallQualityAnalysis
  | ComplianceFacet ComplianceRiskAnalysis
  | OutcomeFacet OutcomeFollowupAnalysis

text \<open>The \<open>model_validate(data)\<close> call that ends each \<open>analyze_*_for_call\<close>.\<close>

fun validate_facet :: "pydantic \<Rightarrow> stage \<Rightarrow> json \<Rightarrow> facet option" where
  "validate_facet lib Sentiment j = map_option SentimentFacet (validate_SentimentAnalysis lib j)"
| "validate_facet lib IntentTopics j =
     map_option IntentTopicsFacet (validate_IntentTopicsAnalysis lib j)"
| "validate_facet lib Quality j = map_option QualityFacet (validate_CallQualityAnalysis lib j)"
| "validate_facet lib Compliance j = map_option ComplianceFacet (validate_ComplianceRiskAnalysis j)"
| "validate_facet lib Outcome j =
     map_option OutcomeFacet (validate_OutcomeFollowupAnalysis lib j)"

text \<open>The field names each facet class declares.\<close>

fun field_names :: "stage \<Rightarrow> string list" where
  "field_names Sentiment =
     [''overall'', ''score'', ''emotion_tags'', ''sentiment_timeline'', ''notes'']"
| "field_names IntentTopics =
     [''primary_intent'', ''secondary_intents'', ''topics'', ''key_phrases'',
      ''intent_confidence'', ''notes'']"
| "field_names Quality =
     [''overall_quality_score'', ''scores'', ''strengths'', ''improvements'', ''notes'']"
| "field_names Compliance =
     [''required_phrases_present'', ''missing_required_phrases'',
      ''forbidden_phrases_detected'', ''pii_detected'', ''risk_level'', ''notes'']"
| "field_names Outcome =
     [''resolution_status'', ''final_outcome'', ''followup_actions'', ''escalation_required'',
      ''escalation_reason'', ''notes'']"

text \<open>
  The variables a stage fills into its prompt: the dumped call metadata, the transcript
  and, for the compliance stage only, the two phrase lists.
\<close>

record prompt_vars =
  call_metadata_json :: json
  prompt_transcript :: string
  required_phrases_json :: "string list option"
  forbidden_phrases_json :: "string list option"

text \<open>
  What \<open>chain.invoke\<close> does: it raises (transport, authentication, rate limit), or it
  returns a response whose \<open>content\<close> is a string or something else.
\<close>

datatype llm_response = InvokeRaises | NonStrContent | StrContent rawtext

type_synonym chat_model = "stage \<Rightarrow> prompt_vars \<Rightarrow> llm_response"

datatype error =
    FileNotFoundError
  | JSONDecodeError
  | ValidationError
  | ValueError_expected_string
  | ValueError_failed_to_parse
  | LLMError
  | IndexError
  | QueryError

definition build_prompt_vars ::
  "pydantic \<Rightarrow> stage \<Rightarrow> string list \<Rightarrow> string list \<Rightarrow> CallAnalysis \<Rightarrow> prompt_vars" where
  "build_prompt_vars lib stg required_phrases forbidden_phrases call =
     \<lparr>call_metadata_json = dump_CallMetadata lib (metadata call),
      prompt_transcript = transcript call,
      required_phrases_json = (if stg = Compliance then Some required_phrases else None),
      forbidden_phrases_json = (if stg = Compliance then Some forbidden_phrases else None)\<rparr>"

text \<open>
  The common body of \<open>analyze_sentiment_for_call\<close>, \<open>analyze_intent_topics_for_call\<close>,
  \<open>analyze_quality_for_call\<close>, \<open>analyze_compliance_for_call\<close> and
  \<open>analyze_outcome_for_call\<close>, which differ in the prompt, the facet class and (for
  compliance) the phrase lists. \<open>Inl\<close> is the exception raised.
\<close>

definition analyze_for_call ::
  "pydantic \<Rightarrow> chat_model \<Rightarrow> stage \<Rightarrow> string list \<Rightarrow> string list \<Rightarrow> CallAnalysis
     \<Rightarrow> error + (facet \<times> json)" where
  "analyze_for_call lib llm stg required_phrases forbidden_phrases call =
     (case llm stg (build_prompt_vars lib stg required_phrases forbidden_phrases call) of
        InvokeRaises \<Rightarrow> Inl LLMError
      | NonStrContent \<Rightarrow> Inl ValueError_expected_string
      | StrContent content \<Rightarrow>
          (case json_loads content of
             None \<Rightarrow> Inl ValueError_failed_to_parse
           | Some data \<Rightarrow>
               (case validate_facet lib stg data of
                  None \<Rightarrow> Inl ValidationError
                | Some model \<Rightarrow> Inr (model, data))))"

definition analyze_sentiment_for_call ::
  "pydantic \<Rightarrow> chat_model \<Rightarrow> CallAnalysis \<Rightarrow> error + (facet \<times> json)" where
  "analyze_sentiment_for_call lib llm call = analyze_for_call lib llm Sentiment [] [] call"

definition analyze_intent_topics_for_call ::
  "pydantic \<Rightarrow> chat_model \<Rightarrow> CallAnalysis \<Rightarrow> error + (facet \<times> json)" where
  "analyze_intent_topics_for_call lib llm call = analyze_for_call lib llm IntentTopics [] [] call"

definition analyze_quality_for_call ::
  "pydantic \<Rightarrow> chat_model \<Rightarrow> CallAnalysis \<Rightarrow> error + (facet \<times> json)" where
  "analyze_quality_for_call lib llm call = analyze_for_call lib llm Quality [] [] call"

definition analyze_compliance_for_call ::
  "pydantic \<Rightarrow> chat_model \<Rightarrow> string list option \<Rightarrow> string list option \<Rightarrow> CallAnalysis
     \<Rightarrow> error + (facet \<times> json)" where
  "analyze_compliance_for_call lib llm required_phrases forbidden_phrases call =
     analyze_for_call lib llm Compliance
       (case required_phrases of None \<Rightarrow> [] | Some ps \<Rightarrow> ps)
       (case forbidden_phrases of None \<Rightarrow> [] | Some ps \<Rightarrow> ps) call"

definition analyze_outcome_for_call ::
  "pydantic \<Rightarrow> chat_model \<Rightarrow> CallAnalysis \<Rightarrow> error + (facet \<times> json)" where
  "analyze_outcome_for_call lib llm call = analyze_for_call lib llm Outcome [] [] call"

section \<open>The stage runner (\<open>app/analysis_runner.py\<close>)\<close>

type_synonym path = string

datatype event = NoCallFiles | Found nat | Processing path | AlreadyPresentSkipping | AnalysisSaved

text \<open>
  What a run reads and changes: the files under \<open>data/calls\<close>, the lines printed, and
  the prompts sent to the LLM.
\<close>

record world =
  files :: "path \<rightharpoonup> rawtext"
  printed :: "event list"
  llm_calls :: "(stage \<times> prompt_vars) list"

definition load_call :: "pydantic \<Rightarrow> world \<Rightarrow> path \<Rightarrow> error + CallAnalysis" where
  "load_call lib w p =
     (case files w p of
        None \<Rightarrow> Inl FileNotFoundError
      | Some content \<Rightarrow>
          (case json_loads content of
             None \<Rightarrow> Inl JSONDecodeError
           | Some data \<Rightarrow>
               (case validate_CallAnalysis lib data of
                  None \<Rightarrow> Inl ValidationError
                | Some call \<Rightarrow> Inr call)))"

definition save_call :: "pydantic \<Rightarrow> path \<Rightarrow> CallAnalysis \<Rightarrow> world \<Rightarrow> world" where
  "save_call lib p call w = w\<lparr>files := (files w)(p \<mapsto> JsonText (dump_CallAnalysis lib call))\<rparr>"

definition print :: "event \<Rightarrow> world \<Rightarrow> world" where
  "print e w = w\<lparr>printed := printed w @ [e]\<rparr>"

fun get_facet :: "stage \<Rightarrow> CallAnalysis \<Rightarrow> facet option" where
  "get_facet Sentiment call = map_option SentimentFacet (sentiment call)"
| "get_facet IntentTopics call = map_option IntentTopicsFacet (intent_and_topics call)"
| "get_facet Quality call = map_option QualityFacet (call_quality call)"
| "get_facet Compliance call = map_option ComplianceFacet (compliance_and_risk call)"
| "get_facet Outcome call = map_option OutcomeFacet (outcome_and_followup call)"

fun set_facet :: "facet \<Rightarrow> CallAnalysis \<Rightarrow> CallAnalysis" where
  "set_facet (SentimentFacet m) call = call\<lparr>sentiment := Some m\<rparr>"
| "set_facet (IntentTopicsFacet m) call = call\<lparr>intent_and_topics := Some m\<rparr>"
| "set_facet (QualityFacet m) call = call\<lparr>call_quality := Some m\<rparr>"
| "set_facet (ComplianceFacet m) call = call\<lparr>compliance_and_risk := Some m\<rparr>"
| "set_facet (OutcomeFacet m) call = call\<lparr>outcome_and_followup := Some m\<rparr>"

fun facet_name :: "stage \<Rightarrow> string" where
  "facet_name Sentiment = ''sentiment''"
| "facet_name IntentTopics = ''intent_and_topics''"
| "facet_name Quality = ''call_quality''"
| "facet_name Compliance = ''compliance_and_risk''"
| "facet_name Outcome = ''outcome_and_followup''"

text \<open>
  The assignments between the analysis and \<open>save_call\<close>: the facet field, then
  \<open>call.raw_llm_outputs[name] = raw_json\<close> (a dict store: the value under an existing
  key is replaced in place, a new key goes last). The source's test
  \<open>call.raw_llm_outputs is None\<close> never holds for a loaded record, whose field is a dict.
\<close>

definition attach :: "stage \<Rightarrow> facet \<Rightarrow> json \<Rightarrow> CallAnalysis \<Rightarrow> CallAnalysis" where
  "attach stg model raw_json call =
     (set_facet model call)
       \<lparr>raw_llm_outputs := AList.update (facet_name stg) raw_json (raw_llm_outputs call)\<rparr>"

text \<open>
  One iteration of the \<open>for path in call_paths\<close> loop. The first component is the
  exception that leaves the loop, if any.
\<close>

definition process_path ::
  "pydantic \<Rightarrow> chat_model \<Rightarrow> stage \<Rightarrow> string list \<Rightarrow> string list \<Rightarrow> path \<Rightarrow> world
     \<Rightarrow> error option \<times> world" where
  "process_path lib llm stg required_phrases forbidden_phrases p w0 =
     (let w = print (Processing p) w0 in
      case load_call lib w p of
        Inl e \<Rightarrow> (Some e, w)
      | Inr call \<Rightarrow>
          if get_facet stg call \<noteq> None then (None, print AlreadyPresentSkipping w)
          else
            (let w' = w\<lparr>llm_calls := llm_calls w @
                       [(stg, build_prompt_vars lib stg required_phrases forbidden_phrases call)]\<rparr>
             in case analyze_for_call lib llm stg required_phrases forbidden_phrases call of
                  Inl e \<Rightarrow> (Some e, w')
                | Inr (model, raw_json) \<Rightarrow>
                    (None, print AnalysisSaved
                             (save_call lib p (attach stg model raw_json call) w'))))"

fun run_loop ::
  "pydantic \<Rightarrow> chat_model \<Rightarrow> stage \<Rightarrow> string list \<Rightarrow> string list \<Rightarrow> path list \<Rightarrow> world
     \<Rightarrow> error option \<times> world" where
  "run_loop lib llm stg rp fp [] w = (None, w)"
| "run_loop lib llm stg rp fp (p # ps) w =
     (case process_path lib llm stg rp fp p w of
        (Some e, w') \<Rightarrow> (Some e, w')
      | (None, w') \<Rightarrow> run_loop lib llm stg rp fp ps w')"

text \<open>
  The common body of the five \<open>run_*_for_all_calls\<close>. \<open>call_paths\<close> is what
  \<open>list_call_files(data_dir)\<close> returned: the sorted \<open>*.json\<close> paths under
  \<open>data/calls\<close>. The functions return \<open>None\<close>; the first component of the result is the
  exception that ended the run, if any.
\<close>

definition run_stage_for_all_calls ::
  "pydantic \<Rightarrow> chat_model \<Rightarrow> stage \<Rightarrow> string list \<Rightarrow> string list \<Rightarrow> path list \<Rightarrow> world
     \<Rightarrow> error option \<times> world" where
  "run_stage_for_all_calls lib llm stg rp fp call_paths w =
     (if call_paths = [] then (None, print NoCallFiles w)
      else run_loop lib llm stg rp fp call_paths (print (Found (length call_paths)) w))"

definition run_sentiment_for_all_calls ::
  "pydantic \<Rightarrow> chat_model \<Rightarrow> path list \<Rightarrow> world \<Rightarrow> error option \<times> world" where
  "run_sentiment_for_all_calls lib llm = run_stage_for_all_calls lib llm Sentiment [] []"

definition run_intent_topics_for_all_calls ::
  "pydantic \<Rightarrow> chat_model \<Rightarrow> path list \<Rightarrow> world \<Rightarrow> error option \<times> world" where
  "run_intent_topics_for_all_calls lib llm = run_stage_for_all_calls lib llm IntentTopics [] []"

definition run_quality_for_all_calls ::
  "pydantic \<Rightarrow> chat_model \<Rightarrow> path list \<Rightarrow> world \<Rightarrow> error option \<times> world" where
  "run_quality_for_all_calls lib llm = run_stage_for_all_calls lib llm Quality [] []"

definition run_compliance_for_all_calls ::
  "pydantic \<Rightarrow> chat_model \<Rightarrow> string list option \<Rightarrow> string list option \<Rightarrow> path list \<Rightarrow> world
     \<Rightarrow> error option \<times> world" where
  "run_compliance_for_all_calls lib llm required_phrases forbidden_phrases =
     run_stage_for_all_calls lib llm Compliance
       (case required_phrases of None \<Rightarrow> [] | Some ps \<Rightarrow> ps)
       (case forbidden_phrases of None \<Rightarrow> [] | Some ps \<Rightarrow> ps)"

definition run_outcome_for_all_calls ::
  "pydantic \<Rightarrow> chat_model \<Rightarrow> path list \<Rightarrow> world \<Rightarrow> error option \<times> world" where
  "run_outcome_for_all_calls lib llm = run_stage_for_all_calls lib llm Outcome [] []"


section \<open>A concrete instance of the library parameters\<close>

text \<open>
  The instance the examples below are evaluated with: no lax conversion at all, calendar
  dates in the ISO form \<open>YYYY-MM-DD\<close>, naive datetimes with whole seconds in the form
  \<open>YYYY-MM-DDTHH:MM:SS\<close>, and \<open>null\<close> written for an infinite or NaN float, which is the
  default of \<open>ser_json_inf_nan\<close>. On the payloads of the examples the library in its
  default configuration agrees with it.
\<close>

definition digit_char :: "nat \<Rightarrow> char" where
  "digit_char n = ''0123456789'' ! (n mod 10)"

definition digit_val :: "char \<Rightarrow> nat option" where
  "digit_val c =
     (let n = (of_char c :: nat) in if 48 \<le> n \<and> n \<le> 57 then Some (n - 48) else None)"

definition format_iso_date :: "pydate \<Rightarrow> string" where
  "format_iso_date d =
     [digit_char (year d div 1000), digit_char (year d div 100), digit_char (year d div 10),
      digit_char (year d), CHR ''-'', digit_char (month d div 10), digit_char (month d),
      CHR ''-'', digit_char (day d div 10), digit_char (day d)]"

definition parse_iso_date_str :: "string \<Rightarrow> pydate option" where
  "parse_iso_date_str s =
     (if length s = 10 \<and> s ! 4 = CHR ''-'' \<and> s ! 7 = CHR ''-'' then
        (case those (map digit_val [s ! 0, s ! 1, s ! 2, s ! 3, s ! 5, s ! 6, s ! 8, s ! 9]) of
           Some [a, b, c, d, e, f, g, h] \<Rightarrow>
             Some (Date (1000 * a + 100 * b + 10 * c + d) (10 * e + f) (10 * g + h))
         | _ \<Rightarrow> None)
      else None)"

definition format_iso_datetime :: "pydatetime \<Rightarrow> string" where
  "format_iso_datetime t =
     format_iso_date (date_part t) @
     [CHR ''T'', digit_char (hour t div 10), digit_char (hour t), CHR '':'',
      digit_char (minute t div 10), digit_char (minute t), CHR '':'',
      digit_char (second t div 10), digit_char (second t)]"

definition parse_iso_datetime_str :: "string \<Rightarrow> pydatetime option" where
  "parse_iso_datetime_str s =
     (if length s = 19 \<and> s ! 10 = CHR ''T'' \<and> s ! 13 = CHR '':'' \<and> s ! 16 = CHR '':'' then
        (case (parse_iso_date_str (take 10 s),
               those (map digit_val [s ! 11, s ! 12, s ! 14, s ! 15, s ! 17, s ! 18])) of
           (Some d, Some [a, b, c, e, f, g]) \<Rightarrow>
             Some (DateTime d (10 * a + b) (10 * c + e) (10 * f + g) 0 None)
         | _ \<Rightarrow> None)
      else None)"

definition example_lib :: pydantic where
  "example_lib =
     \<lparr>lax_int = (\<lambda>j. None), lax_float = (\<lambda>j. None), lax_bool = (\<lambda>j. None),
      ser_json_inf_nan = (\<lambda>x. JNull),
      parse_datetime = (\<lambda>j. case j of JStr s \<Rightarrow> parse_iso_datetime_str s | _ \<Rightarrow> None),
      format_datetime = format_iso_datetime,
      parse_date = (\<lambda>j. case j of JStr s \<Rightarrow> parse_iso_date_str s | _ \<Rightarrow> None),
      format_date = format_iso_date\<rparr>"

lemmas model_defs =
  validate_CallAnalysis_def validate_CallMetadata_def validate_SentimentAnalysis_def
  validate_SentimentSegment_def validate_IntentTopicsAnalysis_def
  validate_CallQualityAnalysis_def validate_CallQualityScores_def
  validate_ComplianceRiskAnalysis_def validate_PIIRedaction_def
  validate_OutcomeFollowupAnalysis_def validate_FollowupAction_def validate_CustomMetrics_def
  dump_CallAnalysis_def dump_CallMetadata_def dump_SentimentAnalysis_def
  dump_SentimentSegment_def dump_IntentTopicsAnalysis_def dump_CallQualityAnalysis_def
  dump_CallQualityScores_def dump_ComplianceRiskAnalysis_def dump_PIIRedaction_def
  dump_OutcomeFollowupAnalysis_def dump_FollowupAction_def dump_CustomMetrics_def
  required_def with_default_def validate_optional_def dump_optional_def validate_str_def
  validate_int_def validate_float_def dump_float_def validate_bool_def validate_dict_any_def
  validate_list_def dump_str_list_def validate_enum_def validate_SentimentLabel_def
  validate_RiskLevel_def validate_ResolutionStatus_def validate_datetime_def
  validate_date_def dump_datetime_def dump_date_def default_CallQualityScores_def

lemmas example_lib_defs =
  example_lib_def parse_iso_date_str_def format_iso_date_def parse_iso_datetime_str_def
  format_iso_datetime_def digit_char_def digit_val_def

section \<open>Validation of facet payloads\<close>

lemma those_map_None: "x \<in> set xs \<Longrightarrow> v x = None \<Longrightarrow> those (map v xs) = None"
  by (induction xs) (auto split: option.splits)

lemma validate_list_None:
  "x \<in> set xs \<Longrightarrow> v x = None \<Longrightarrow> validate_list v (JArr xs) = None"
  by (simp add: validate_list_def those_map_None)

lemma bind_None_right: "Option.bind x (\<lambda>_. None) = None"
  by (cases x) simp_all

lemma sentiment_overall_required:
  "map_of obj ''overall'' = None \<Longrightarrow> validate_facet lib Sentiment (JObj obj) = None"
  by (simp add: validate_SentimentAnalysis_def required_def)

lemma validate_SentimentLabel_out_of_set:
  "v \<notin> {JStr ''positive'', JStr ''neutral'', JStr ''negative''} \<Longrightarrow>
   validate_SentimentLabel v = None"
  by (cases v) (auto simp: validate_SentimentLabel_def validate_enum_def)

lemma validate_RiskLevel_out_of_set:
  "v \<notin> {JStr ''low'', JStr ''medium'', JStr ''high'', JStr ''critical''} \<Longrightarrow>
   validate_RiskLevel v = None"
  by (cases v) (auto simp: validate_RiskLevel_def validate_enum_def)

lemma validate_ResolutionStatus_out_of_set:
  "v \<notin> {JStr ''resolved'', JStr ''partially_resolved'', JStr ''unresolved''} \<Longrightarrow>
   validate_ResolutionStatus v = None"
  by (cases v) (auto simp: validate_ResolutionStatus_def validate_enum_def)

lemma sentiment_overall_enum:
  "map_of obj ''overall'' = Some v \<Longrightarrow>
   v \<notin> {JStr ''positive'', JStr ''neutral'', JStr ''negative''} \<Longrightarrow>
   validate_facet lib Sentiment (JObj obj) = None"
  by (simp add: validate_SentimentAnalysis_def required_def validate_SentimentLabel_out_of_set)

lemma compliance_risk_level_enum:
  "map_of obj ''risk_level'' = Some v \<Longrightarrow>
   v \<notin> {JStr ''low'', JStr ''medium'', JStr ''high'', JStr ''critical''} \<Longrightarrow>
   validate_facet lib Compliance (JObj obj) = None"
  by (simp add: validate_ComplianceRiskAnalysis_def with_default_def
      validate_RiskLevel_out_of_set bind_None_right)

lemma outcome_resolution_status_enum:
  "map_of obj ''resolution_status'' = Some v \<Longrightarrow>
   v \<notin> {JStr ''resolved'', JStr ''partially_resolved'', JStr ''unresolved''} \<Longrightarrow>
   validate_facet lib Outcome (JObj obj) = None"
  by (simp add: validate_OutcomeFollowupAnalysis_def with_default_def
      validate_ResolutionStatus_out_of_set)

lemma extra_field_ignored:
  "k \<notin> set (field_names stg) \<Longrightarrow>
   validate_facet lib stg (JObj ((k, v) # obj)) = validate_facet lib stg (JObj obj)"
  by (cases stg)
     (auto simp: validate_SentimentAnalysis_def validate_IntentTopicsAnalysis_def
        validate_CallQualityAnalysis_def validate_ComplianceRiskAnalysis_def
        validate_OutcomeFollowupAnalysis_def required_def with_default_def)

lemma compliance_risk_level_default:
  "map_of obj ''risk_level'' = None \<Longrightarrow>
   validate_facet lib Compliance (JObj obj) =
   validate_facet lib Compliance (JObj ((''risk_level'', JStr ''low'') # obj))"
  by (simp add: validate_ComplianceRiskAnalysis_def with_default_def validate_RiskLevel_def
      validate_enum_def)

lemma outcome_resolution_status_default:
  "map_of obj ''resolution_status'' = None \<Longrightarrow>
   validate_facet lib Outcome (JObj obj) =
   validate_facet lib Outcome (JObj ((''resolution_status'', JStr ''unresolved'') # obj))"
  by (simp add: validate_OutcomeFollowupAnalysis_def with_default_def
      validate_ResolutionStatus_def validate_enum_def)

lemma segment_fields_required:
  assumes "map_of obj ''sentiment_timeline'' = Some (JArr items)" and "JObj item \<in> set items"
    and "map_of item ''segment_label'' = None \<or> map_of item ''sentiment'' = None"
  shows "validate_facet lib Sentiment (JObj obj) = None"
proof -
  from assms(3) have "validate_SentimentSegment lib (JObj item) = None"
    by (auto simp: validate_SentimentSegment_def required_def bind_None_right)
  with assms(2) have "validate_list (validate_SentimentSegment lib) (JArr items) = None"
    by (rule validate_list_None)
  with assms(1) show ?thesis
    by (simp add: validate_SentimentAnalysis_def with_default_def bind_None_right)
qed

lemma pii_type_required:
  assumes "map_of obj ''pii_detected'' = Some (JArr items)" and "JObj item \<in> set items"
    and "map_of item ''type'' = None"
  shows "validate_facet lib Compliance (JObj obj) = None"
proof -
  from assms(3) have "validate_PIIRedaction (JObj item) = None"
    by (simp add: validate_PIIRedaction_def required_def)
  with assms(2) have "validate_list validate_PIIRedaction (JArr items) = None"
    by (rule validate_list_None)
  with assms(1) show ?thesis
    by (simp add: validate_ComplianceRiskAnalysis_def with_default_def bind_None_right)
qed

lemma followup_description_required:
  assumes "map_of obj ''followup_actions'' = Some (JArr items)" and "JObj item \<in> set items"
    and "map_of item ''description'' = None"
  shows "validate_facet lib Outcome (JObj obj) = None"
proof -
  from assms(3) have "validate_FollowupAction lib (JObj item) = None"
    by (simp add: validate_FollowupAction_def required_def)
  with assms(2) have "validate_list (validate_FollowupAction lib) (JArr items) = None"
    by (rule validate_list_None)
  with assms(1) show ?thesis
    by (simp add: validate_OutcomeFollowupAnalysis_def with_default_def bind_None_right)
qed

text \<open>
  C4, as stated, fails: a compliance payload that lacks \<open>risk_level\<close> is not rejected.
  The payload below names one missing phrase and nothing else; it validates, and the
  facet's \<open>risk_level\<close> is the declared default \<open>low\<close>.
\<close>

theorem compliance_missing_risk_level_accepted:
  "validate_ComplianceRiskAnalysis
     (JObj [(''missing_required_phrases'', JArr [JStr ''your call is being recorded''])]) =
   Some \<lparr>required_phrases_present = [],
         missing_required_phrases = [''your call is being recorded''],
         forbidden_phrases_detected = [], pii_detected = [], risk_level = low,
         cra_notes = None\<rparr>"
  by (simp add: validate_ComplianceRiskAnalysis_def with_default_def validate_list_def
      validate_str_def)

text \<open>
  C4, amended. Validation of a facet payload fails when a field declared without a
  default is absent (\<open>overall\<close> of the sentiment facet; \<open>segment_label\<close> and \<open>sentiment\<close>
  of a timeline segment; \<open>type\<close> of a PII entry; \<open>description\<close> of a follow-up action),
  and when an enumerated field (\<open>overall\<close>, \<open>risk_level\<close>, \<open>resolution_status\<close>) is present
  with a value outside its allowed set. A top-level key that the facet does not declare
  is ignored. \<open>risk_level\<close> and \<open>resolution_status\<close> have defaults: a compliance payload
  without \<open>risk_level\<close> validates exactly as the same payload with \<open>risk_level = "low"\<close>,
  and an outcome payload without \<open>resolution_status\<close> exactly as the same payload with
  \<open>resolution_status = "unresolved"\<close>.
\<close>

theorem facet_validation_strictness:
  "(map_of o1 ''overall'' = None \<longrightarrow> validate_facet lib Sentiment (JObj o1) = None) \<and>
   (map_of o2 ''overall'' = Some v2 \<and>
      v2 \<notin> {JStr ''positive'', JStr ''neutral'', JStr ''negative''} \<longrightarrow>
      validate_facet lib Sentiment (JObj o2) = None) \<and>
   (map_of o3 ''risk_level'' = Some v3 \<and>
      v3 \<notin> {JStr ''low'', JStr ''medium'', JStr ''high'', JStr ''critical''} \<longrightarrow>
      validate_facet lib Compliance (JObj o3) = None) \<and>
   (map_of o4 ''resolution_status'' = Some v4 \<and>
      v4 \<notin> {JStr ''resolved'', JStr ''partially_resolved'', JStr ''unresolved''} \<longrightarrow>
      validate_facet lib Outcome (JObj o4) = None) \<and>
   (map_of o5 ''sentiment_timeline'' = Some (JArr items5) \<and> JObj item5 \<in> set items5 \<and>
      (map_of item5 ''segment_label'' = None \<or> map_of item5 ''sentiment'' = None) \<longrightarrow>
      validate_facet lib Sentiment (JObj o5) = None) \<and>
   (map_of o6 ''pii_detected'' = Some (JArr items6) \<and> JObj item6 \<in> set items6 \<and>
      map_of item6 ''type'' = None \<longrightarrow>
      validate_facet lib Compliance (JObj o6) = None) \<and>
   (map_of o7 ''followup_actions'' = Some (JArr items7) \<and> JObj item7 \<in> set items7 \<and>
      map_of item7 ''description'' = None \<longrightarrow>
      validate_facet lib Outcome (JObj o7) = None) \<and>
   (k \<notin> set (field_names stg) \<longrightarrow>
      validate_facet lib stg (JObj ((k, v) # o8)) = validate_facet lib stg (JObj o8)) \<and>
   (map_of o9 ''risk_level'' = None \<longrightarrow>
      validate_facet lib Compliance (JObj o9) =
      validate_facet lib Compliance (JObj ((''risk_level'', JStr ''low'') # o9))) \<and>
   (map_of o10 ''resolution_status'' = None \<longrightarrow>
      validate_facet lib Outcome (JObj o10) =
      validate_facet lib Outcome (JObj ((''resolution_status'', JStr ''unresolved'') # o10)))"
proof (intro conjI impI)
  show "validate_facet lib Sentiment (JObj o1) = None" if "map_of o1 ''overall'' = None"
    using that by (rule sentiment_overall_required)
  show "validate_facet lib Sentiment (JObj o2) = None"
    if "map_of o2 ''overall'' = Some v2 \<and>
        v2 \<notin> {JStr ''positive'', JStr ''neutral'', JStr ''negative''}"
    using that sentiment_overall_enum [of o2 v2 lib] by blast
  show "validate_facet lib Compliance (JObj o3) = None"
    if "map_of o3 ''risk_level'' = Some v3 \<and>
        v3 \<notin> {JStr ''low'', JStr ''medium'', JStr ''high'', JStr ''critical''}"
    using that compliance_risk_level_enum [of o3 v3 lib] by blast
  show "validate_facet lib Outcome (JObj o4) = None"
    if "map_of o4 ''resolution_status'' = Some v4 \<and>
        v4 \<notin> {JStr ''resolved'', JStr ''partially_resolved'', JStr ''unresolved''}"
    using that outcome_resolution_status_enum [of o4 v4 lib] by blast
  show "validate_facet lib Sentiment (JObj o5) = None"
    if "map_of o5 ''sentiment_timeline'' = Some (JArr items5) \<and> JObj item5 \<in> set items5 \<and>
        (map_of item5 ''segment_label'' = None \<or> map_of item5 ''sentiment'' = None)"
    using that segment_fields_required [of o5 items5 item5 lib] by blast
  show "validate_facet lib Compliance (JObj o6) = None"
    if "map_of o6 ''pii_detected'' = Some (JArr items6) \<and> JObj item6 \<in> set items6 \<and>
        map_of item6 ''type'' = None"
    using that pii_type_required [of o6 items6 item6 lib] by blast
  show "validate_facet lib Outcome (JObj o7) = None"
    if "map_of o7 ''followup_actions'' = Some (JArr items7) \<and> JObj item7 \<in> set items7 \<and>
        map_of item7 ''description'' = None"
    using that followup_description_required [of o7 items7 item7 lib] by blast
  show "validate_facet lib stg (JObj ((k, v) # o8)) = validate_facet lib stg (JObj o8)"
    if "k \<notin> set (field_names stg)"
    using that by (rule extra_field_ignored)
  show "validate_facet lib Compliance (JObj o9) =
        validate_facet lib Compliance (JObj ((''risk_level'', JStr ''low'') # o9))"
    if "map_of o9 ''risk_level'' = None"
    using that by (rule compliance_risk_level_default)
  show "validate_facet lib Outcome (JObj o10) =
        validate_facet lib Outcome (JObj ((''resolution_status'', JStr ''unresolved'') # o10))"
    if "map_of o10 ''resolution_status'' = None"
    using that by (rule outcome_resolution_status_default)
qed


theorem facet_validation_strictness_witness:
  "(map_of [(''score'', JFloat (1 / 10))] ''overall'' = None \<and>
    validate_facet example_lib Sentiment (JObj [(''score'', JFloat (1 / 10))]) = None) \<and>
   (map_of [(''overall'', JStr ''mixed'')] ''overall'' = Some (JStr ''mixed'') \<and>
    JStr ''mixed'' \<notin> {JStr ''positive'', JStr ''neutral'', JStr ''negative''} \<and>
    validate_facet example_lib Sentiment (JObj [(''overall'', JStr ''mixed'')]) = None) \<and>
   (map_of [(''risk_level'', JStr ''severe'')] ''risk_level'' = Some (JStr ''severe'') \<and>
    JStr ''severe'' \<notin> {JStr ''low'', JStr ''medium'', JStr ''high'', JStr ''critical''} \<and>
    validate_facet example_lib Compliance (JObj [(''risk_level'', JStr ''severe'')]) = None) \<and>
   (map_of [(''resolution_status'', JInt 1)] ''resolution_status'' = Some (JInt 1) \<and>
    JInt 1 \<notin> {JStr ''resolved'', JStr ''partially_resolved'', JStr ''unresolved''} \<and>
    validate_facet example_lib Outcome (JObj [(''resolution_status'', JInt 1)]) = None) \<and>
   (map_of [(''overall'', JStr ''neutral''),
            (''sentiment_timeline'', JArr [JObj [(''sentiment'', JStr ''neutral'')]])]
      ''sentiment_timeline'' = Some (JArr [JObj [(''sentiment'', JStr ''neutral'')]]) \<and>
    JObj [(''sentiment'', JStr ''neutral'')] \<in> set [JObj [(''sentiment'', JStr ''neutral'')]] \<and>
    map_of [(''sentiment'', JStr ''neutral'')] ''segment_label'' = None \<and>
    validate_facet example_lib Sentiment
      (JObj [(''overall'', JStr ''neutral''),
             (''sentiment_timeline'', JArr [JObj [(''sentiment'', JStr ''neutral'')]])]) = None) \<and>
   (map_of [(''pii_detected'', JArr [JObj [(''masked_value'', JStr ''+9715XXXXXXX'')]])]
      ''pii_detected'' = Some (JArr [JObj [(''masked_value'', JStr ''+9715XXXXXXX'')]]) \<and>
    JObj [(''masked_value'', JStr ''+9715XXXXXXX'')] \<in>
      set [JObj [(''masked_value'', JStr ''+9715XXXXXXX'')]] \<and>
    map_of [(''masked_value'', JStr ''+9715XXXXXXX'')] ''type'' = None \<and>
    validate_facet example_lib Compliance
      (JObj [(''pii_detected'', JArr [JObj [(''masked_value'', JStr ''+9715XXXXXXX'')]])]) =
      None) \<and>
   (map_of [(''followup_actions'', JArr [JObj [(''owner'', JStr ''agent'')]])]
      ''followup_actions'' = Some (JArr [JObj [(''owner'', JStr ''agent'')]]) \<and>
    JObj [(''owner'', JStr ''agent'')] \<in> set [JObj [(''owner'', JStr ''agent'')]] \<and>
    map_of [(''owner'', JStr ''agent'')] ''description'' = None \<and>
    validate_facet example_lib Outcome
      (JObj [(''followup_actions'', JArr [JObj [(''owner'', JStr ''agent'')]])]) = None) \<and>
   (''confidence'' \<notin> set (field_names Sentiment) \<and>
    validate_facet example_lib Sentiment
      (JObj [(''confidence'', JFloat (9 / 10)), (''overall'', JStr ''positive'')]) =
    validate_facet example_lib Sentiment (JObj [(''overall'', JStr ''positive'')])) \<and>
   (map_of [(''notes'', JStr ''no issues'')] ''risk_level'' = None \<and>
    validate_facet example_lib Compliance (JObj [(''notes'', JStr ''no issues'')]) =
    validate_facet example_lib Compliance
      (JObj [(''risk_level'', JStr ''low''), (''notes'', JStr ''no issues'')])) \<and>
   (map_of [(''escalation_required'', JBool True)] ''resolution_status'' = None \<and>
    validate_facet example_lib Outcome (JObj [(''escalation_required'', JBool True)]) =
    validate_facet example_lib Outcome
      (JObj [(''resolution_status'', JStr ''unresolved''), (''escalation_required'', JBool True)]))"
  using facet_validation_strictness
    [where lib = example_lib
       and ?o1.0 = "[(''score'', JFloat (1 / 10))]"
       and ?o2.0 = "[(''overall'', JStr ''mixed'')]" and ?v2.0 = "JStr ''mixed''"
       and ?o3.0 = "[(''risk_level'', JStr ''severe'')]" and ?v3.0 = "JStr ''severe''"
       and ?o4.0 = "[(''resolution_status'', JInt 1)]" and ?v4.0 = "JInt 1"
       and ?o5.0 = "[(''overall'', JStr ''neutral''),
                (''sentiment_timeline'', JArr [JObj [(''sentiment'', JStr ''neutral'')]])]"
       and ?items5.0 = "[JObj [(''sentiment'', JStr ''neutral'')]]"
       and ?item5.0 = "[(''sentiment'', JStr ''neutral'')]"
       and ?o6.0 = "[(''pii_detected'', JArr [JObj [(''masked_value'', JStr ''+9715XXXXXXX'')]])]"
       and ?items6.0 = "[JObj [(''masked_value'', JStr ''+9715XXXXXXX'')]]"
       and ?item6.0 = "[(''masked_value'', JStr ''+9715XXXXXXX'')]"
       and ?o7.0 = "[(''followup_actions'', JArr [JObj [(''owner'', JStr ''agent'')]])]"
       and ?items7.0 = "[JObj [(''owner'', JStr ''agent'')]]"
       and ?item7.0 = "[(''owner'', JStr ''agent'')]"
       and k = "''confidence''" and stg = Sentiment and v = "JFloat (9 / 10)"
       and ?o8.0 = "[(''overall'', JStr ''positive'')]"
       and ?o9.0 = "[(''notes'', JStr ''no issues'')]"
       and ?o10.0 = "[(''escalation_required'', JBool True)]"]
  by simp


section \<open>Quality scores\<close>

lemma validate_optional_roundtrip:
  "(\<And>y. x = Some y \<Longrightarrow> v (d y) = Some y \<and> d y \<noteq> JNull) \<Longrightarrow>
   validate_optional v (dump_optional d x) = Some x"
  by (cases x) (auto simp: validate_optional_def dump_optional_def split: json.splits)

lemma opt_int_roundtrip: "validate_optional (validate_int lib) (dump_optional JInt x) = Some x"
  by (rule validate_optional_roundtrip) (simp add: validate_int_def)

text \<open>
  C5, as stated, fails: the score fields are declared \<open>Optional[int]\<close> with no bounds.
  A payload with \<open>overall_quality_score = 150\<close> and \<open>greeting = -5\<close> validates, and the
  facet keeps both values.
\<close>

theorem quality_score_out_of_range_accepted:
  "validate_CallQualityAnalysis example_lib
     (JObj [(''overall_quality_score'', JInt 150),
            (''scores'', JObj [(''greeting'', JInt (- 5))])]) =
   Some \<lparr>overall_quality_score = Some 150,
         scores = \<lparr>greeting = Some (- 5), listening_and_empathy = None,
                   clarity_of_explanations = None, professionalism = None,
                   script_adherence = None\<rparr>,
         strengths = [], improvements = [], cqa_notes = None\<rparr>"
  by (simp add: validate_CallQualityAnalysis_def validate_CallQualityScores_def
      with_default_def validate_optional_def validate_int_def)

text \<open>
  C5, amended. Validation accepts \<open>overall_quality_score\<close> and each of the five
  sub-scores whenever the supplied value is an integer, of any sign and size, or null,
  and also when the key (or the whole \<open>scores\<close> object) is absent; the value is kept as
  it is. No range is checked.
\<close>

theorem quality_scores_not_range_checked:
  fixes n a b c d e :: "int option"
  shows
  "validate_facet lib Quality
     (JObj [(''overall_quality_score'', dump_optional JInt n),
            (''scores'', JObj [(''greeting'', dump_optional JInt a),
                               (''listening_and_empathy'', dump_optional JInt b),
                               (''clarity_of_explanations'', dump_optional JInt c),
                               (''professionalism'', dump_optional JInt d),
                               (''script_adherence'', dump_optional JInt e)])]) =
   Some (QualityFacet
     \<lparr>overall_quality_score = n,
      scores = \<lparr>greeting = a, listening_and_empathy = b, clarity_of_explanations = c,
                professionalism = d, script_adherence = e\<rparr>,
      strengths = [], improvements = [], cqa_notes = None\<rparr>) \<and>
   validate_facet lib Quality (JObj []) =
   Some (QualityFacet
     \<lparr>overall_quality_score = None, scores = default_CallQualityScores,
      strengths = [], improvements = [], cqa_notes = None\<rparr>)"
proof
  have sub:
    "validate_CallQualityScores lib
       (JObj [(''greeting'', dump_optional JInt a),
              (''listening_and_empathy'', dump_optional JInt b),
              (''clarity_of_explanations'', dump_optional JInt c),
              (''professionalism'', dump_optional JInt d),
              (''script_adherence'', dump_optional JInt e)]) =
     Some \<lparr>greeting = a, listening_and_empathy = b, clarity_of_explanations = c,
           professionalism = d, script_adherence = e\<rparr>"
    by (simp add: validate_CallQualityScores_def with_default_def opt_int_roundtrip)
  show "validate_facet lib Quality
     (JObj [(''overall_quality_score'', dump_optional JInt n),
            (''scores'', JObj [(''greeting'', dump_optional JInt a),
                               (''listening_and_empathy'', dump_optional JInt b),
                               (''clarity_of_explanations'', dump_optional JInt c),
                               (''professionalism'', dump_optional JInt d),
                               (''script_adherence'', dump_optional JInt e)])]) =
   Some (QualityFacet
     \<lparr>overall_quality_score = n,
      scores = \<lparr>greeting = a, listening_and_empathy = b, clarity_of_explanations = c,
                professionalism = d, script_adherence = e\<rparr>,
      strengths = [], improvements = [], cqa_notes = None\<rparr>)"
    by (simp add: validate_CallQualityAnalysis_def with_default_def opt_int_roundtrip sub)
  show "validate_facet lib Quality (JObj []) =
   Some (QualityFacet
     \<lparr>overall_quality_score = None, scores = default_CallQualityScores,
      strengths = [], improvements = [], cqa_notes = None\<rparr>)"
    by (simp add: validate_CallQualityAnalysis_def with_default_def)
qed


section \<open>Saving and loading a call record\<close>

text \<open>
  The library reads back a date or datetime as it wrote it. \<open>dates_read_back\<close> says so
  for the dates a record holds: the two optional timestamps of its metadata and the due
  dates of its follow-up actions.
\<close>

definition datetime_reads_back :: "pydantic \<Rightarrow> pydatetime \<Rightarrow> bool" where
  "datetime_reads_back lib t \<longleftrightarrow> validate_datetime lib (dump_datetime lib t) = Some t"

definition date_reads_back :: "pydantic \<Rightarrow> pydate \<Rightarrow> bool" where
  "date_reads_back lib d \<longleftrightarrow> validate_date lib (dump_date lib d) = Some d"

definition dates_read_back :: "pydantic \<Rightarrow> CallAnalysis \<Rightarrow> bool" where
  "dates_read_back lib call \<longleftrightarrow>
     (\<forall>t \<in> set_option (call_start_time (metadata call)). datetime_reads_back lib t) \<and>
     (\<forall>t \<in> set_option (call_end_time (metadata call)). datetime_reads_back lib t) \<and>
     (\<forall>x \<in> set_option (outcome_and_followup call).
        \<forall>a \<in> set (followup_actions x).
          \<forall>d \<in> set_option (due_date a). date_reads_back lib d)"

text \<open>
  The floats of a record are finite: no \<open>float\<close> field of the record and no value under
  its \<open>Any\<close>-typed dicts (\<open>extra_metadata\<close>, \<open>extra\<close>, \<open>raw_llm_outputs\<close>) is infinite
  or NaN.
\<close>

fun json_finite :: "json \<Rightarrow> bool" where
  "json_finite (JInfNaN x) = False"
| "json_finite (JArr xs) = (\<forall>x \<in> set xs. json_finite x)"
| "json_finite (JObj kvs) = (\<forall>kv \<in> set kvs. json_finite (snd kv))"
| "json_finite j = True"

definition float_finite :: "pyfloat option \<Rightarrow> bool" where
  "float_finite x = (case x of Some (NonFinite i) \<Rightarrow> False | _ \<Rightarrow> True)"

definition finite_floats :: "CallAnalysis \<Rightarrow> bool" where
  "finite_floats call \<longleftrightarrow>
     float_finite (duration_seconds (metadata call)) \<and>
     json_finite (JObj (extra_metadata (metadata call))) \<and>
     (\<forall>s \<in> set_option (sentiment call).
        float_finite (score s) \<and>
        (\<forall>g \<in> set (sentiment_timeline s).
           float_finite (start_second g) \<and> float_finite (end_second g))) \<and>
     (\<forall>t \<in> set_option (intent_and_topics call). float_finite (intent_confidence t)) \<and>
     (\<forall>m \<in> set_option (custom_metrics call). json_finite (JObj (extra m))) \<and>
     json_finite (JObj (raw_llm_outputs call))"

text \<open>A record with every facet set, raw outputs, a start time and a due date.\<close>

definition example_sentiment_payload :: json where
  "example_sentiment_payload =
     JObj [(''overall'', JStr ''neutral''), (''score'', JFloat (1 / 10)),
           (''emotion_tags'', JArr [JStr ''calm'']), (''sentiment_timeline'', JArr []),
           (''notes'', JNull)]"

definition example_metadata :: CallMetadata where
  "example_metadata =
     \<lparr>call_id = ''conversation_1732041234'', client_id = ''client_123'',
      audio_file = ''recordings/conversation.wav'',
      call_start_time = Some (DateTime (Date 2024 11 19) 18 33 54 0 None),
      call_end_time = None, duration_seconds = Some (Finite (125 / 2)), agent_name = Some ''Dana'',
      customer_phone = None,
      extra_metadata = [(''size_bytes'', JInt 2048), (''modified_time'', JFloat (3464082469 / 2))]\<rparr>"

definition example_full_call :: CallAnalysis where
  "example_full_call =
     \<lparr>metadata = example_metadata,
      transcript = ''Hello, I would like to reschedule my appointment.'',
      sentiment = Some \<lparr>overall = neutral, score = Some (Finite (1 / 10)), emotion_tags = [''calm''],
                        sentiment_timeline =
                          [\<lparr>segment_label = ''intro'', start_second = None, end_second = None,
                            seg_sentiment = positive, seg_notes = None\<rparr>],
                        sa_notes = None\<rparr>,
      intent_and_topics = Some \<lparr>primary_intent = Some ''reschedule_appointment'',
                                secondary_intents = [], topics = [''appointment''],
                                key_phrases = [''reschedule''], intent_confidence = Some (Finite (9 / 10)),
                                ita_notes = None\<rparr>,
      call_quality = Some \<lparr>overall_quality_score = Some 82,
                           scores = \<lparr>greeting = Some 90, listening_and_empathy = None,
                                     clarity_of_explanations = Some 75,
                                     professionalism = Some 88, script_adherence = None\<rparr>,
                           strengths = [''clear greeting''], improvements = [],
                           cqa_notes = Some ''good call''\<rparr>,
      compliance_and_risk = Some \<lparr>required_phrases_present = [],
                                  missing_required_phrases = [''your call is being recorded''],
                                  forbidden_phrases_detected = [],
                                  pii_detected = [\<lparr>pii_type = ''phone_number'',
                                                   original_value = None,
                                                   masked_value = Some ''+9715XXXXXXX''\<rparr>],
                                  risk_level = medium, cra_notes = None\<rparr>,
      outcome_and_followup = Some \<lparr>resolution_status = partially_resolved,
                                   final_outcome = Some ''appointment moved'',
                                   followup_actions =
                                     [\<lparr>description = ''send confirmation'',
                                       owner = Some ''agent'',
                                       due_date = Some (Date 2024 11 21)\<rparr>],
                                   escalation_required = False, escalation_reason = None,
                                   ofa_notes = None\<rparr>,
      custom_metrics = Some \<lparr>appointment_booked = None, appointment_rescheduled = Some True,
                             refund_requested = Some False, upsell_attempted = None,
                             upsell_successful = None, extra = [(''campaign'', JStr ''q4'')]\<rparr>,
      raw_llm_outputs = [(''sentiment'', example_sentiment_payload)]\<rparr>"

definition empty_world :: world where
  "empty_world = \<lparr>files = Map.empty, printed = [], llm_calls = []\<rparr>"

text \<open>
  A sentiment reply with a number too large for a \<open>float\<close>, under a key the facet does
  not declare: the text \<open>{"overall": "neutral", "margin": 1e999}\<close> as \<open>json.loads\<close> reads
  it, the facet it validates to, and the record after the sentiment stage attached both.
\<close>

definition overflow_payload :: json where
  "overflow_payload = JObj [(''overall'', JStr ''neutral''), (''margin'', JInfNaN PosInf)]"

definition neutral_sentiment :: SentimentAnalysis where
  "neutral_sentiment =
     \<lparr>overall = neutral, score = None, emotion_tags = [], sentiment_timeline = [],
      sa_notes = None\<rparr>"

definition overflow_call :: CallAnalysis where
  "overflow_call =
     \<lparr>metadata = example_metadata,
      transcript = ''Hello, I would like to reschedule my appointment.'',
      sentiment = Some neutral_sentiment, intent_and_topics = None, call_quality = None,
      compliance_and_risk = None, outcome_and_followup = None, custom_metrics = None,
      raw_llm_outputs = [(''sentiment'', overflow_payload)]\<rparr>"

text \<open>The same record with \<open>null\<close> in the place of the infinite float.\<close>

definition overflow_call_reloaded :: CallAnalysis where
  "overflow_call_reloaded =
     overflow_call
       \<lparr>raw_llm_outputs :=
          [(''sentiment'', JObj [(''overall'', JStr ''neutral''), (''margin'', JNull)])]\<rparr>"

lemma those_map_roundtrip:
  "(\<And>x. x \<in> set xs \<Longrightarrow> v (d x) = Some x) \<Longrightarrow> those (map (\<lambda>x. v (d x)) xs) = Some xs"
  by (induction xs) simp_all

lemma validate_list_roundtrip:
  "(\<And>x. x \<in> set xs \<Longrightarrow> v (d x) = Some x) \<Longrightarrow> validate_list v (JArr (map d xs)) = Some xs"
  using those_map_roundtrip [of xs v d] by (simp add: validate_list_def comp_def)

lemma str_list_roundtrip: "validate_list validate_str (dump_str_list xs) = Some xs"
  unfolding dump_str_list_def by (rule validate_list_roundtrip) (simp add: validate_str_def)

lemma opt_str_roundtrip: "validate_optional validate_str (dump_optional JStr x) = Some x"
  by (rule validate_optional_roundtrip) (simp add: validate_str_def)

lemma opt_float_roundtrip:
  "float_finite x \<Longrightarrow>
   validate_optional (validate_float lib) (dump_optional (dump_float lib) x) = Some x"
  by (rule validate_optional_roundtrip)
     (auto simp: float_finite_def validate_float_def dump_float_def split: pyfloat.splits)

lemma dump_any_finite: "json_finite j \<Longrightarrow> dump_any lib j = j"
proof (induction j)
  case (JArr xs)
  then have "map (dump_any lib) xs = xs"
    by (intro map_idI) simp
  then show ?case by simp
next
  case (JObj kvs)
  have "map (\<lambda>(k, v). (k, dump_any lib v)) kvs = kvs"
  proof (rule map_idI)
    fix kv assume kv: "kv \<in> set kvs"
    obtain k v where eq: "kv = (k, v)" by (cases kv)
    with kv JObj.prems have "json_finite v" by auto
    with JObj.IH [of kv v] kv eq have "dump_any lib v = v" by simp
    with eq show "(case kv of (k, v) \<Rightarrow> (k, dump_any lib v)) = kv" by simp
  qed
  then show ?case by simp
qed simp_all

lemma dict_any_roundtrip:
  "json_finite (JObj kvs) \<Longrightarrow> validate_dict_any (dump_any lib (JObj kvs)) = Some kvs"
  by (simp only: dump_any_finite) (simp add: validate_dict_any_def)

lemma opt_bool_roundtrip: "validate_optional (validate_bool lib) (dump_optional JBool x) = Some x"
  by (rule validate_optional_roundtrip) (simp add: validate_bool_def)

lemma opt_datetime_roundtrip:
  "\<forall>t \<in> set_option x. datetime_reads_back lib t \<Longrightarrow>
   validate_optional (validate_datetime lib) (dump_optional (dump_datetime lib) x) = Some x"
  by (rule validate_optional_roundtrip) (simp add: datetime_reads_back_def dump_datetime_def)

lemma opt_date_roundtrip:
  "\<forall>d \<in> set_option x. date_reads_back lib d \<Longrightarrow>
   validate_optional (validate_date lib) (dump_optional (dump_date lib) x) = Some x"
  by (rule validate_optional_roundtrip) (simp add: date_reads_back_def dump_date_def)

lemma SentimentLabel_roundtrip: "validate_SentimentLabel (JStr (SentimentLabel_value l)) = Some l"
  by (cases l) (simp_all add: validate_SentimentLabel_def validate_enum_def)

lemma RiskLevel_roundtrip: "validate_RiskLevel (JStr (RiskLevel_value l)) = Some l"
  by (cases l) (simp_all add: validate_RiskLevel_def validate_enum_def)

lemma ResolutionStatus_roundtrip:
  "validate_ResolutionStatus (JStr (ResolutionStatus_value l)) = Some l"
  by (cases l) (simp_all add: validate_ResolutionStatus_def validate_enum_def)

lemma CallMetadata_roundtrip:
  assumes "\<forall>t \<in> set_option (call_start_time m). datetime_reads_back lib t"
    and "\<forall>t \<in> set_option (call_end_time m). datetime_reads_back lib t"
    and "float_finite (duration_seconds m)"
    and "json_finite (JObj (extra_metadata m))"
  shows "validate_CallMetadata lib (dump_CallMetadata lib m) = Some m"
  using assms(1-3) dict_any_roundtrip [OF assms(4), of lib]
  by (simp add: validate_CallMetadata_def dump_CallMetadata_def required_def with_default_def
      opt_str_roundtrip opt_float_roundtrip opt_datetime_roundtrip validate_str_def
      del: dump_any.simps)

lemma SentimentSegment_roundtrip:
  "float_finite (start_second g) \<Longrightarrow> float_finite (end_second g) \<Longrightarrow>
   validate_SentimentSegment lib (dump_SentimentSegment lib g) = Some g"
  by (simp add: validate_SentimentSegment_def dump_SentimentSegment_def required_def
      with_default_def opt_str_roundtrip opt_float_roundtrip SentimentLabel_roundtrip
      validate_str_def)

lemma SentimentAnalysis_roundtrip:
  assumes "float_finite (score s)"
    and "\<forall>g \<in> set (sentiment_timeline s).
           float_finite (start_second g) \<and> float_finite (end_second g)"
  shows "validate_SentimentAnalysis lib (dump_SentimentAnalysis lib s) = Some s"
proof -
  have "validate_list (validate_SentimentSegment lib)
          (JArr (map (dump_SentimentSegment lib) (sentiment_timeline s))) =
        Some (sentiment_timeline s)"
    using assms(2) by (intro validate_list_roundtrip SentimentSegment_roundtrip) simp_all
  with assms(1) show ?thesis
    by (simp add: validate_SentimentAnalysis_def dump_SentimentAnalysis_def required_def
        with_default_def opt_str_roundtrip opt_float_roundtrip SentimentLabel_roundtrip
        str_list_roundtrip)
qed

lemma IntentTopicsAnalysis_roundtrip:
  "float_finite (intent_confidence s) \<Longrightarrow>
   validate_IntentTopicsAnalysis lib (dump_IntentTopicsAnalysis lib s) = Some s"
  by (simp add: validate_IntentTopicsAnalysis_def dump_IntentTopicsAnalysis_def
      with_default_def opt_str_roundtrip opt_float_roundtrip str_list_roundtrip)

lemma CallQualityScores_roundtrip:
  "validate_CallQualityScores lib (dump_CallQualityScores s) = Some s"
  by (simp add: validate_CallQualityScores_def dump_CallQualityScores_def with_default_def
      opt_int_roundtrip)

lemma CallQualityAnalysis_roundtrip:
  "validate_CallQualityAnalysis lib (dump_CallQualityAnalysis s) = Some s"
  by (simp add: validate_CallQualityAnalysis_def dump_CallQualityAnalysis_def with_default_def
      opt_str_roundtrip opt_int_roundtrip str_list_roundtrip CallQualityScores_roundtrip)

lemma PIIRedaction_roundtrip: "validate_PIIRedaction (dump_PIIRedaction s) = Some s"
  by (simp add: validate_PIIRedaction_def dump_PIIRedaction_def required_def with_default_def
      opt_str_roundtrip validate_str_def)

lemma ComplianceRiskAnalysis_roundtrip:
  "validate_ComplianceRiskAnalysis (dump_ComplianceRiskAnalysis s) = Some s"
  by (simp add: validate_ComplianceRiskAnalysis_def dump_ComplianceRiskAnalysis_def
      with_default_def opt_str_roundtrip str_list_roundtrip RiskLevel_roundtrip
      validate_list_roundtrip PIIRedaction_roundtrip)

lemma FollowupAction_roundtrip:
  "\<forall>d \<in> set_option (due_date a). date_reads_back lib d \<Longrightarrow>
   validate_FollowupAction lib (dump_FollowupAction lib a) = Some a"
  by (simp add: validate_FollowupAction_def dump_FollowupAction_def required_def
      with_default_def opt_str_roundtrip opt_date_roundtrip validate_str_def)

lemma OutcomeFollowupAnalysis_roundtrip:
  assumes "\<forall>a \<in> set (followup_actions x). \<forall>d \<in> set_option (due_date a). date_reads_back lib d"
  shows "validate_OutcomeFollowupAnalysis lib (dump_OutcomeFollowupAnalysis lib x) = Some x"
proof -
  have "validate_list (validate_FollowupAction lib)
          (JArr (map (dump_FollowupAction lib) (followup_actions x))) = Some (followup_actions x)"
    using assms by (intro validate_list_roundtrip FollowupAction_roundtrip) blast
  then show ?thesis
    by (simp add: validate_OutcomeFollowupAnalysis_def dump_OutcomeFollowupAnalysis_def
        with_default_def opt_str_roundtrip ResolutionStatus_roundtrip validate_bool_def)
qed

lemma CustomMetrics_roundtrip:
  assumes "json_finite (JObj (extra s))"
  shows "validate_CustomMetrics lib (dump_CustomMetrics lib s) = Some s"
  using dict_any_roundtrip [OF assms, of lib]
  by (simp add: validate_CustomMetrics_def dump_CustomMetrics_def with_default_def
      opt_bool_roundtrip del: dump_any.simps)

lemma dump_facets_not_null:
  "dump_SentimentAnalysis lib a \<noteq> JNull" "dump_IntentTopicsAnalysis lib b \<noteq> JNull"
  "dump_CallQualityAnalysis c \<noteq> JNull" "dump_ComplianceRiskAnalysis d \<noteq> JNull"
  "dump_OutcomeFollowupAnalysis lib e \<noteq> JNull" "dump_CustomMetrics lib f \<noteq> JNull"
  by (simp_all add: dump_SentimentAnalysis_def dump_IntentTopicsAnalysis_def
      dump_CallQualityAnalysis_def dump_ComplianceRiskAnalysis_def
      dump_OutcomeFollowupAnalysis_def dump_CustomMetrics_def)

lemma CallAnalysis_roundtrip:
  assumes "dates_read_back lib call" and fin: "finite_floats call"
  shows "validate_CallAnalysis lib (dump_CallAnalysis lib call) = Some call"
proof -
  have m: "validate_CallMetadata lib (dump_CallMetadata lib (metadata call)) = Some (metadata call)"
    using assms
    by (intro CallMetadata_roundtrip) (simp_all add: dates_read_back_def finite_floats_def)
  have o: "validate_optional (validate_OutcomeFollowupAnalysis lib)
             (dump_optional (dump_OutcomeFollowupAnalysis lib) (outcome_and_followup call)) =
           Some (outcome_and_followup call)"
    using assms
    by (intro validate_optional_roundtrip conjI OutcomeFollowupAnalysis_roundtrip
        dump_facets_not_null) (simp add: dates_read_back_def)
  have s: "validate_optional (validate_SentimentAnalysis lib)
             (dump_optional (dump_SentimentAnalysis lib) (sentiment call)) =
           Some (sentiment call)"
    using fin
    by (intro validate_optional_roundtrip conjI SentimentAnalysis_roundtrip dump_facets_not_null)
       (simp_all add: finite_floats_def)
  have i: "validate_optional (validate_IntentTopicsAnalysis lib)
             (dump_optional (dump_IntentTopicsAnalysis lib) (intent_and_topics call)) =
           Some (intent_and_topics call)"
    using fin
    by (intro validate_optional_roundtrip conjI IntentTopicsAnalysis_roundtrip
        dump_facets_not_null) (simp add: finite_floats_def)
  have q: "validate_optional (validate_CallQualityAnalysis lib)
             (dump_optional dump_CallQualityAnalysis (call_quality call)) =
           Some (call_quality call)"
    by (intro validate_optional_roundtrip conjI CallQualityAnalysis_roundtrip
        dump_facets_not_null)
  have c: "validate_optional validate_ComplianceRiskAnalysis
             (dump_optional dump_ComplianceRiskAnalysis (compliance_and_risk call)) =
           Some (compliance_and_risk call)"
    by (intro validate_optional_roundtrip conjI ComplianceRiskAnalysis_roundtrip
        dump_facets_not_null)
  have u: "validate_optional (validate_CustomMetrics lib)
             (dump_optional (dump_CustomMetrics lib) (custom_metrics call)) =
           Some (custom_metrics call)"
    using fin
    by (intro validate_optional_roundtrip conjI CustomMetrics_roundtrip dump_facets_not_null)
       (simp add: finite_floats_def)
  have r: "validate_dict_any (dump_any lib (JObj (raw_llm_outputs call))) =
           Some (raw_llm_outputs call)"
    using fin by (intro dict_any_roundtrip) (simp add: finite_floats_def)
  show ?thesis
    by (simp add: validate_CallAnalysis_def dump_CallAnalysis_def required_def with_default_def
        m o s i q c u r validate_str_def del: dump_any.simps)
qed

text \<open>
  The instance reads back every calendar date with a year below 10000 and every naive
  datetime with whole seconds that it writes.
\<close>

lemma upt_ten: "[0..<10] = [0, 1, 2, 3, 4, 5, 6, 7, 8, 9::nat]"
  by (simp add: upt_rec)

lemma ten_cases: "k < (10::nat) \<Longrightarrow> k \<in> {0, 1, 2, 3, 4, 5, 6, 7, 8, 9}"
proof -
  assume "k < 10"
  then have "k \<in> set [0..<10]" by simp
  then show ?thesis unfolding upt_ten by simp
qed

lemma digit_val_digit_char: "digit_val (digit_char n) = Some (n mod 10)"
proof -
  have "n mod 10 \<in> {0, 1, 2, 3, 4, 5, 6, 7, 8, 9}" by (rule ten_cases) simp
  then show ?thesis
    unfolding digit_char_def by (elim insertE emptyE) (simp_all add: digit_val_def)
qed

lemma four_digits:
  "1000 * (y div 1000) + 100 * (y div 100 mod 10) + 10 * (y div 10 mod 10) + y mod 10 = (y::nat)"
proof -
  have a: "y mod 100 = 10 * (y div 10 mod 10) + y mod 10"
    using mod_mult2_eq [of y 10 10] by simp
  have b: "y mod 1000 = 100 * (y div 100 mod 10) + y mod 100"
    using mod_mult2_eq [of y 100 10] by simp
  have "y = 1000 * (y div 1000) + y mod 1000" by simp
  with a b show ?thesis by simp
qed

lemma parse_format_iso_date:
  assumes "year d < 10000" "month d < 100" "day d < 100"
  shows "parse_iso_date_str (format_iso_date d) = Some d"
proof -
  obtain y m dd where d: "d = Date y m dd" by (cases d)
  have ds: "those [digit_val (digit_char (y div 1000)), digit_val (digit_char (y div 100)),
       digit_val (digit_char (y div 10)), digit_val (digit_char y),
       digit_val (digit_char (m div 10)), digit_val (digit_char m),
       digit_val (digit_char (dd div 10)), digit_val (digit_char dd)] =
     Some [y div 1000 mod 10, y div 100 mod 10, y div 10 mod 10, y mod 10, m div 10 mod 10,
           m mod 10, dd div 10 mod 10, dd mod 10]"
    by (simp add: digit_val_digit_char)
  from assms d have small: "y div 1000 mod 10 = y div 1000" "m div 10 mod 10 = m div 10"
    "dd div 10 mod 10 = dd div 10"
    by simp_all
  show ?thesis
    unfolding parse_iso_date_str_def format_iso_date_def d
    by (simp add: ds small four_digits del: those.simps)
qed

lemma parse_format_iso_datetime:
  assumes "year (date_part t) < 10000" "month (date_part t) < 100" "day (date_part t) < 100"
    and "hour t < 100" "minute t < 100" "second t < 100" "microsecond t = 0" "utcoffset t = None"
  shows "parse_iso_datetime_str (format_iso_datetime t) = Some t"
proof -
  from assms obtain d h m x where t: "t = DateTime d h m x 0 None" by (cases t) simp
  let ?s = "format_iso_datetime (DateTime d h m x 0 None)"
  have len: "length (format_iso_date d) = 10"
    by (simp add: format_iso_date_def)
  have tk: "take 10 ?s = format_iso_date d"
    by (simp add: format_iso_datetime_def len)
  have nth: "?s ! (10 + k) =
      [CHR ''T'', digit_char (h div 10), digit_char h, CHR '':'',
       digit_char (m div 10), digit_char m, CHR '':'',
       digit_char (x div 10), digit_char x] ! k" for k
    by (simp add: format_iso_datetime_def nth_append len)
  have l19: "length ?s = 19"
    by (simp add: format_iso_datetime_def len)
  from nth [of 0] nth [of 1] nth [of 2] nth [of 3] nth [of 4] nth [of 5] nth [of 6] nth [of 7]
    nth [of 8]
  have chars: "?s ! 10 = CHR ''T''" "?s ! 11 = digit_char (h div 10)" "?s ! 12 = digit_char h"
    "?s ! 13 = CHR '':''" "?s ! 14 = digit_char (m div 10)" "?s ! 15 = digit_char m"
    "?s ! 16 = CHR '':''" "?s ! 17 = digit_char (x div 10)" "?s ! 18 = digit_char x"
    by simp_all
  have ds: "those [digit_val (digit_char (h div 10)), digit_val (digit_char h),
       digit_val (digit_char (m div 10)), digit_val (digit_char m),
       digit_val (digit_char (x div 10)), digit_val (digit_char x)] =
     Some [h div 10 mod 10, h mod 10, m div 10 mod 10, m mod 10, x div 10 mod 10, x mod 10]"
    by (simp add: digit_val_digit_char)
  from assms t have small: "h div 10 mod 10 = h div 10" "m div 10 mod 10 = m div 10"
    "x div 10 mod 10 = x div 10"
    by simp_all
  from assms t have pd: "parse_iso_date_str (format_iso_date d) = Some d"
    by (intro parse_format_iso_date) simp_all
  show ?thesis
    unfolding t parse_iso_datetime_str_def
    by (simp add: l19 tk chars pd ds small del: those.simps)
qed

lemma example_lib_reads_date:
  "year d < 10000 \<Longrightarrow> month d < 100 \<Longrightarrow> day d < 100 \<Longrightarrow> date_reads_back example_lib d"
  by (simp add: date_reads_back_def validate_date_def dump_date_def example_lib_def
      parse_format_iso_date)

lemma example_lib_reads_datetime:
  assumes "year (date_part t) < 10000" "month (date_part t) < 100" "day (date_part t) < 100"
    and "hour t < 100" "minute t < 100" "second t < 100" "microsecond t = 0" "utcoffset t = None"
  shows "datetime_reads_back example_lib t"
  using parse_format_iso_datetime [OF assms]
  by (simp add: datetime_reads_back_def validate_datetime_def dump_datetime_def example_lib_def)

lemma load_call_printed [simp]: "load_call lib (w\<lparr>printed := x\<rparr>) p = load_call lib w p"
  by (simp add: load_call_def)

lemma load_call_llm_calls [simp]: "load_call lib (w\<lparr>llm_calls := x\<rparr>) p = load_call lib w p"
  by (simp add: load_call_def)

lemma load_call_cong: "files v p = files w p \<Longrightarrow> load_call lib v p = load_call lib w p"
  by (simp add: load_call_def)

lemma load_after_save:
  "dates_read_back lib call \<Longrightarrow> finite_floats call \<Longrightarrow>
   load_call lib (save_call lib p call w) p = Inr call"
  by (simp add: load_call_def save_call_def CallAnalysis_roundtrip)

text \<open>
  C6, as stated, fails. The record that the sentiment stage builds from the reply
  \<open>{"overall": "neutral", "margin": 1e999}\<close> holds an infinite float in its raw outputs.
  \<open>save_call\<close> writes \<open>null\<close> for it, so \<open>load_call\<close> returns a record with \<open>null\<close> in its
  place, which is not the record that was saved.
\<close>

theorem roundtrip_loses_infinity:
  "validate_facet example_lib Sentiment overflow_payload =
     Some (SentimentFacet neutral_sentiment) \<and>
   overflow_call =
     attach Sentiment (SentimentFacet neutral_sentiment) overflow_payload
       (overflow_call\<lparr>sentiment := None, raw_llm_outputs := []\<rparr>) \<and>
   dates_read_back example_lib overflow_call \<and>
   load_call example_lib
     (save_call example_lib ''conversation_1732041234.json'' overflow_call empty_world)
     ''conversation_1732041234.json'' = Inr overflow_call_reloaded \<and>
   load_call example_lib
     (save_call example_lib ''conversation_1732041234.json'' overflow_call empty_world)
     ''conversation_1732041234.json'' \<noteq> Inr overflow_call"
proof -
  have v: "validate_facet example_lib Sentiment overflow_payload =
      Some (SentimentFacet neutral_sentiment)"
    by (simp add: overflow_payload_def neutral_sentiment_def validate_SentimentAnalysis_def
        required_def with_default_def validate_SentimentLabel_def validate_enum_def)
  have a: "overflow_call =
      attach Sentiment (SentimentFacet neutral_sentiment) overflow_payload
        (overflow_call\<lparr>sentiment := None, raw_llm_outputs := []\<rparr>)"
    by (simp add: overflow_call_def attach_def)
  have dates: "dates_read_back example_lib c"
    if "metadata c = example_metadata" "outcome_and_followup c = None" for c
    using that
    by (simp add: dates_read_back_def example_metadata_def datetime_reads_back_def
        validate_datetime_def dump_datetime_def example_lib_defs)
  have d: "dates_read_back example_lib overflow_call"
    by (rule dates) (simp_all add: overflow_call_def)
  have d': "dates_read_back example_lib overflow_call_reloaded"
    by (rule dates) (simp_all add: overflow_call_reloaded_def overflow_call_def)
  have f': "finite_floats overflow_call_reloaded"
    by (simp add: finite_floats_def float_finite_def overflow_call_reloaded_def
        overflow_call_def example_metadata_def neutral_sentiment_def)
  have "dump_CallAnalysis example_lib overflow_call =
      dump_CallAnalysis example_lib overflow_call_reloaded"
    by (simp add: dump_CallAnalysis_def overflow_call_reloaded_def overflow_call_def
        overflow_payload_def example_lib_def)
  then have "save_call example_lib ''conversation_1732041234.json'' overflow_call empty_world =
      save_call example_lib ''conversation_1732041234.json'' overflow_call_reloaded empty_world"
    by (simp add: save_call_def)
  with load_after_save [OF d' f', of "''conversation_1732041234.json''" empty_world]
  have l: "load_call example_lib
      (save_call example_lib ''conversation_1732041234.json'' overflow_call empty_world)
      ''conversation_1732041234.json'' = Inr overflow_call_reloaded"
    by simp
  have "raw_llm_outputs overflow_call_reloaded \<noteq> raw_llm_outputs overflow_call"
    by (simp add: overflow_call_reloaded_def overflow_call_def overflow_payload_def)
  then have "overflow_call_reloaded \<noteq> overflow_call"
    by auto
  with l have n: "load_call example_lib
      (save_call example_lib ''conversation_1732041234.json'' overflow_call empty_world)
      ''conversation_1732041234.json'' \<noteq> Inr overflow_call"
    by simp
  from v a d l n show ?thesis by (intro conjI)
qed

text \<open>
  C6, amended. Saving a call record whose floats are finite with \<open>save_call\<close> and loading
  the file back with \<open>load_call\<close> yields the record itself, in every field: metadata,
  transcript, the five facets, custom metrics and raw outputs. The record is otherwise
  arbitrary; the assumption on the library is that it reads back the dates and datetimes
  of the record as it writes them. Saving touches no other file.
\<close>

theorem save_load_roundtrip:
  assumes "dates_read_back lib call" and "finite_floats call"
  shows "load_call lib (save_call lib p call w) p = Inr call \<and>
         (\<forall>q. q \<noteq> p \<longrightarrow> files (save_call lib p call w) q = files w q)"
proof
  show "load_call lib (save_call lib p call w) p = Inr call"
    using assms by (rule load_after_save)
  show "\<forall>q. q \<noteq> p \<longrightarrow> files (save_call lib p call w) q = files w q"
    by (simp add: save_call_def)
qed

lemma example_full_call_dates: "dates_read_back example_lib example_full_call"
  by (simp add: dates_read_back_def example_full_call_def example_metadata_def
      datetime_reads_back_def date_reads_back_def validate_datetime_def dump_datetime_def
      validate_date_def dump_date_def example_lib_defs)

lemma example_full_call_finite: "finite_floats example_full_call"
  by (simp add: finite_floats_def float_finite_def example_full_call_def example_metadata_def
      example_sentiment_payload_def)

theorem save_load_roundtrip_witness:
  "dates_read_back example_lib example_full_call \<and>
   finite_floats example_full_call \<and>
   load_call example_lib
     (save_call example_lib ''conversation_1732041234.json'' example_full_call empty_world)
     ''conversation_1732041234.json'' = Inr example_full_call \<and>
   files (save_call example_lib ''conversation_1732041234.json'' example_full_call empty_world)
     ''other.json'' = files empty_world ''other.json''"
  using save_load_roundtrip [OF example_full_call_dates example_full_call_finite,
      of "''conversation_1732041234.json''" empty_world]
    example_full_call_dates example_full_call_finite
  by simp


section \<open>Stage runs\<close>

text \<open>The lines a run printed between two worlds, and what a run prints that skips every record.\<close>

definition printed_during :: "world \<Rightarrow> world \<Rightarrow> event list" where
  "printed_during w w' = drop (length (printed w)) (printed w')"

definition skip_report :: "path list \<Rightarrow> event list" where
  "skip_report ps = concat (map (\<lambda>p. [Processing p, AlreadyPresentSkipping]) ps)"

text \<open>The lines printed for the records \<open>ps\<close> with the given outcomes, one pair per record.\<close>

definition report :: "path list \<Rightarrow> event list \<Rightarrow> event list" where
  "report ps outcomes = concat (map2 (\<lambda>p oc. [Processing p, oc]) ps outcomes)"

subsection \<open>Three ingested calls and two LLMs\<close>

text \<open>
  A record as ingestion writes it (metadata and transcript only), a data directory with
  three of them, an LLM that answers the second call with prose instead of JSON, and one
  that always answers with the sentiment payload of the running example.
\<close>

definition ingested_call :: "string \<Rightarrow> string \<Rightarrow> CallAnalysis" where
  "ingested_call cid txt =
     \<lparr>metadata = \<lparr>call_id = cid, client_id = ''client_123'',
                  audio_file = ''recordings/'' @ cid @ ''.wav'', call_start_time = None,
                  call_end_time = None, duration_seconds = None, agent_name = None,
                  customer_phone = None, extra_metadata = [(''size_bytes'', JInt 2048)]\<rparr>,
      transcript = txt, sentiment = None, intent_and_topics = None, call_quality = None,
      compliance_and_risk = None, outcome_and_followup = None, custom_metrics = None,
      raw_llm_outputs = []\<rparr>"

definition call_a :: CallAnalysis where
  "call_a = ingested_call ''a'' ''Hello, I would like to reschedule my appointment.''"

definition call_b :: CallAnalysis where
  "call_b = ingested_call ''b'' ''Hi, this is about my refund.''"

definition call_c :: CallAnalysis where
  "call_c = ingested_call ''c'' ''Thanks, that solved it.''"

definition three_call_world :: world where
  "three_call_world =
     \<lparr>files = [''a.json'' \<mapsto> JsonText (dump_CallAnalysis example_lib call_a),
               ''b.json'' \<mapsto> JsonText (dump_CallAnalysis example_lib call_b),
               ''c.json'' \<mapsto> JsonText (dump_CallAnalysis example_lib call_c)],
      printed = [], llm_calls = []\<rparr>"

definition chatty_llm :: chat_model where
  "chatty_llm stg vars =
     (if prompt_transcript vars = ''Hi, this is about my refund.''
      then StrContent (NotJson ''Sure! Here is the analysis you asked for: {overall: neutral}'')
      else StrContent (JsonText example_sentiment_payload))"

definition calm_llm :: chat_model where
  "calm_llm stg vars = StrContent (JsonText example_sentiment_payload)"

definition example_sentiment :: SentimentAnalysis where
  "example_sentiment =
     \<lparr>overall = neutral, score = Some (Finite (1 / 10)), emotion_tags = [''calm''],
      sentiment_timeline = [], sa_notes = None\<rparr>"

text \<open>\<open>with_sentiment call\<close>: the record after a successful sentiment stage.\<close>

definition with_sentiment :: "CallAnalysis \<Rightarrow> CallAnalysis" where
  "with_sentiment call =
     attach Sentiment (SentimentFacet example_sentiment) example_sentiment_payload call"

subsection \<open>One iteration, case by case\<close>

lemma process_path_load_fails:
  "load_call lib w p = Inl e \<Longrightarrow>
   process_path lib llm stg rp fp p w = (Some e, w\<lparr>printed := printed w @ [Processing p]\<rparr>)"
  by (simp add: process_path_def Let_def print_def)

lemma process_path_skip:
  "load_call lib w p = Inr call \<Longrightarrow> get_facet stg call \<noteq> None \<Longrightarrow>
   process_path lib llm stg rp fp p w =
     (None, w\<lparr>printed := printed w @ [Processing p, AlreadyPresentSkipping]\<rparr>)"
  by (simp add: process_path_def Let_def print_def)

lemma process_path_analysis_fails:
  "load_call lib w p = Inr call \<Longrightarrow> get_facet stg call = None \<Longrightarrow>
   analyze_for_call lib llm stg rp fp call = Inl e \<Longrightarrow>
   process_path lib llm stg rp fp p w =
     (Some e, w\<lparr>printed := printed w @ [Processing p],
                llm_calls := llm_calls w @ [(stg, build_prompt_vars lib stg rp fp call)]\<rparr>)"
  by (simp add: process_path_def Let_def print_def)

lemma process_path_saved:
  "load_call lib w p = Inr call \<Longrightarrow> get_facet stg call = None \<Longrightarrow>
   analyze_for_call lib llm stg rp fp call = Inr (m, raw) \<Longrightarrow>
   process_path lib llm stg rp fp p w =
     (None, w\<lparr>files := (files w)(p \<mapsto> JsonText (dump_CallAnalysis lib (attach stg m raw call))),
              printed := printed w @ [Processing p, AnalysisSaved],
              llm_calls := llm_calls w @ [(stg, build_prompt_vars lib stg rp fp call)]\<rparr>)"
  by (simp add: process_path_def Let_def print_def save_call_def)

lemma process_path_cases [case_names load_fails skip analysis_fails saved]:
  obtains (load_fails) e where "load_call lib w p = Inl e"
  | (skip) call where "load_call lib w p = Inr call" "get_facet stg call \<noteq> None"
  | (analysis_fails) call e where "load_call lib w p = Inr call" "get_facet stg call = None"
      "analyze_for_call lib llm stg rp fp call = Inl e"
  | (saved) call m raw where "load_call lib w p = Inr call" "get_facet stg call = None"
      "analyze_for_call lib llm stg rp fp call = Inr (m, raw)"
proof (cases "load_call lib w p")
  case (Inl e)
  then show ?thesis by (rule load_fails)
next
  case (Inr call)
  show ?thesis
  proof (cases "get_facet stg call = None")
    case False
    with Inr show ?thesis by (rule skip)
  next
    case True
    show ?thesis
    proof (cases "analyze_for_call lib llm stg rp fp call")
      case (Inl e)
      with Inr True show ?thesis by (rule analysis_fails)
    next
      case (Inr res)
      obtain m raw where "res = (m, raw)" by (cases res)
      with \<open>load_call lib w p = Inr call\<close> True Inr show ?thesis by (auto intro: saved)
    qed
  qed
qed

lemma process_path_files_other:
  "q \<noteq> p \<Longrightarrow> files (snd (process_path lib llm stg rp fp p w)) q = files w q"
  by (rule process_path_cases [where lib = lib and w = w and p = p and stg = stg and llm = llm
        and rp = rp and fp = fp])
     (simp_all add: process_path_load_fails process_path_skip process_path_analysis_fails
        process_path_saved)

lemma process_path_raises_files:
  "process_path lib llm stg rp fp p w = (Some e, w') \<Longrightarrow> files w' = files w"
  by (rule process_path_cases [where lib = lib and w = w and p = p and stg = stg and llm = llm
        and rp = rp and fp = fp])
     (auto simp: process_path_load_fails process_path_skip process_path_analysis_fails
        process_path_saved)

lemma run_loop_files_other:
  "q \<notin> set ps \<Longrightarrow> files (snd (run_loop lib llm stg rp fp ps w)) q = files w q"
proof (induction ps arbitrary: w)
  case Nil
  then show ?case by simp
next
  case (Cons p ps)
  obtain r w' where step: "process_path lib llm stg rp fp p w = (r, w')"
    by (cases "process_path lib llm stg rp fp p w")
  have "files w' q = files w q"
    using process_path_files_other [of q p lib llm stg rp fp w] Cons.prems step by simp
  with Cons step show ?case by (cases r) simp_all
qed

lemma run_loop_append:
  "run_loop lib llm stg rp fp (ps @ qs) w =
     (case run_loop lib llm stg rp fp ps w of
        (Some e, w') \<Rightarrow> (Some e, w')
      | (None, w') \<Rightarrow> run_loop lib llm stg rp fp qs w')"
proof (induction ps arbitrary: w)
  case Nil
  then show ?case by simp
next
  case (Cons p ps)
  obtain r w' where step: "process_path lib llm stg rp fp p w = (r, w')"
    by (cases "process_path lib llm stg rp fp p w")
  with Cons show ?case by (cases r) simp_all
qed

lemma analyze_for_call_validates:
  "analyze_for_call lib llm stg rp fp call = Inr (m, raw) \<Longrightarrow> validate_facet lib stg raw = Some m"
  by (auto simp: analyze_for_call_def split: llm_response.splits option.splits)

lemma reload_facet_present:
  assumes "validate_facet lib stg data = Some m"
    and "validate_CallAnalysis lib (dump_CallAnalysis lib (attach stg m raw call)) = Some c2"
  shows "get_facet stg c2 \<noteq> None"
  using assms
  by (cases stg)
     (auto simp: attach_def dump_CallAnalysis_def validate_CallAnalysis_def with_default_def
        required_def validate_optional_def dump_optional_def dump_SentimentAnalysis_def
        dump_IntentTopicsAnalysis_def dump_CallQualityAnalysis_def
        dump_ComplianceRiskAnalysis_def dump_OutcomeFollowupAnalysis_def
        split: Option.bind_splits)

lemma load_call_dumped:
  "files w p = Some (JsonText (dump_CallAnalysis lib c)) \<Longrightarrow> load_call lib w p = Inr c2 \<Longrightarrow>
   validate_CallAnalysis lib (dump_CallAnalysis lib c) = Some c2"
  by (auto simp: load_call_def split: option.splits)

text \<open>After a step that did not raise, the record at that path has its facet whenever it loads.\<close>

lemma process_path_settles:
  assumes "process_path lib llm stg rp fp p w = (None, w')" and "files v p = files w' p"
    and "load_call lib v p = Inr c"
  shows "get_facet stg c \<noteq> None"
proof (rule process_path_cases [where lib = lib and w = w and p = p and stg = stg and llm = llm
        and rp = rp and fp = fp])
  fix e assume "load_call lib w p = Inl e"
  with assms(1) show ?thesis by (simp add: process_path_load_fails)
next
  fix call assume h: "load_call lib w p = Inr call" "get_facet stg call \<noteq> None"
  with assms(1) have "files w' = files w" by (auto simp: process_path_skip)
  with assms(2) have "load_call lib v p = load_call lib w p" by (intro load_call_cong) simp
  with assms(3) h show ?thesis by simp
next
  fix call e assume "load_call lib w p = Inr call" "get_facet stg call = None"
    "analyze_for_call lib llm stg rp fp call = Inl e"
  with assms(1) show ?thesis by (simp add: process_path_analysis_fails)
next
  fix call m raw assume h: "load_call lib w p = Inr call" "get_facet stg call = None"
    "analyze_for_call lib llm stg rp fp call = Inr (m, raw)"
  with assms(1) have "files w' p = Some (JsonText (dump_CallAnalysis lib (attach stg m raw call)))"
    by (auto simp: process_path_saved)
  with assms(2,3) have "validate_CallAnalysis lib (dump_CallAnalysis lib (attach stg m raw call)) = Some c"
    by (intro load_call_dumped [of v p]) simp_all
  with analyze_for_call_validates [OF h(3)] show ?thesis by (rule reload_facet_present)
qed

lemma completed_run_settles:
  assumes "distinct ps" and "run_loop lib llm stg rp fp ps w = (None, w1)"
    and "p \<in> set ps" and "load_call lib w1 p = Inr c"
  shows "get_facet stg c \<noteq> None"
  using assms
proof (induction ps arbitrary: w)
  case Nil
  then show ?case by simp
next
  case (Cons q qs)
  obtain r w' where step: "process_path lib llm stg rp fp q w = (r, w')"
    by (cases "process_path lib llm stg rp fp q w")
  with Cons.prems(2) have r: "r = None" and rest: "run_loop lib llm stg rp fp qs w' = (None, w1)"
    by (cases r; simp)+
  show ?case
  proof (cases "p = q")
    case True
    have "files w1 q = files w' q"
      using run_loop_files_other [of q qs lib llm stg rp fp w'] Cons.prems(1) rest by simp
    with step r Cons.prems(4) True show ?thesis
      by (intro process_path_settles [of lib llm stg rp fp q w w' w1 c]) simp_all
  next
    case False
    with Cons.prems have "p \<in> set qs" "distinct qs" by simp_all
    with Cons.IH rest Cons.prems(4) show ?thesis by blast
  qed
qed

lemma run_loop_settled:
  assumes "\<forall>p \<in> set ps. \<forall>c. load_call lib v p = Inr c \<longrightarrow> get_facet stg c \<noteq> None"
    and "run_loop lib llm stg rp fp ps v = (r, w)"
  shows "files w = files v \<and> llm_calls w = llm_calls v \<and>
         (\<exists>evs. printed w = printed v @ evs \<and> AnalysisSaved \<notin> set evs)"
  using assms
proof (induction ps arbitrary: v)
  case Nil
  then show ?case by simp
next
  case (Cons q qs)
  show ?case
  proof (cases "load_call lib v q")
    case (Inl e)
    with Cons.prems(2) have "w = v\<lparr>printed := printed v @ [Processing q]\<rparr>"
      by (simp add: process_path_load_fails)
    then show ?thesis by simp
  next
    case (Inr call)
    with Cons.prems(1) have present: "get_facet stg call \<noteq> None" by simp
    let ?v' = "v\<lparr>printed := printed v @ [Processing q, AlreadyPresentSkipping]\<rparr>"
    from Inr present Cons.prems(2) have rest: "run_loop lib llm stg rp fp qs ?v' = (r, w)"
      by (simp add: process_path_skip)
    have "\<forall>p \<in> set qs. \<forall>c. load_call lib ?v' p = Inr c \<longrightarrow> get_facet stg c \<noteq> None"
      using Cons.prems(1) by simp
    from Cons.IH [OF this rest] obtain evs where
      f: "files w = files v" and l: "llm_calls w = llm_calls v"
      and e: "printed w = printed v @ ([Processing q, AlreadyPresentSkipping] @ evs)"
      and n: "AnalysisSaved \<notin> set ([Processing q, AlreadyPresentSkipping] @ evs)"
      by auto
    from e n have "\<exists>evs. printed w = printed v @ evs \<and> AnalysisSaved \<notin> set evs" by blast
    with f l show ?thesis by simp
  qed
qed

lemma run_loop_all_skipped:
  assumes "\<forall>p \<in> set ps. \<exists>c. load_call lib v p = Inr c \<and> get_facet stg c \<noteq> None"
  shows "run_loop lib llm stg rp fp ps v = (None, v\<lparr>printed := printed v @ skip_report ps\<rparr>)"
  using assms
proof (induction ps arbitrary: v)
  case Nil
  then show ?case by (simp add: skip_report_def)
next
  case (Cons q qs)
  then obtain call where h: "load_call lib v q = Inr call" "get_facet stg call \<noteq> None" by auto
  let ?v' = "v\<lparr>printed := printed v @ [Processing q, AlreadyPresentSkipping]\<rparr>"
  have "\<forall>p \<in> set qs. \<exists>c. load_call lib ?v' p = Inr c \<and> get_facet stg c \<noteq> None"
    using Cons.prems by simp
  from Cons.IH [OF this] h show ?case
    by (simp add: process_path_skip skip_report_def)
qed

text \<open>The same stage run again with the same LLM, whatever the first run did.\<close>

lemma rerun_same_llm:
  assumes "distinct ps" and "run_loop lib llm stg rp fp ps w = (r1, w1)"
    and "files v = files w1" and "run_loop lib llm stg rp fp ps v = (r2, w2)"
  shows "files w2 = files v \<and> (\<exists>evs. printed w2 = printed v @ evs \<and> AnalysisSaved \<notin> set evs)"
  using assms
proof (induction ps arbitrary: w v)
  case Nil
  then show ?case by simp
next
  case (Cons q qs)
  obtain r w' where step: "process_path lib llm stg rp fp q w = (r, w')"
    by (cases "process_path lib llm stg rp fp q w")
  show ?case
  proof (cases r)
    case (Some e)
    with step Cons.prems(2) have w1: "w1 = w'" by simp
    from step Some have same: "files w' = files w" by (auto dest: process_path_raises_files)
    with w1 Cons.prems(3) have lv: "load_call lib v q = load_call lib w q"
      by (intro load_call_cong) simp
    show ?thesis
    proof (rule process_path_cases [where lib = lib and w = w and p = q and stg = stg
          and llm = llm and rp = rp and fp = fp])
      fix e' assume "load_call lib w q = Inl e'"
      with lv Cons.prems(4) show ?thesis by (auto simp: process_path_load_fails)
    next
      fix call assume "load_call lib w q = Inr call" "get_facet stg call \<noteq> None"
      with step Some show ?thesis by (simp add: process_path_skip)
    next
      fix call e' assume "load_call lib w q = Inr call" "get_facet stg call = None"
        "analyze_for_call lib llm stg rp fp call = Inl e'"
      with lv Cons.prems(4) show ?thesis by (auto simp: process_path_analysis_fails)
    next
      fix call m raw assume "load_call lib w q = Inr call" "get_facet stg call = None"
        "analyze_for_call lib llm stg rp fp call = Inr (m, raw)"
      with step Some show ?thesis by (simp add: process_path_saved)
    qed
  next
    case None
    with step Cons.prems(2) have rest: "run_loop lib llm stg rp fp qs w' = (r1, w1)" by simp
    have "files w1 q = files w' q"
      using run_loop_files_other [of q qs lib llm stg rp fp w'] Cons.prems(1) rest by simp
    with Cons.prems(3) have vq: "files v q = files w' q" by simp
    show ?thesis
    proof (cases "load_call lib v q")
      case (Inl e)
      with Cons.prems(4) show ?thesis by (auto simp: process_path_load_fails)
    next
      case (Inr c)
      with step None vq have present: "get_facet stg c \<noteq> None"
        by (intro process_path_settles [of lib llm stg rp fp q w w' v c]) simp_all
      let ?v' = "v\<lparr>printed := printed v @ [Processing q, AlreadyPresentSkipping]\<rparr>"
      from Inr present Cons.prems(4) have rest2: "run_loop lib llm stg rp fp qs ?v' = (r2, w2)"
        by (simp add: process_path_skip)
      have "files ?v' = files w1" using Cons.prems(3) by simp
      from Cons.prems(1) have "distinct qs" by simp
      from Cons.IH [OF this rest \<open>files ?v' = files w1\<close> rest2] obtain evs where
        f: "files w2 = files v"
        and e: "printed w2 = printed v @ ([Processing q, AlreadyPresentSkipping] @ evs)"
        and n: "AnalysisSaved \<notin> set ([Processing q, AlreadyPresentSkipping] @ evs)"
        by auto
      from e n have "\<exists>evs. printed w2 = printed v @ evs \<and> AnalysisSaved \<notin> set evs" by blast
      with f show ?thesis by simp
    qed
  qed
qed


subsection \<open>The examples, step by step\<close>

lemma load_dumped_file:
  "files w p = Some (JsonText (dump_CallAnalysis lib c)) \<Longrightarrow> dates_read_back lib c \<Longrightarrow>
   finite_floats c \<Longrightarrow> load_call lib w p = Inr c"
  by (simp add: load_call_def CallAnalysis_roundtrip)

lemma ingested_call_dates: "dates_read_back lib (ingested_call cid txt)"
  by (simp add: dates_read_back_def ingested_call_def)

lemma with_sentiment_dates: "dates_read_back lib (with_sentiment (ingested_call cid txt))"
  by (simp add: dates_read_back_def with_sentiment_def attach_def ingested_call_def)

lemma ingested_call_finite [simp]: "finite_floats (ingested_call cid txt)"
  by (simp add: finite_floats_def float_finite_def ingested_call_def)

lemma with_sentiment_finite [simp]: "finite_floats (with_sentiment (ingested_call cid txt))"
  by (simp add: finite_floats_def float_finite_def with_sentiment_def attach_def
      ingested_call_def example_sentiment_def example_sentiment_payload_def)

lemma ingested_call_no_facet: "get_facet stg (ingested_call cid txt) = None"
  by (cases stg) (simp_all add: ingested_call_def)

lemma with_sentiment_facet: "get_facet Sentiment (with_sentiment call) \<noteq> None"
  by (simp add: with_sentiment_def attach_def)

lemma validate_example_sentiment:
  "validate_SentimentAnalysis lib example_sentiment_payload = Some example_sentiment"
  by (simp add: example_sentiment_payload_def example_sentiment_def
      validate_SentimentAnalysis_def required_def with_default_def validate_SentimentLabel_def
      validate_enum_def validate_optional_def validate_float_def validate_list_def
      validate_str_def)

lemma chatty_llm_a:
  "analyze_for_call lib chatty_llm Sentiment [] [] call_a =
     Inr (SentimentFacet example_sentiment, example_sentiment_payload)"
  by (simp add: analyze_for_call_def chatty_llm_def build_prompt_vars_def call_a_def
      ingested_call_def validate_example_sentiment)

lemma chatty_llm_b:
  "analyze_for_call lib chatty_llm Sentiment [] [] call_b = Inl ValueError_failed_to_parse"
  by (simp add: analyze_for_call_def chatty_llm_def build_prompt_vars_def call_b_def
      ingested_call_def)

lemma chatty_llm_c:
  "analyze_for_call lib chatty_llm Sentiment [] [] call_c =
     Inr (SentimentFacet example_sentiment, example_sentiment_payload)"
  by (simp add: analyze_for_call_def chatty_llm_def build_prompt_vars_def call_c_def
      ingested_call_def validate_example_sentiment)

lemma calm_llm_any:
  "analyze_for_call lib calm_llm Sentiment [] [] call =
     Inr (SentimentFacet example_sentiment, example_sentiment_payload)"
  by (simp add: analyze_for_call_def calm_llm_def validate_example_sentiment)

lemma three_call_files:
  "files three_call_world ''a.json'' = Some (JsonText (dump_CallAnalysis example_lib call_a))"
  "files three_call_world ''b.json'' = Some (JsonText (dump_CallAnalysis example_lib call_b))"
  "files three_call_world ''c.json'' = Some (JsonText (dump_CallAnalysis example_lib call_c))"
  by (simp_all add: three_call_world_def)

lemma three_call_loads:
  assumes "files w = files three_call_world"
  shows "load_call example_lib w ''a.json'' = Inr call_a"
    and "load_call example_lib w ''b.json'' = Inr call_b"
    and "load_call example_lib w ''c.json'' = Inr call_c"
  using assms
  by (simp_all add: load_dumped_file three_call_files call_a_def call_b_def call_c_def
      ingested_call_dates)


text \<open>
  \<open>after_saving p call w\<close>: the world after the sentiment stage analysed and saved the
  record \<open>call\<close> of file \<open>p\<close>.
\<close>

definition after_saving :: "path \<Rightarrow> CallAnalysis \<Rightarrow> world \<Rightarrow> world" where
  "after_saving p call w =
     w\<lparr>files := (files w)(p \<mapsto> JsonText (dump_CallAnalysis example_lib (with_sentiment call))),
       printed := printed w @ [Processing p, AnalysisSaved],
       llm_calls := llm_calls w @
         [(Sentiment, build_prompt_vars example_lib Sentiment [] [] call)]\<rparr>"

text \<open>
  The sentiment stage with the chatty LLM, from any world that holds the three files:
  \<open>a.json\<close> is analysed and saved, the analysis of \<open>b.json\<close> raises.
\<close>

definition after_chatty_run :: "world \<Rightarrow> world" where
  "after_chatty_run w =
     (after_saving ''a.json'' call_a w)
       \<lparr>printed := printed (after_saving ''a.json'' call_a w) @ [Processing ''b.json''],
        llm_calls := llm_calls (after_saving ''a.json'' call_a w) @
          [(Sentiment, build_prompt_vars example_lib Sentiment [] [] call_b)]\<rparr>"

lemma sentiment_step_saved:
  assumes "load_call example_lib w p = Inr (ingested_call cid txt)"
    and "analyze_for_call example_lib llm Sentiment [] [] (ingested_call cid txt) =
         Inr (SentimentFacet example_sentiment, example_sentiment_payload)"
  shows "process_path example_lib llm Sentiment [] [] p w =
         (None, after_saving p (ingested_call cid txt) w)"
proof -
  have "get_facet Sentiment (ingested_call cid txt) = None"
    by (rule ingested_call_no_facet)
  from process_path_saved [OF assms(1) this assms(2)]
  show ?thesis by (simp add: with_sentiment_def after_saving_def)
qed

lemma after_saving_files_other [simp]:
  "q \<noteq> p \<Longrightarrow> files (after_saving p call w) q = files w q"
  by (simp add: after_saving_def)

lemma after_saving_file [simp]:
  "files (after_saving p call w) p =
     Some (JsonText (dump_CallAnalysis example_lib (with_sentiment call)))"
  by (simp add: after_saving_def)

lemma chatty_step_a:
  assumes "files w = files three_call_world"
  shows "process_path example_lib chatty_llm Sentiment [] [] ''a.json'' w =
         (None, after_saving ''a.json'' call_a w)"
  using three_call_loads(1) [OF assms] chatty_llm_a [of example_lib]
  unfolding call_a_def by (rule sentiment_step_saved)

lemma after_saving_a_load_b:
  assumes "files w = files three_call_world"
  shows "load_call example_lib (after_saving ''a.json'' call_a w) ''b.json'' = Inr call_b"
proof -
  have "files (after_saving ''a.json'' call_a w) ''b.json'' = files three_call_world ''b.json''"
    using assms by simp
  then show ?thesis
    by (simp add: load_dumped_file three_call_files call_b_def ingested_call_dates)
qed

lemma chatty_step_b:
  assumes "files w = files three_call_world"
  shows "process_path example_lib chatty_llm Sentiment [] [] ''b.json''
           (after_saving ''a.json'' call_a w) =
         (Some ValueError_failed_to_parse, after_chatty_run w)"
proof -
  have "get_facet Sentiment call_b = None"
    by (simp add: call_b_def ingested_call_no_facet)
  from process_path_analysis_fails [OF after_saving_a_load_b [OF assms] this chatty_llm_b]
  show ?thesis by (simp add: after_chatty_run_def)
qed

lemma chatty_run_loop:
  assumes "files w = files three_call_world"
  shows "run_loop example_lib chatty_llm Sentiment [] [] [''a.json'', ''b.json'', ''c.json''] w =
         (Some ValueError_failed_to_parse, after_chatty_run w)"
  by (simp add: chatty_step_a [OF assms] chatty_step_b [OF assms])

lemma files_print [simp]: "files (print e w) = files w"
  by (simp add: print_def)

lemma run_stage_nonempty:
  "ps \<noteq> [] \<Longrightarrow> length ps = n \<Longrightarrow>
   run_stage_for_all_calls lib llm stg rp fp ps w =
   run_loop lib llm stg rp fp ps (print (Found n) w)"
  by (simp add: run_stage_for_all_calls_def)

lemma three_paths: "length [''a.json'', ''b.json'', ''c.json''] = 3"
  by simp

subsection \<open>A failing record\<close>

text \<open>
  C1, as stated, fails: nothing in the runner catches the exception of an analysis. In
  the directory of three calls, the LLM's answer for the second call is not JSON. The
  run ends there with the \<open>ValueError\<close>: the last line printed is the \<open>Processing\<close> line
  of \<open>b.json\<close>, and \<open>c.json\<close>, whose analysis would have succeeded, is never visited and
  keeps its file.
\<close>

theorem failed_record_aborts_run:
  "run_sentiment_for_all_calls example_lib chatty_llm [''a.json'', ''b.json'', ''c.json'']
     three_call_world =
     (Some ValueError_failed_to_parse, after_chatty_run (print (Found 3) three_call_world)) \<and>
   printed (after_chatty_run (print (Found 3) three_call_world)) =
     [Found 3, Processing ''a.json'', AnalysisSaved, Processing ''b.json''] \<and>
   files (after_chatty_run (print (Found 3) three_call_world)) ''c.json'' =
     files three_call_world ''c.json'' \<and>
   load_call example_lib three_call_world ''c.json'' = Inr call_c \<and>
   get_facet Sentiment call_c = None \<and>
   analyze_sentiment_for_call example_lib chatty_llm call_c =
     Inr (SentimentFacet example_sentiment, example_sentiment_payload)"
proof -
  have f: "files (print (Found 3) three_call_world) = files three_call_world"
    by simp
  have rs: "run_stage_for_all_calls example_lib chatty_llm Sentiment [] []
      [''a.json'', ''b.json'', ''c.json''] three_call_world =
      run_loop example_lib chatty_llm Sentiment [] [] [''a.json'', ''b.json'', ''c.json'']
        (print (Found 3) three_call_world)"
    by (rule run_stage_nonempty) simp_all
  have "run_sentiment_for_all_calls example_lib chatty_llm [''a.json'', ''b.json'', ''c.json'']
          three_call_world =
        (Some ValueError_failed_to_parse, after_chatty_run (print (Found 3) three_call_world))"
    unfolding run_sentiment_for_all_calls_def rs by (rule chatty_run_loop [OF f])
  moreover have "printed (after_chatty_run (print (Found 3) three_call_world)) =
      [Found 3, Processing ''a.json'', AnalysisSaved, Processing ''b.json'']"
    by (simp add: after_chatty_run_def after_saving_def print_def three_call_world_def)
  moreover have "files (after_chatty_run (print (Found 3) three_call_world)) ''c.json'' =
      files three_call_world ''c.json''"
    by (simp add: after_chatty_run_def)
  moreover have "load_call example_lib three_call_world ''c.json'' = Inr call_c"
    by (rule three_call_loads) simp
  moreover have "get_facet Sentiment call_c = None"
    by (simp add: call_c_def ingested_call_no_facet)
  moreover have "analyze_sentiment_for_call example_lib chatty_llm call_c =
      Inr (SentimentFacet example_sentiment, example_sentiment_payload)"
    by (simp add: analyze_sentiment_for_call_def chatty_llm_c)
  ultimately show ?thesis by blast
qed

text \<open>
  C1, amended. Let the records \<open>ps\<close> before record \<open>k\<close> be handled without an exception,
  leaving the world \<open>w1\<close>, and let the analysis of \<open>k\<close> fail: the LLM call raises, or its
  content is not a string, or not parseable JSON, or does not validate as the facet.
  Then the exception is not caught. It ends the run of the stage over \<open>ps @ k # qs\<close>:
  the files are those of \<open>w1\<close>, so the file of \<open>k\<close> is unmodified, the records before it
  keep what the run did to them, and the records \<open>qs\<close> after it are not visited; every
  file outside \<open>ps\<close> is as it was before the run. No failed count is kept.
\<close>

theorem failure_ends_run:
  assumes "run_loop lib llm stg rp fp ps (print (Found (length (ps @ k # qs))) w) = (None, w1)"
    and "load_call lib w1 k = Inr call" and "get_facet stg call = None"
    and "analyze_for_call lib llm stg rp fp call = Inl e"
  shows "fst (run_stage_for_all_calls lib llm stg rp fp (ps @ k # qs) w) = Some e \<and>
         files (snd (run_stage_for_all_calls lib llm stg rp fp (ps @ k # qs) w)) = files w1 \<and>
         (\<forall>q. q \<notin> set ps \<longrightarrow>
              files (snd (run_stage_for_all_calls lib llm stg rp fp (ps @ k # qs) w)) q =
              files w q)"
proof -
  define w0 where "w0 = print (Found (length (ps @ k # qs))) w"
  let ?w2 = "w1\<lparr>printed := printed w1 @ [Processing k],
                 llm_calls := llm_calls w1 @ [(stg, build_prompt_vars lib stg rp fp call)]\<rparr>"
  have before: "run_loop lib llm stg rp fp ps w0 = (None, w1)"
    using assms(1) by (simp only: w0_def)
  have step: "process_path lib llm stg rp fp k w1 = (Some e, ?w2)"
    using assms(2-4) by (rule process_path_analysis_fails)
  have "run_loop lib llm stg rp fp (ps @ k # qs) w0 = (Some e, ?w2)"
    by (simp add: run_loop_append before step)
  then have run: "run_stage_for_all_calls lib llm stg rp fp (ps @ k # qs) w = (Some e, ?w2)"
    by (simp add: run_stage_for_all_calls_def w0_def)
  have "files w1 q = files w q" if "q \<notin> set ps" for q
  proof -
    have "files w1 q = files w0 q"
      using run_loop_files_other [OF that, of lib llm stg rp fp w0] before by simp
    then show ?thesis by (simp add: w0_def)
  qed
  with run show ?thesis by simp
qed

theorem failure_ends_run_witness:
  "run_loop example_lib chatty_llm Sentiment [] [] [''a.json'']
     (print (Found 3) three_call_world) =
     (None, after_saving ''a.json'' call_a (print (Found 3) three_call_world)) \<and>
   load_call example_lib (after_saving ''a.json'' call_a (print (Found 3) three_call_world)) ''b.json'' =
     Inr call_b \<and>
   get_facet Sentiment call_b = None \<and>
   analyze_for_call example_lib chatty_llm Sentiment [] [] call_b =
     Inl ValueError_failed_to_parse \<and>
   fst (run_stage_for_all_calls example_lib chatty_llm Sentiment [] []
          [''a.json'', ''b.json'', ''c.json''] three_call_world) =
     Some ValueError_failed_to_parse \<and>
   files (snd (run_stage_for_all_calls example_lib chatty_llm Sentiment [] []
                 [''a.json'', ''b.json'', ''c.json''] three_call_world)) =
     files (after_saving ''a.json'' call_a (print (Found 3) three_call_world)) \<and>
   files (snd (run_stage_for_all_calls example_lib chatty_llm Sentiment [] []
                 [''a.json'', ''b.json'', ''c.json''] three_call_world)) ''c.json'' =
     files three_call_world ''c.json''"
proof -
  have f: "files (print (Found 3) three_call_world) = files three_call_world"
    by simp
  have len: "length ([''a.json''] @ ''b.json'' # [''c.json'']) = 3"
    by simp
  have h1: "run_loop example_lib chatty_llm Sentiment [] [] [''a.json'']
      (print (Found 3) three_call_world) =
      (None, after_saving ''a.json'' call_a (print (Found 3) three_call_world))"
    by (simp add: chatty_step_a [OF f])
  have h1': "run_loop example_lib chatty_llm Sentiment [] [] [''a.json'']
      (print (Found (length ([''a.json''] @ ''b.json'' # [''c.json'']))) three_call_world) =
      (None, after_saving ''a.json'' call_a (print (Found 3) three_call_world))"
    by (simp only: len h1)
  have h2: "load_call example_lib (after_saving ''a.json'' call_a (print (Found 3) three_call_world))
      ''b.json'' = Inr call_b"
    using f by (rule after_saving_a_load_b)
  have h3: "get_facet Sentiment call_b = None"
    by (simp add: call_b_def ingested_call_no_facet)
  have h4: "analyze_for_call example_lib chatty_llm Sentiment [] [] call_b =
      Inl ValueError_failed_to_parse"
    by (rule chatty_llm_b)
  have app: "[''a.json''] @ ''b.json'' # [''c.json''] = [''a.json'', ''b.json'', ''c.json'']"
    by simp
  note r = failure_ends_run [OF h1' h2 h3 h4, unfolded app]
  from r have c1: "fst (run_stage_for_all_calls example_lib chatty_llm Sentiment [] []
      [''a.json'', ''b.json'', ''c.json''] three_call_world) = Some ValueError_failed_to_parse"
    by (rule conjunct1)
  from r have c2: "files (snd (run_stage_for_all_calls example_lib chatty_llm Sentiment [] []
      [''a.json'', ''b.json'', ''c.json''] three_call_world)) =
      files (after_saving ''a.json'' call_a (print (Found 3) three_call_world))"
    by (rule conjunct1 [OF conjunct2])
  from r have "\<forall>q. q \<notin> set [''a.json''] \<longrightarrow>
      files (snd (run_stage_for_all_calls example_lib chatty_llm Sentiment [] []
        [''a.json'', ''b.json'', ''c.json''] three_call_world)) q = files three_call_world q"
    by (rule conjunct2 [OF conjunct2])
  then have c3: "files (snd (run_stage_for_all_calls example_lib chatty_llm Sentiment [] []
      [''a.json'', ''b.json'', ''c.json''] three_call_world)) ''c.json'' =
      files three_call_world ''c.json''"
    by simp
  from c1 c2 c3 h1 h2 h3 h4 show ?thesis by (intro conjI)
qed

subsection \<open>Running a stage again\<close>

text \<open>What a run prints that skips every record of \<open>ps\<close>.\<close>

definition all_skipped_report :: "path list \<Rightarrow> event list" where
  "all_skipped_report ps = (if ps = [] then [NoCallFiles] else Found (length ps) # skip_report ps)"

lemma printed_during_append: "printed w' = printed w @ evs \<Longrightarrow> printed_during w w' = evs"
  by (simp add: printed_during_def)

lemma rerun_stage_same_llm:
  assumes "distinct ps" and "w1 = snd (run_stage_for_all_calls lib llm stg rp fp ps w0)"
    and "w2 = snd (run_stage_for_all_calls lib llm stg rp fp ps w1)"
  shows "files w2 = files w1 \<and> AnalysisSaved \<notin> set (printed_during w1 w2)"
proof (cases "ps = []")
  case True
  with assms(3) have "w2 = print NoCallFiles w1" by (simp add: run_stage_for_all_calls_def)
  then show ?thesis by (simp add: print_def printed_during_def)
next
  case False
  define n where "n = length ps"
  obtain r1 where first: "run_loop lib llm stg rp fp ps (print (Found n) w0) = (r1, w1)"
    using assms(2) False by (cases "run_loop lib llm stg rp fp ps (print (Found n) w0)")
      (simp add: run_stage_for_all_calls_def n_def)
  obtain r2 where second: "run_loop lib llm stg rp fp ps (print (Found n) w1) = (r2, w2)"
    using assms(3) False by (cases "run_loop lib llm stg rp fp ps (print (Found n) w1)")
      (simp add: run_stage_for_all_calls_def n_def)
  have "files (print (Found n) w1) = files w1" by simp
  from rerun_same_llm [OF assms(1) first this second] obtain evs where
    f: "files w2 = files w1" and e: "printed w2 = printed (print (Found n) w1) @ evs"
    and s: "AnalysisSaved \<notin> set evs"
    by auto
  from e have "printed w2 = printed w1 @ (Found n # evs)" by (simp add: print_def)
  then have "printed_during w1 w2 = Found n # evs" by (rule printed_during_append)
  with f s show ?thesis by simp
qed

lemma rerun_stage_after_completion:
  assumes "distinct ps" and "run_stage_for_all_calls lib llm stg rp fp ps v0 = (None, v1)"
    and "run_stage_for_all_calls lib llm' stg rp' fp' ps v1 = (r2, v2)"
  shows "files v2 = files v1 \<and> llm_calls v2 = llm_calls v1 \<and>
         AnalysisSaved \<notin> set (printed_during v1 v2) \<and>
         ((\<forall>p \<in> set ps. \<exists>c. load_call lib v1 p = Inr c) \<longrightarrow>
            r2 = None \<and> printed_during v1 v2 = all_skipped_report ps)"
proof (cases "ps = []")
  case True
  with assms(3) have "v2 = print NoCallFiles v1" "r2 = None"
    by (simp_all add: run_stage_for_all_calls_def)
  with True show ?thesis by (simp add: print_def printed_during_def all_skipped_report_def)
next
  case False
  define n where "n = length ps"
  let ?v = "print (Found n) v1"
  from assms(2) False have first: "run_loop lib llm stg rp fp ps (print (Found n) v0) = (None, v1)"
    by (simp add: run_stage_for_all_calls_def n_def)
  from assms(3) False have second: "run_loop lib llm' stg rp' fp' ps ?v = (r2, v2)"
    by (simp add: run_stage_for_all_calls_def n_def)
  have settled: "get_facet stg c \<noteq> None" if "p \<in> set ps" "load_call lib v1 p = Inr c" for p c
    using assms(1) first that by (rule completed_run_settles)
  then have inv: "\<forall>p \<in> set ps. \<forall>c. load_call lib ?v p = Inr c \<longrightarrow> get_facet stg c \<noteq> None"
    by (simp add: print_def)
  from run_loop_settled [OF inv second] obtain evs where
    f: "files v2 = files v1" and l: "llm_calls v2 = llm_calls v1"
    and e: "printed v2 = printed ?v @ evs" and s: "AnalysisSaved \<notin> set evs"
    by (auto simp: print_def)
  from e have "printed v2 = printed v1 @ (Found n # evs)" by (simp add: print_def)
  then have pd: "printed_during v1 v2 = Found n # evs" by (rule printed_during_append)
  have "r2 = None \<and> printed_during v1 v2 = all_skipped_report ps"
    if loads: "\<forall>p \<in> set ps. \<exists>c. load_call lib v1 p = Inr c"
  proof -
    have "\<forall>p \<in> set ps. \<exists>c. load_call lib ?v p = Inr c \<and> get_facet stg c \<noteq> None"
      using loads settled by (auto simp: print_def)
    from run_loop_all_skipped [OF this, of llm' rp' fp'] second
    have "r2 = None" and "v2 = ?v\<lparr>printed := printed ?v @ skip_report ps\<rparr>" by simp_all
    then have "printed v2 = printed v1 @ (Found n # skip_report ps)" by (simp add: print_def)
    then have "printed_during v1 v2 = Found n # skip_report ps" by (rule printed_during_append)
    with \<open>r2 = None\<close> False show ?thesis by (simp add: all_skipped_report_def n_def)
  qed
  with f l s pd show ?thesis by simp
qed

text \<open>
  C2. A record whose target facet is already set is skipped: the step prints its two
  lines and changes nothing else, so the LLM is not called and the file is not written.
  Consequently a second run of the same stage over the same paths leaves the files as
  the first run left them and saves nothing: with the same LLM whatever the first run
  did (second conjunct), and with any LLM and phrase lists when the first run completed
  (third conjunct), in which case the LLM is not called at all and, the files being
  loadable, every record is reported as skipped.
\<close>

theorem stage_rerun_idempotent:
  "(load_call lib w p = Inr call \<and> get_facet stg call \<noteq> None \<longrightarrow>
      process_path lib llm stg rp fp p w =
        (None, w\<lparr>printed := printed w @ [Processing p, AlreadyPresentSkipping]\<rparr>)) \<and>
   (distinct ps \<and> w1 = snd (run_stage_for_all_calls lib llm stg rp fp ps w0) \<and>
      w2 = snd (run_stage_for_all_calls lib llm stg rp fp ps w1) \<longrightarrow>
      files w2 = files w1 \<and> AnalysisSaved \<notin> set (printed_during w1 w2)) \<and>
   (distinct qs \<and> run_stage_for_all_calls lib llm stg rp fp qs v0 = (None, v1) \<and>
      run_stage_for_all_calls lib llm' stg rp' fp' qs v1 = (r2, v2) \<longrightarrow>
      files v2 = files v1 \<and> llm_calls v2 = llm_calls v1 \<and>
      AnalysisSaved \<notin> set (printed_during v1 v2) \<and>
      ((\<forall>p \<in> set qs. \<exists>c. load_call lib v1 p = Inr c) \<longrightarrow>
         r2 = None \<and> printed_during v1 v2 = all_skipped_report qs))"
proof (intro conjI impI)
  assume "load_call lib w p = Inr call \<and> get_facet stg call \<noteq> None"
  then show "process_path lib llm stg rp fp p w =
      (None, w\<lparr>printed := printed w @ [Processing p, AlreadyPresentSkipping]\<rparr>)"
    by (simp add: process_path_skip)
next
  assume h: "distinct ps \<and> w1 = snd (run_stage_for_all_calls lib llm stg rp fp ps w0) \<and>
      w2 = snd (run_stage_for_all_calls lib llm stg rp fp ps w1)"
  then have "files w2 = files w1 \<and> AnalysisSaved \<notin> set (printed_during w1 w2)"
    by (intro rerun_stage_same_llm [of ps w1 lib llm stg rp fp w0 w2]) simp_all
  then show "files w2 = files w1" and "AnalysisSaved \<notin> set (printed_during w1 w2)"
    by simp_all
next
  assume h: "distinct qs \<and> run_stage_for_all_calls lib llm stg rp fp qs v0 = (None, v1) \<and>
      run_stage_for_all_calls lib llm' stg rp' fp' qs v1 = (r2, v2)"
  then have *: "files v2 = files v1 \<and> llm_calls v2 = llm_calls v1 \<and>
         AnalysisSaved \<notin> set (printed_during v1 v2) \<and>
         ((\<forall>p \<in> set qs. \<exists>c. load_call lib v1 p = Inr c) \<longrightarrow>
            r2 = None \<and> printed_during v1 v2 = all_skipped_report qs)"
    by (intro rerun_stage_after_completion [of qs lib llm stg rp fp v0 v1 llm' rp' fp' r2 v2])
      simp_all
  from * show "files v2 = files v1" "llm_calls v2 = llm_calls v1"
    "AnalysisSaved \<notin> set (printed_during v1 v2)" by simp_all
  from * show "r2 = None" if "\<forall>p \<in> set qs. \<exists>c. load_call lib v1 p = Inr c"
    using that by simp
  from * show "printed_during v1 v2 = all_skipped_report qs"
    if "\<forall>p \<in> set qs. \<exists>c. load_call lib v1 p = Inr c"
    using that by simp
qed


text \<open>The world after the sentiment stage ran over \<open>a.json\<close> and \<open>c.json\<close> only.\<close>

definition after_chatty_ac :: world where
  "after_chatty_ac =
     after_saving ''c.json'' call_c
       (after_saving ''a.json'' call_a (print (Found 2) three_call_world))"

lemma chatty_run_ac:
  "run_stage_for_all_calls example_lib chatty_llm Sentiment [] [] [''a.json'', ''c.json'']
     three_call_world = (None, after_chatty_ac)"
proof -
  let ?w = "print (Found 2) three_call_world"
  have f: "files ?w = files three_call_world" by simp
  have a: "process_path example_lib chatty_llm Sentiment [] [] ''a.json'' ?w =
      (None, after_saving ''a.json'' call_a ?w)"
    using f by (rule chatty_step_a)
  have "files (after_saving ''a.json'' call_a ?w) ''c.json'' = files three_call_world ''c.json''"
    by simp
  then have "load_call example_lib (after_saving ''a.json'' call_a ?w) ''c.json'' = Inr call_c"
    by (simp add: load_dumped_file three_call_files call_c_def ingested_call_dates)
  then have c: "process_path example_lib chatty_llm Sentiment [] [] ''c.json''
      (after_saving ''a.json'' call_a ?w) = (None, after_chatty_ac)"
    using chatty_llm_c [of example_lib]
    unfolding call_c_def after_chatty_ac_def by (rule sentiment_step_saved)
  have "run_stage_for_all_calls example_lib chatty_llm Sentiment [] [] [''a.json'', ''c.json'']
      three_call_world =
      run_loop example_lib chatty_llm Sentiment [] [] [''a.json'', ''c.json''] ?w"
    by (rule run_stage_nonempty) simp_all
  with a c show ?thesis by simp
qed

lemma after_chatty_ac_loads:
  "load_call example_lib after_chatty_ac ''a.json'' = Inr (with_sentiment call_a)"
  "load_call example_lib after_chatty_ac ''c.json'' = Inr (with_sentiment call_c)"
  by (simp_all add: after_chatty_ac_def load_dumped_file call_a_def call_c_def
      with_sentiment_dates)

theorem stage_rerun_idempotent_witness:
  "(load_call example_lib after_chatty_ac ''a.json'' = Inr (with_sentiment call_a) \<and>
    get_facet Sentiment (with_sentiment call_a) \<noteq> None \<and>
    process_path example_lib chatty_llm Sentiment [] [] ''a.json'' after_chatty_ac =
      (None, after_chatty_ac
         \<lparr>printed := printed after_chatty_ac @ [Processing ''a.json'', AlreadyPresentSkipping]\<rparr>)) \<and>
   (distinct [''a.json'', ''b.json'', ''c.json''] \<and>
    after_chatty_run (print (Found 3) three_call_world) =
      snd (run_stage_for_all_calls example_lib chatty_llm Sentiment [] []
             [''a.json'', ''b.json'', ''c.json''] three_call_world) \<and>
    files (snd (run_stage_for_all_calls example_lib chatty_llm Sentiment [] []
                  [''a.json'', ''b.json'', ''c.json'']
                  (after_chatty_run (print (Found 3) three_call_world)))) =
      files (after_chatty_run (print (Found 3) three_call_world)) \<and>
    AnalysisSaved \<notin> set (printed_during (after_chatty_run (print (Found 3) three_call_world))
      (snd (run_stage_for_all_calls example_lib chatty_llm Sentiment [] []
              [''a.json'', ''b.json'', ''c.json'']
              (after_chatty_run (print (Found 3) three_call_world)))))) \<and>
   (distinct [''a.json'', ''c.json''] \<and>
    run_stage_for_all_calls example_lib chatty_llm Sentiment [] [] [''a.json'', ''c.json'']
      three_call_world = (None, after_chatty_ac) \<and>
    load_call example_lib after_chatty_ac ''c.json'' = Inr (with_sentiment call_c) \<and>
    fst (run_stage_for_all_calls example_lib calm_llm Sentiment [] [] [''a.json'', ''c.json'']
           after_chatty_ac) = None \<and>
    files (snd (run_stage_for_all_calls example_lib calm_llm Sentiment [] []
                  [''a.json'', ''c.json''] after_chatty_ac)) = files after_chatty_ac \<and>
    llm_calls (snd (run_stage_for_all_calls example_lib calm_llm Sentiment [] []
                      [''a.json'', ''c.json''] after_chatty_ac)) = llm_calls after_chatty_ac \<and>
    printed_during after_chatty_ac
      (snd (run_stage_for_all_calls example_lib calm_llm Sentiment [] []
              [''a.json'', ''c.json''] after_chatty_ac)) =
      [Found 2, Processing ''a.json'', AlreadyPresentSkipping,
       Processing ''c.json'', AlreadyPresentSkipping])"
proof -
  note la = after_chatty_ac_loads(1) and lc = after_chatty_ac_loads(2)
  have fa: "get_facet Sentiment (with_sentiment call_a) \<noteq> None"
    by (rule with_sentiment_facet)
  have d3: "distinct [''a.json'', ''b.json'', ''c.json'']" by simp
  have d2: "distinct [''a.json'', ''c.json'']" by simp
  have r3: "after_chatty_run (print (Found 3) three_call_world) =
      snd (run_stage_for_all_calls example_lib chatty_llm Sentiment [] []
             [''a.json'', ''b.json'', ''c.json''] three_call_world)"
  proof -
    have "run_stage_for_all_calls example_lib chatty_llm Sentiment [] []
        [''a.json'', ''b.json'', ''c.json''] three_call_world =
        run_loop example_lib chatty_llm Sentiment [] [] [''a.json'', ''b.json'', ''c.json'']
          (print (Found 3) three_call_world)"
      by (rule run_stage_nonempty) simp_all
    then show ?thesis by (simp only: chatty_run_loop [OF files_print] snd_conv)
  qed
  have loads: "\<forall>p \<in> set [''a.json'', ''c.json'']. \<exists>c. load_call example_lib after_chatty_ac p = Inr c"
    using la lc by simp
  note t = stage_rerun_idempotent
    [where lib = example_lib and w = after_chatty_ac and p = "''a.json''"
       and call = "with_sentiment call_a" and stg = Sentiment and llm = chatty_llm
       and rp = "[]" and fp = "[]" and ps = "[''a.json'', ''b.json'', ''c.json'']"
       and ?w0.0 = three_call_world
       and ?w1.0 = "after_chatty_run (print (Found 3) three_call_world)"
       and ?w2.0 = "snd (run_stage_for_all_calls example_lib chatty_llm Sentiment [] []
              [''a.json'', ''b.json'', ''c.json'']
              (after_chatty_run (print (Found 3) three_call_world)))"
       and qs = "[''a.json'', ''c.json'']" and ?v0.0 = three_call_world
       and ?v1.0 = after_chatty_ac and llm' = calm_llm and rp' = "[]" and fp' = "[]"
       and ?r2.0 = "fst (run_stage_for_all_calls example_lib calm_llm Sentiment [] []
              [''a.json'', ''c.json''] after_chatty_ac)"
       and ?v2.0 = "snd (run_stage_for_all_calls example_lib calm_llm Sentiment [] []
              [''a.json'', ''c.json''] after_chatty_ac)"]
  have rep: "all_skipped_report [''a.json'', ''c.json''] =
      [Found 2, Processing ''a.json'', AlreadyPresentSkipping,
       Processing ''c.json'', AlreadyPresentSkipping]"
    by (simp add: all_skipped_report_def skip_report_def)
  show ?thesis
    using t la lc fa d3 d2 r3 loads chatty_run_ac rep
    by simp
qed


subsection \<open>What a run reports\<close>

text \<open>
  The second line printed for a record that was loaded and did not raise, and the line
  that is last when the run was ended by an exception at the \<open>n\<close>-th path.
\<close>

definition outcome_of :: "stage \<Rightarrow> CallAnalysis \<Rightarrow> event" where
  "outcome_of stg call =
     (if get_facet stg call \<noteq> None then AlreadyPresentSkipping else AnalysisSaved)"

definition raised_at :: "error option \<Rightarrow> path list \<Rightarrow> nat \<Rightarrow> event list" where
  "raised_at r ps n = (case r of None \<Rightarrow> [] | Some e \<Rightarrow> [Processing (ps ! n)])"

lemma report_Cons: "report (q # qs) (oc # ocs) = [Processing q, oc] @ report qs ocs"
  by (simp add: report_def)

lemma process_path_load_other:
  "q \<noteq> p \<Longrightarrow> load_call lib (snd (process_path lib llm stg rp fp p w)) q = load_call lib w q"
  by (intro load_call_cong process_path_files_other)

lemma run_loop_report:
  assumes "distinct ps" and "run_loop lib llm stg rp fp ps w = (r, w')"
  shows "\<exists>n outcomes. length outcomes = n \<and>
      (\<forall>i<n. \<exists>call. load_call lib w (ps ! i) = Inr call \<and> outcomes ! i = outcome_of stg call) \<and>
      printed w' = printed w @ report (take n ps) outcomes @ raised_at r ps n \<and>
      (case r of None \<Rightarrow> n = length ps | Some e \<Rightarrow> n < length ps)"
  using assms
proof (induction ps arbitrary: w)
  case Nil
  then show ?case by (simp add: report_def raised_at_def)
next
  case (Cons q qs)
  have raise: ?case if "r = Some e" "printed w' = printed w @ [Processing q]" for e
  proof -
    have "length ([]::event list) = 0 \<and>
      (\<forall>i<0. \<exists>call. load_call lib w ((q # qs) ! i) = Inr call \<and> [] ! i = outcome_of stg call) \<and>
      printed w' = printed w @ report (take 0 (q # qs)) [] @ raised_at r (q # qs) 0 \<and>
      (case r of None \<Rightarrow> 0 = length (q # qs) | Some e \<Rightarrow> 0 < length (q # qs))"
      using that by (simp add: report_def raised_at_def)
    then show ?thesis by blast
  qed
  have continue: ?case
    if l: "load_call lib w q = Inr call"
      and step: "process_path lib llm stg rp fp q w = (None, w1)"
      and p1: "printed w1 = printed w @ [Processing q, outcome_of stg call]" for call w1
  proof -
    from Cons.prems step have rest: "run_loop lib llm stg rp fp qs w1 = (r, w')" by simp
    from Cons.prems(1) have dq: "distinct qs" and nq: "q \<notin> set qs" by simp_all
    from Cons.IH [OF dq rest] obtain n outcomes where
      len: "length outcomes = n"
      and oc: "\<forall>i<n. \<exists>call. load_call lib w1 (qs ! i) = Inr call \<and> outcomes ! i = outcome_of stg call"
      and pr: "printed w' = printed w1 @ report (take n qs) outcomes @ raised_at r qs n"
      and fin: "case r of None \<Rightarrow> n = length qs | Some e \<Rightarrow> n < length qs"
      by blast
    have n_le: "n \<le> length qs" using fin by (cases r) simp_all
    have same: "load_call lib w1 (qs ! i) = load_call lib w (qs ! i)" if "i < n" for i
    proof -
      from that n_le have "qs ! i \<in> set qs" by simp
      with nq have "qs ! i \<noteq> q" by blast
      from process_path_load_other [OF this, of lib llm stg rp fp w] step show ?thesis by simp
    qed
    let ?ocs = "outcome_of stg call # outcomes"
    have 1: "length ?ocs = Suc n" using len by simp
    have 2: "\<forall>i<Suc n. \<exists>c. load_call lib w ((q # qs) ! i) = Inr c \<and> ?ocs ! i = outcome_of stg c"
    proof (intro allI impI)
      fix i assume "i < Suc n"
      show "\<exists>c. load_call lib w ((q # qs) ! i) = Inr c \<and> ?ocs ! i = outcome_of stg c"
      proof (cases i)
        case 0
        with l show ?thesis by simp
      next
        case (Suc j)
        with \<open>i < Suc n\<close> have "j < n" by simp
        with oc obtain c where "load_call lib w1 (qs ! j) = Inr c"
          "outcomes ! j = outcome_of stg c" by blast
        with same [OF \<open>j < n\<close>] have "load_call lib w (qs ! j) = Inr c \<and>
            outcomes ! j = outcome_of stg c" by simp
        with Suc show ?thesis by auto
      qed
    qed
    have 3: "printed w' = printed w @ report (take (Suc n) (q # qs)) ?ocs @ raised_at r (q # qs) (Suc n)"
      using pr p1 by (cases r) (simp_all add: report_Cons raised_at_def)
    have 4: "case r of None \<Rightarrow> Suc n = length (q # qs) | Some e \<Rightarrow> Suc n < length (q # qs)"
      using fin by (cases r) simp_all
    from 1 2 3 4 show ?thesis by blast
  qed
  show ?case
  proof (rule process_path_cases [where lib = lib and w = w and p = q and stg = stg
        and llm = llm and rp = rp and fp = fp])
    fix e assume "load_call lib w q = Inl e"
    with Cons.prems(2) show ?thesis
      by (intro raise [of e]) (auto simp: process_path_load_fails)
  next
    fix call assume h: "load_call lib w q = Inr call" "get_facet stg call \<noteq> None"
    then show ?thesis
      by (intro continue [OF h(1) process_path_skip [OF h]]) (simp add: outcome_of_def)
  next
    fix call e assume h: "load_call lib w q = Inr call" "get_facet stg call = None"
      "analyze_for_call lib llm stg rp fp call = Inl e"
    with Cons.prems(2) show ?thesis
      by (intro raise [of e]) (auto simp: process_path_analysis_fails)
  next
    fix call m raw assume h: "load_call lib w q = Inr call" "get_facet stg call = None"
      "analyze_for_call lib llm stg rp fp call = Inr (m, raw)"
    then show ?thesis
      by (intro continue [OF h(1) process_path_saved [OF h]]) (simp add: outcome_of_def)
  qed
qed

text \<open>The sentiment stage with the calm LLM where \<open>a.json\<close> already has its sentiment.\<close>

definition after_skipping :: "path \<Rightarrow> world \<Rightarrow> world" where
  "after_skipping p w = w\<lparr>printed := printed w @ [Processing p, AlreadyPresentSkipping]\<rparr>"

lemma step_skips_a:
  assumes "files w ''a.json'' =
      Some (JsonText (dump_CallAnalysis example_lib (with_sentiment call_a)))"
  shows "process_path example_lib llm Sentiment [] [] ''a.json'' w =
         (None, after_skipping ''a.json'' w)"
proof -
  have "load_call example_lib w ''a.json'' = Inr (with_sentiment call_a)"
    using assms by (simp add: load_dumped_file call_a_def with_sentiment_dates)
  from process_path_skip [OF this with_sentiment_facet]
  show ?thesis by (simp add: after_skipping_def)
qed

lemma calm_run_a:
  "run_sentiment_for_all_calls example_lib calm_llm [''a.json'']
     (after_saving ''a.json'' call_a three_call_world) =
   (None, after_skipping ''a.json''
            (print (Found 1) (after_saving ''a.json'' call_a three_call_world)))"
proof -
  let ?w = "print (Found 1) (after_saving ''a.json'' call_a three_call_world)"
  have "run_sentiment_for_all_calls example_lib calm_llm [''a.json'']
      (after_saving ''a.json'' call_a three_call_world) =
      run_loop example_lib calm_llm Sentiment [] [] [''a.json''] ?w"
    unfolding run_sentiment_for_all_calls_def by (rule run_stage_nonempty) simp_all
  moreover have "process_path example_lib calm_llm Sentiment [] [] ''a.json'' ?w =
      (None, after_skipping ''a.json'' ?w)"
    by (rule step_skips_a) simp
  ultimately show ?thesis by simp
qed

lemma calm_run_ab:
  "run_sentiment_for_all_calls example_lib calm_llm [''a.json'', ''b.json'']
     (after_saving ''a.json'' call_a three_call_world) =
   (None, after_saving ''b.json'' call_b
            (after_skipping ''a.json''
               (print (Found 2) (after_saving ''a.json'' call_a three_call_world))))"
proof -
  let ?w = "print (Found 2) (after_saving ''a.json'' call_a three_call_world)"
  have "run_sentiment_for_all_calls example_lib calm_llm [''a.json'', ''b.json'']
      (after_saving ''a.json'' call_a three_call_world) =
      run_loop example_lib calm_llm Sentiment [] [] [''a.json'', ''b.json''] ?w"
    unfolding run_sentiment_for_all_calls_def by (rule run_stage_nonempty) simp_all
  moreover have "process_path example_lib calm_llm Sentiment [] [] ''a.json'' ?w =
      (None, after_skipping ''a.json'' ?w)"
    by (rule step_skips_a) simp
  moreover have "process_path example_lib calm_llm Sentiment [] [] ''b.json''
      (after_skipping ''a.json'' ?w) =
      (None, after_saving ''b.json'' call_b (after_skipping ''a.json'' ?w))"
  proof -
    have "files (after_skipping ''a.json'' ?w) ''b.json'' = files three_call_world ''b.json''"
      by (simp add: after_skipping_def)
    then have "load_call example_lib (after_skipping ''a.json'' ?w) ''b.json'' = Inr call_b"
      by (simp add: load_dumped_file three_call_files call_b_def ingested_call_dates)
    then show ?thesis
      using calm_llm_any [of example_lib call_b]
      unfolding call_b_def by (rule sentiment_step_saved)
  qed
  ultimately show ?thesis by simp
qed

text \<open>
  C3, as stated, fails: the stage operations return no value. Two runs of the sentiment
  stage from the same directory, one that skips one record and saves another and one
  that only skips a record, both return \<open>None\<close>; what differs is only what they print.
\<close>

theorem stage_run_returns_no_summary:
  "fst (run_sentiment_for_all_calls example_lib calm_llm [''a.json'', ''b.json'']
          (after_saving ''a.json'' call_a three_call_world)) = None \<and>
   printed_during (after_saving ''a.json'' call_a three_call_world)
     (snd (run_sentiment_for_all_calls example_lib calm_llm [''a.json'', ''b.json'']
             (after_saving ''a.json'' call_a three_call_world))) =
     [Found 2, Processing ''a.json'', AlreadyPresentSkipping,
      Processing ''b.json'', AnalysisSaved] \<and>
   fst (run_sentiment_for_all_calls example_lib calm_llm [''a.json'']
          (after_saving ''a.json'' call_a three_call_world)) = None \<and>
   printed_during (after_saving ''a.json'' call_a three_call_world)
     (snd (run_sentiment_for_all_calls example_lib calm_llm [''a.json'']
             (after_saving ''a.json'' call_a three_call_world))) =
     [Found 1, Processing ''a.json'', AlreadyPresentSkipping]"
  unfolding calm_run_a calm_run_ab fst_conv snd_conv
  by (simp add: printed_during_def after_saving_def after_skipping_def print_def)

text \<open>
  C3, amended. A stage operation returns no value: it ends normally (\<open>r = None\<close>) or with
  the exception of the record it failed on. What it reports, it prints. Over a
  non-empty list of distinct paths it prints the number of files found and then, for
  each of the first \<open>n\<close> records, a \<open>Processing\<close> line followed by "already present,
  skipping" when the loaded record had the facet and by "analysis saved" when it had
  not; \<open>n\<close> is the number of all records when the run ends normally. When the run is
  ended by an exception, the last line is the \<open>Processing\<close> line of the record that
  raised; no failed count, identifier list or reason is produced.
\<close>

theorem stage_run_report:
  assumes "distinct ps" and "ps \<noteq> []"
    and "run_stage_for_all_calls lib llm stg rp fp ps w = (r, w')"
  shows "\<exists>n outcomes. length outcomes = n \<and>
      (\<forall>i<n. \<exists>call. load_call lib w (ps ! i) = Inr call \<and> outcomes ! i = outcome_of stg call) \<and>
      printed_during w w' =
        Found (length ps) # report (take n ps) outcomes @ raised_at r ps n \<and>
      (case r of None \<Rightarrow> n = length ps | Some e \<Rightarrow> n < length ps)"
proof -
  let ?w0 = "print (Found (length ps)) w"
  from assms(2,3) have "run_loop lib llm stg rp fp ps ?w0 = (r, w')"
    by (simp add: run_stage_for_all_calls_def)
  from run_loop_report [OF assms(1) this] obtain n outcomes where
    len: "length outcomes = n"
    and oc: "\<forall>i<n. \<exists>call. load_call lib ?w0 (ps ! i) = Inr call \<and> outcomes ! i = outcome_of stg call"
    and pr: "printed w' = printed ?w0 @ report (take n ps) outcomes @ raised_at r ps n"
    and fin: "case r of None \<Rightarrow> n = length ps | Some e \<Rightarrow> n < length ps"
    by blast
  from pr have "printed w' =
      printed w @ (Found (length ps) # report (take n ps) outcomes @ raised_at r ps n)"
    by (simp add: print_def)
  then have "printed_during w w' =
      Found (length ps) # report (take n ps) outcomes @ raised_at r ps n"
    by (rule printed_during_append)
  moreover from oc have "\<forall>i<n. \<exists>call. load_call lib w (ps ! i) = Inr call \<and>
      outcomes ! i = outcome_of stg call"
    by (simp add: print_def)
  ultimately show ?thesis using len fin by blast
qed


theorem stage_run_report_witness:
  "distinct [''a.json'', ''b.json'', ''c.json''] \<and>
   [''a.json'', ''b.json'', ''c.json''] \<noteq> [] \<and>
   run_stage_for_all_calls example_lib chatty_llm Sentiment [] []
     [''a.json'', ''b.json'', ''c.json''] three_call_world =
     (Some ValueError_failed_to_parse, after_chatty_run (print (Found 3) three_call_world)) \<and>
   (\<exists>n outcomes. length outcomes = n \<and>
      (\<forall>i<n. \<exists>call.
         load_call example_lib three_call_world ([''a.json'', ''b.json'', ''c.json''] ! i) =
           Inr call \<and>
         outcomes ! i = outcome_of Sentiment call) \<and>
      printed_during three_call_world (after_chatty_run (print (Found 3) three_call_world)) =
        Found (length [''a.json'', ''b.json'', ''c.json'']) #
        report (take n [''a.json'', ''b.json'', ''c.json'']) outcomes @
        raised_at (Some ValueError_failed_to_parse) [''a.json'', ''b.json'', ''c.json''] n \<and>
      (case Some ValueError_failed_to_parse of
         None \<Rightarrow> n = length [''a.json'', ''b.json'', ''c.json'']
       | Some e \<Rightarrow> n < length [''a.json'', ''b.json'', ''c.json'']))"
proof -
  have d: "distinct [''a.json'', ''b.json'', ''c.json'']" by simp
  have ne: "[''a.json'', ''b.json'', ''c.json''] \<noteq> []" by simp
  have "run_stage_for_all_calls example_lib chatty_llm Sentiment [] []
      [''a.json'', ''b.json'', ''c.json''] three_call_world =
      run_loop example_lib chatty_llm Sentiment [] [] [''a.json'', ''b.json'', ''c.json'']
        (print (Found 3) three_call_world)"
    by (rule run_stage_nonempty) simp_all
  then have run: "run_stage_for_all_calls example_lib chatty_llm Sentiment [] []
      [''a.json'', ''b.json'', ''c.json''] three_call_world =
      (Some ValueError_failed_to_parse, after_chatty_run (print (Found 3) three_call_world))"
    by (simp only: chatty_run_loop [OF files_print])
  from stage_run_report [OF d ne run] d ne run show ?thesis by (intro conjI)
qed

subsection \<open>What a run changes\<close>

text \<open>
  \<open>differs_only_in_facet stg m raw before after\<close>: the record \<open>after\<close> is the record
  \<open>before\<close> with the facet of stage \<open>stg\<close>, unset before, set to \<open>m\<close>, and with \<open>raw\<close>
  stored under the facet's name in the raw outputs; the other four facets, metadata,
  transcript, custom metrics and every other raw-output key are the same.
\<close>

definition differs_only_in_facet ::
  "stage \<Rightarrow> facet \<Rightarrow> json \<Rightarrow> CallAnalysis \<Rightarrow> CallAnalysis \<Rightarrow> bool" where
  "differs_only_in_facet stg m raw before after \<longleftrightarrow>
     get_facet stg before = None \<and> get_facet stg after = Some m \<and>
     (\<forall>s. s \<noteq> stg \<longrightarrow> get_facet s after = get_facet s before) \<and>
     metadata after = metadata before \<and> transcript after = transcript before \<and>
     custom_metrics after = custom_metrics before \<and>
     map_of (raw_llm_outputs after) (facet_name stg) = Some raw \<and>
     (\<forall>k. k \<noteq> facet_name stg \<longrightarrow>
          map_of (raw_llm_outputs after) k = map_of (raw_llm_outputs before) k)"

lemma load_call_print [simp]: "load_call lib (print e w) p = load_call lib w p"
  by (simp add: print_def)

lemma attach_frame:
  assumes "validate_facet lib stg raw = Some m" and "get_facet stg call = None"
  shows "differs_only_in_facet stg m raw call (attach stg m raw call)"
proof -
  have raw: "map_of (raw_llm_outputs (attach stg m raw call)) =
      (map_of (raw_llm_outputs call))(facet_name stg \<mapsto> raw)"
    by (cases m) (simp_all add: attach_def update_conv')
  have same: "metadata (attach stg m raw call) = metadata call \<and>
      transcript (attach stg m raw call) = transcript call \<and>
      custom_metrics (attach stg m raw call) = custom_metrics call"
    by (cases m) (simp_all add: attach_def)
  have this_one: "get_facet stg (attach stg m raw call) = Some m"
    using assms(1) by (cases stg) (auto simp: attach_def)
  have others: "get_facet s (attach stg m raw call) = get_facet s call" if "s \<noteq> stg" for s
    using assms(1) that by (cases stg; cases s) (auto simp: attach_def)
  from raw same this_one others assms(2) show ?thesis
    by (simp add: differs_only_in_facet_def)
qed

lemma run_loop_frame:
  assumes "distinct ps" and "run_loop lib llm stg rp fp ps w = (r, w')"
  shows "files w' p = files w p \<or>
         (p \<in> set ps \<and>
          (\<exists>call m raw. load_call lib w p = Inr call \<and> get_facet stg call = None \<and>
             analyze_for_call lib llm stg rp fp call = Inr (m, raw) \<and>
             files w' p = Some (JsonText (dump_CallAnalysis lib (attach stg m raw call)))))"
  using assms
proof (induction ps arbitrary: w)
  case Nil
  then show ?case by simp
next
  case (Cons q qs)
  obtain r0 w1 where step: "process_path lib llm stg rp fp q w = (r0, w1)"
    by (cases "process_path lib llm stg rp fp q w")
  from Cons.prems(1) have dq: "distinct qs" and nq: "q \<notin> set qs" by simp_all
  have after: "files w' x = files w1 x" if "x \<notin> set qs" for x
  proof (cases r0)
    case None
    with step Cons.prems(2) have "run_loop lib llm stg rp fp qs w1 = (r, w')" by simp
    with run_loop_files_other [OF that, of lib llm stg rp fp w1] show ?thesis by simp
  next
    case (Some e)
    with step Cons.prems(2) show ?thesis by simp
  qed
  show ?case
  proof (cases "p = q")
    case True
    with after nq have pw: "files w' p = files w1 p" by simp
    show ?thesis
    proof (rule process_path_cases [where lib = lib and w = w and p = q and stg = stg
          and llm = llm and rp = rp and fp = fp])
      fix e assume "load_call lib w q = Inl e"
      with step pw show ?thesis by (auto simp: process_path_load_fails)
    next
      fix call assume "load_call lib w q = Inr call" "get_facet stg call \<noteq> None"
      with step pw show ?thesis by (auto simp: process_path_skip)
    next
      fix call e assume "load_call lib w q = Inr call" "get_facet stg call = None"
        "analyze_for_call lib llm stg rp fp call = Inl e"
      with step pw show ?thesis by (auto simp: process_path_analysis_fails)
    next
      fix call m raw assume h: "load_call lib w q = Inr call" "get_facet stg call = None"
        "analyze_for_call lib llm stg rp fp call = Inr (m, raw)"
      with step have "files w1 q = Some (JsonText (dump_CallAnalysis lib (attach stg m raw call)))"
        by (auto simp: process_path_saved)
      with pw True h show ?thesis by auto
    qed
  next
    case False
    from process_path_files_other [OF False, of lib llm stg rp fp w] step
    have f1: "files w1 p = files w p" by simp
    then have l1: "load_call lib w1 p = load_call lib w p" by (rule load_call_cong)
    show ?thesis
    proof (cases r0)
      case (Some e)
      with step Cons.prems(2) f1 show ?thesis by simp
    next
      case None
      with step Cons.prems(2) have "run_loop lib llm stg rp fp qs w1 = (r, w')" by simp
      from Cons.IH [OF dq this] f1 l1 show ?thesis by auto
    qed
  qed
qed

text \<open>
  C10. After a stage run over distinct paths, from world \<open>w\<close> to world \<open>w'\<close> and whether
  or not the run ended with an exception, every file \<open>p\<close> is either untouched, or belongs
  to a record the run processed successfully: the record loaded from \<open>w\<close> had no facet,
  its analysis returned \<open>(m, raw)\<close>, and the file now holds the dump of a record that
  differs from the loaded one only in that facet and its raw-output entry; that record
  is what \<open>load_call\<close> returns afterwards (the library reading back the dates it wrote,
  and the floats of the record being finite). A record whose facet was already set keeps
  its file.
\<close>

theorem stage_run_frame:
  assumes "distinct ps" and "run_stage_for_all_calls lib llm stg rp fp ps w = (r, w')"
  shows "(files w' p = files w p \<or>
          (\<exists>call m raw. p \<in> set ps \<and> load_call lib w p = Inr call \<and>
             analyze_for_call lib llm stg rp fp call = Inr (m, raw) \<and>
             files w' p = Some (JsonText (dump_CallAnalysis lib (attach stg m raw call))) \<and>
             differs_only_in_facet stg m raw call (attach stg m raw call) \<and>
             (dates_read_back lib (attach stg m raw call) \<and>
              finite_floats (attach stg m raw call) \<longrightarrow>
                load_call lib w' p = Inr (attach stg m raw call)))) \<and>
         (\<forall>call. load_call lib w p = Inr call \<and> get_facet stg call \<noteq> None \<longrightarrow>
            files w' p = files w p)"
proof -
  have loop: "files w' p = files w p \<or>
         (p \<in> set ps \<and>
          (\<exists>call m raw. load_call lib w p = Inr call \<and> get_facet stg call = None \<and>
             analyze_for_call lib llm stg rp fp call = Inr (m, raw) \<and>
             files w' p = Some (JsonText (dump_CallAnalysis lib (attach stg m raw call)))))"
  proof (cases "ps = []")
    case True
    with assms(2) show ?thesis by (auto simp: run_stage_for_all_calls_def)
  next
    case False
    let ?w0 = "print (Found (length ps)) w"
    from False assms(2) have "run_loop lib llm stg rp fp ps ?w0 = (r, w')"
      by (simp add: run_stage_for_all_calls_def)
    from run_loop_frame [OF assms(1) this, of p] show ?thesis by simp
  qed
  have first: "files w' p = files w p \<or>
          (\<exists>call m raw. p \<in> set ps \<and> load_call lib w p = Inr call \<and>
             analyze_for_call lib llm stg rp fp call = Inr (m, raw) \<and>
             files w' p = Some (JsonText (dump_CallAnalysis lib (attach stg m raw call))) \<and>
             differs_only_in_facet stg m raw call (attach stg m raw call) \<and>
             (dates_read_back lib (attach stg m raw call) \<and>
              finite_floats (attach stg m raw call) \<longrightarrow>
                load_call lib w' p = Inr (attach stg m raw call)))"
  proof (cases "files w' p = files w p")
    case True
    then show ?thesis by simp
  next
    case False
    with loop obtain call m raw where h: "p \<in> set ps" "load_call lib w p = Inr call"
      "get_facet stg call = None" "analyze_for_call lib llm stg rp fp call = Inr (m, raw)"
      "files w' p = Some (JsonText (dump_CallAnalysis lib (attach stg m raw call)))"
      by blast
    have "differs_only_in_facet stg m raw call (attach stg m raw call)"
      using analyze_for_call_validates [OF h(4)] h(3) by (rule attach_frame)
    moreover have "load_call lib w' p = Inr (attach stg m raw call)"
      if "dates_read_back lib (attach stg m raw call) \<and> finite_floats (attach stg m raw call)"
      using h(5) that by (intro load_dumped_file) simp_all
    ultimately show ?thesis using h by blast
  qed
  have second: "files w' p = files w p"
    if "load_call lib w p = Inr call \<and> get_facet stg call \<noteq> None" for call
    using loop that by auto
  from first second show ?thesis by blast
qed


theorem stage_run_frame_witness:
  "distinct [''a.json'', ''b.json'', ''c.json''] \<and>
   run_stage_for_all_calls example_lib chatty_llm Sentiment [] []
     [''a.json'', ''b.json'', ''c.json''] three_call_world =
     (Some ValueError_failed_to_parse, after_chatty_run (print (Found 3) three_call_world)) \<and>
   files (after_chatty_run (print (Found 3) three_call_world)) ''a.json'' \<noteq>
     files three_call_world ''a.json'' \<and>
   (\<exists>call m raw. ''a.json'' \<in> set [''a.json'', ''b.json'', ''c.json''] \<and>
      load_call example_lib three_call_world ''a.json'' = Inr call \<and>
      analyze_for_call example_lib chatty_llm Sentiment [] [] call = Inr (m, raw) \<and>
      files (after_chatty_run (print (Found 3) three_call_world)) ''a.json'' =
        Some (JsonText (dump_CallAnalysis example_lib (attach Sentiment m raw call))) \<and>
      differs_only_in_facet Sentiment m raw call (attach Sentiment m raw call) \<and>
      (dates_read_back example_lib (attach Sentiment m raw call) \<and>
       finite_floats (attach Sentiment m raw call) \<longrightarrow>
         load_call example_lib (after_chatty_run (print (Found 3) three_call_world)) ''a.json'' =
           Inr (attach Sentiment m raw call)))"
proof -
  have d: "distinct [''a.json'', ''b.json'', ''c.json'']" by simp
  have "run_stage_for_all_calls example_lib chatty_llm Sentiment [] []
      [''a.json'', ''b.json'', ''c.json''] three_call_world =
      run_loop example_lib chatty_llm Sentiment [] [] [''a.json'', ''b.json'', ''c.json'']
        (print (Found 3) three_call_world)"
    by (rule run_stage_nonempty) simp_all
  then have run: "run_stage_for_all_calls example_lib chatty_llm Sentiment [] []
      [''a.json'', ''b.json'', ''c.json''] three_call_world =
      (Some ValueError_failed_to_parse, after_chatty_run (print (Found 3) three_call_world))"
    by (simp only: chatty_run_loop [OF files_print])
  have changed: "files (after_chatty_run (print (Found 3) three_call_world)) ''a.json'' \<noteq>
      files three_call_world ''a.json''"
    by (simp add: after_chatty_run_def three_call_files dump_CallAnalysis_def
        with_sentiment_def attach_def call_a_def ingested_call_def dump_optional_def)
  from stage_run_frame [OF d run, of "''a.json''"] changed
  have "\<exists>call m raw. ''a.json'' \<in> set [''a.json'', ''b.json'', ''c.json''] \<and>
      load_call example_lib three_call_world ''a.json'' = Inr call \<and>
      analyze_for_call example_lib chatty_llm Sentiment [] [] call = Inr (m, raw) \<and>
      files (after_chatty_run (print (Found 3) three_call_world)) ''a.json'' =
        Some (JsonText (dump_CallAnalysis example_lib (attach Sentiment m raw call))) \<and>
      differs_only_in_facet Sentiment m raw call (attach Sentiment m raw call) \<and>
      (dates_read_back example_lib (attach Sentiment m raw call) \<and>
       finite_floats (attach Sentiment m raw call) \<longrightarrow>
         load_call example_lib (after_chatty_run (print (Found 3) three_call_world)) ''a.json'' =
           Inr (attach Sentiment m raw call))"
    by blast
  with d run changed show ?thesis by (intro conjI)
qed



section \<open>Ingestion: call identifiers and the first save (\<open>app/storage.py\<close>)\<close>

text \<open>\<open>str(n)\<close> for an \<open>int\<close>: the decimal digits, with a minus sign when negative.\<close>

fun digits :: "nat \<Rightarrow> string" where
  "digits n = (if n < 10 then [digit_char n] else digits (n div 10) @ [digit_char n])"

declare digits.simps [simp del]

definition str_int :: "int \<Rightarrow> string" where
  "str_int i = (if i < 0 then CHR ''-'' # digits (nat (- i)) else digits (nat i))"

text \<open>\<open>int(x)\<close> for a \<open>float\<close>: truncation towards zero.\<close>

definition int_of_float :: "rat \<Rightarrow> int" where
  "int_of_float x = (if 0 \<le> x then \<lfloor>x\<rfloor> else \<lceil>x\<rceil>)"

text \<open>\<open>Path.name\<close> and \<open>Path.stem\<close> of a path given as its text.\<close>

definition path_name :: "string \<Rightarrow> string" where
  "path_name p = rev (takeWhile (\<lambda>c. c \<noteq> CHR ''/'') (rev p))"

definition path_stem :: "string \<Rightarrow> string" where
  "path_stem p =
     (let name = path_name p;
          ext = takeWhile (\<lambda>c. c \<noteq> CHR ''.'') (rev name);
          i = length name - length ext - 1
      in if CHR ''.'' \<in> set name \<and> 0 < i \<and> i < length name - 1 then take i name else name)"

text \<open>
  \<open>RecordingFile\<close> of \<open>app/ingestion.py\<close>; its fields \<open>path\<close> and \<open>name\<close> are \<open>rec_path\<close>
  (the text of the path) and \<open>rec_name\<close> here. \<open>modified_time\<close> is a POSIX timestamp.
\<close>

record RecordingFile =
  rec_path :: string
  rec_name :: string
  size_bytes :: int
  modified_time :: rat

text \<open>\<open>TranscriptionResult\<close> of \<open>app/transcription.py\<close>; its field \<open>text\<close> is \<open>result_text\<close>.\<close>

record TranscriptionResult =
  recording :: RecordingFile
  result_text :: string
  language :: "string option"

definition generate_call_id :: "RecordingFile \<Rightarrow> string" where
  "generate_call_id rec =
     (let stem = path_stem (rec_path rec);
          ts = int_of_float (modified_time rec)
      in stem @ ''_'' @ str_int ts)"




text \<open>
  \<open>utcnow rec\<close> is the text of the clock (\<open>datetime.utcnow().isoformat()\<close>) read when
  the metadata of \<open>rec\<close> is built.
\<close>

definition build_call_metadata ::
  "(RecordingFile \<Rightarrow> string) \<Rightarrow> RecordingFile \<Rightarrow> string \<Rightarrow> CallMetadata" where
  "build_call_metadata utcnow rec client =
     \<lparr>call_id = generate_call_id rec, client_id = client, audio_file = rec_path rec,
      call_start_time = None, call_end_time = None, duration_seconds = None,
      agent_name = None, customer_phone = None,
      extra_metadata =
        [(''size_bytes'', JInt (size_bytes rec)),
         (''modified_time'', JFloat (modified_time rec)),
         (''created_at'', JStr (utcnow rec))]\<rparr>"

definition build_call_analysis_from_transcription ::
  "(RecordingFile \<Rightarrow> string) \<Rightarrow> TranscriptionResult \<Rightarrow> string \<Rightarrow> CallAnalysis" where
  "build_call_analysis_from_transcription utcnow result client =
     \<lparr>metadata = build_call_metadata utcnow (recording result) client,
      transcript = result_text result,
      sentiment = None, intent_and_topics = None, call_quality = None,
      compliance_and_risk = None, outcome_and_followup = None, custom_metrics = None,
      raw_llm_outputs = []\<rparr>"

text \<open>
  \<open>save_call_analysis\<close> opens \<open>data/calls/<call_id>.json\<close> for writing, which replaces
  the file if it exists, and returns the path.
\<close>

definition save_call_analysis :: "pydantic \<Rightarrow> CallAnalysis \<Rightarrow> world \<Rightarrow> path \<times> world" where
  "save_call_analysis lib call_analysis w =
     (let out_path = call_id (metadata call_analysis) @ ''.json''
      in (out_path,
          w\<lparr>files := (files w)(out_path \<mapsto>
                         JsonText (dump_CallAnalysis lib call_analysis))\<rparr>))"

definition save_transcription_result ::
  "pydantic \<Rightarrow> (RecordingFile \<Rightarrow> string) \<Rightarrow> TranscriptionResult \<Rightarrow> string \<Rightarrow> world
     \<Rightarrow> path \<times> world" where
  "save_transcription_result lib utcnow result client w =
     save_call_analysis lib (build_call_analysis_from_transcription utcnow result client) w"

fun save_transcription_results ::
  "pydantic \<Rightarrow> (RecordingFile \<Rightarrow> string) \<Rightarrow> TranscriptionResult list \<Rightarrow> string \<Rightarrow> world
     \<Rightarrow> path list \<times> world" where
  "save_transcription_results lib utcnow [] client w = ([], w)"
| "save_transcription_results lib utcnow (r # rs) client w =
     (case save_transcription_result lib utcnow r client w of
        (p, w') \<Rightarrow>
          (case save_transcription_results lib utcnow rs client w' of
             (ps, w'') \<Rightarrow> (p # ps, w'')))"

text \<open>
  Two recordings that \<open>discover_wav_recordings\<close> finds together: the same file name stem
  in two directories, modified within the same second.
\<close>

definition inbound_recording :: RecordingFile where
  "inbound_recording =
     \<lparr>rec_path = ''recordings/inbound/call.wav'', rec_name = ''call.wav'',
      size_bytes = 2048, modified_time = 6928164937 / 4\<rparr>"

definition outbound_recording :: RecordingFile where
  "outbound_recording =
     \<lparr>rec_path = ''recordings/outbound/call.mp3'', rec_name = ''call.mp3'',
      size_bytes = 4096, modified_time = 6928164939 / 4\<rparr>"

definition inbound_result :: TranscriptionResult where
  "inbound_result =
     \<lparr>recording = inbound_recording,
      result_text = ''Hello, I would like to reschedule my appointment.'',
      language = Some ''english''\<rparr>"

definition outbound_result :: TranscriptionResult where
  "outbound_result =
     \<lparr>recording = outbound_recording, result_text = ''Hi, this is about my refund.'',
      language = None\<rparr>"

definition example_clock :: "RecordingFile \<Rightarrow> string" where
  "example_clock rec = ''2024-11-19T18:40:00.000000''"

lemma digit_char_inj: "a < 10 \<Longrightarrow> b < 10 \<Longrightarrow> digit_char a = digit_char b \<Longrightarrow> a = b"
proof -
  assume a: "a < 10" and b: "b < 10" and eq: "digit_char a = digit_char b"
  have d: "distinct ''0123456789''" by simp
  from a b eq have "''0123456789'' ! a = ''0123456789'' ! b" by (simp add: digit_char_def)
  with d a b show "a = b" by (simp add: nth_eq_iff_index_eq)
qed

lemma digit_char_mod_inj: "digit_char a = digit_char b \<Longrightarrow> a mod 10 = b mod 10"
proof -
  assume "digit_char a = digit_char b"
  then have "digit_char (a mod 10) = digit_char (b mod 10)" by (simp add: digit_char_def)
  then show ?thesis by (intro digit_char_inj) simp_all
qed

lemma digit_char_is_digit: "digit_char n \<in> set ''0123456789''"
  unfolding digit_char_def by (rule nth_mem) simp

lemma digits_nonempty: "digits n \<noteq> []"
  by (subst digits.simps) simp

lemma digits_last: "last (digits n) = digit_char n"
  by (subst digits.simps) simp

lemma digits_butlast: "butlast (digits n) = (if n < 10 then [] else digits (n div 10))"
  by (subst digits.simps) (simp add: butlast_append)

lemma digits_inj: "digits m = digits n \<Longrightarrow> m = n"
proof (induction m arbitrary: n rule: digits.induct)
  case (1 m)
  from "1.prems" have "last (digits m) = last (digits n)" by simp
  then have "digit_char m = digit_char n" by (simp add: digits_last)
  then have mod: "m mod 10 = n mod 10" by (rule digit_char_mod_inj)
  from "1.prems" have bl: "butlast (digits m) = butlast (digits n)" by simp
  show ?case
  proof (cases "m < 10")
    case True
    with bl have "n < 10" using digits_nonempty [of "n div 10"]
      by (auto simp: digits_butlast split: if_splits)
    with True mod show ?thesis by simp
  next
    case False
    with bl have n: "\<not> n < 10" using digits_nonempty [of "m div 10"]
      by (auto simp: digits_butlast split: if_splits)
    with False bl have "digits (m div 10) = digits (n div 10)" by (simp add: digits_butlast)
    with "1.IH" [OF False] have "m div 10 = n div 10" by blast
    with mod show ?thesis by (metis div_mult_mod_eq)
  qed
qed

lemma digits_are_digits: "set (digits n) \<subseteq> set ''0123456789''"
proof (induction n rule: digits.induct)
  case (1 n)
  show ?case
  proof (cases "n < 10")
    case True
    then show ?thesis using digit_char_is_digit [of n] by (subst digits.simps) simp
  next
    case False
    with 1 have "set (digits (n div 10)) \<subseteq> set ''0123456789''" by simp
    with False show ?thesis using digit_char_is_digit [of n] by (subst digits.simps) simp
  qed
qed

lemma str_int_inj: "str_int i = str_int j \<Longrightarrow> i = j"
proof -
  assume eq: "str_int i = str_int j"
  have nominus: "hd (digits n) \<noteq> CHR ''-''" for n
  proof -
    have "hd (digits n) \<in> set (digits n)" using digits_nonempty by simp
    with digits_are_digits [of n] show ?thesis by auto
  qed
  show ?thesis
  proof (cases "i < 0")
    case True
    show ?thesis
    proof (cases "j < 0")
      case j: True
      with True eq have "digits (nat (- i)) = digits (nat (- j))" by (simp add: str_int_def)
      then have "nat (- i) = nat (- j)" by (rule digits_inj)
      with True j show ?thesis by simp
    next
      case False
      with True eq have "CHR ''-'' # digits (nat (- i)) = digits (nat j)" by (simp add: str_int_def)
      then have "hd (digits (nat j)) = CHR ''-''" by (metis list.sel(1))
      with nominus show ?thesis by simp
    qed
  next
    case False
    show ?thesis
    proof (cases "j < 0")
      case True
      with False eq have "digits (nat i) = CHR ''-'' # digits (nat (- j))" by (simp add: str_int_def)
      then have "hd (digits (nat i)) = CHR ''-''" by (metis list.sel(1))
      with nominus show ?thesis by simp
    next
      case j: False
      with False eq have "digits (nat i) = digits (nat j)" by (simp add: str_int_def)
      then have "nat i = nat j" by (rule digits_inj)
      with False j show ?thesis by simp
    qed
  qed
qed

lemma str_int_no_underscore: "CHR ''_'' \<notin> set (str_int i)"
  using digits_are_digits [of "nat i"] digits_are_digits [of "nat (- i)"]
  by (auto simp: str_int_def)

lemma split_at_last_underscore:
  assumes "s1 @ ''_'' @ d1 = s2 @ ''_'' @ d2" and "CHR ''_'' \<notin> set d1" and "CHR ''_'' \<notin> set d2"
  shows "s1 = s2 \<and> d1 = d2"
proof -
  have tw: "takeWhile (\<lambda>c. c \<noteq> CHR ''_'') (rev (s @ ''_'' @ d)) = rev d"
    if "CHR ''_'' \<notin> set d" for s d
    using that by (simp add: takeWhile_append)
  from assms(1) have "takeWhile (\<lambda>c. c \<noteq> CHR ''_'') (rev (s1 @ ''_'' @ d1)) =
      takeWhile (\<lambda>c. c \<noteq> CHR ''_'') (rev (s2 @ ''_'' @ d2))" by simp
  with tw [OF assms(2)] tw [OF assms(3)] have "d1 = d2" by simp
  with assms(1) show ?thesis by simp
qed

lemma generate_call_id_eq_iff:
  "generate_call_id r1 = generate_call_id r2 \<longleftrightarrow>
     path_stem (rec_path r1) = path_stem (rec_path r2) \<and>
     int_of_float (modified_time r1) = int_of_float (modified_time r2)"
proof
  assume "generate_call_id r1 = generate_call_id r2"
  then have "path_stem (rec_path r1) @ ''_'' @ str_int (int_of_float (modified_time r1)) =
      path_stem (rec_path r2) @ ''_'' @ str_int (int_of_float (modified_time r2))"
    by (simp add: generate_call_id_def)
  from split_at_last_underscore [OF this str_int_no_underscore str_int_no_underscore]
  show "path_stem (rec_path r1) = path_stem (rec_path r2) \<and>
     int_of_float (modified_time r1) = int_of_float (modified_time r2)"
    by (auto dest: str_int_inj)
next
  assume "path_stem (rec_path r1) = path_stem (rec_path r2) \<and>
     int_of_float (modified_time r1) = int_of_float (modified_time r2)"
  then show "generate_call_id r1 = generate_call_id r2" by (simp add: generate_call_id_def)
qed


lemma example_timestamps:
  "int_of_float (6928164937 / 4) = 1732041234" "int_of_float (6928164939 / 4) = 1732041234"
proof -
  have "\<lfloor>6928164937 / 4 :: rat\<rfloor> = 1732041234"
    by (rule floor_unique) simp_all
  then show "int_of_float (6928164937 / 4) = 1732041234" by (simp add: int_of_float_def)
  have "\<lfloor>6928164939 / 4 :: rat\<rfloor> = 1732041234"
    by (rule floor_unique) simp_all
  then show "int_of_float (6928164939 / 4) = 1732041234" by (simp add: int_of_float_def)
qed

lemma example_str_int: "str_int 1732041234 = ''1732041234''"
  by (simp add: str_int_def digits.simps digit_char_def)

lemma example_stems:
  "path_stem ''recordings/inbound/call.wav'' = ''call''"
  "path_stem ''recordings/outbound/call.mp3'' = ''call''"
  by (simp_all add: path_stem_def path_name_def)

lemma example_call_ids:
  "generate_call_id inbound_recording = ''call_1732041234''"
  "generate_call_id outbound_recording = ''call_1732041234''"
  by (simp_all add: generate_call_id_def inbound_recording_def outbound_recording_def
      example_timestamps example_str_int example_stems)

lemma built_call_id:
  "call_id (metadata (build_call_analysis_from_transcription utcnow result client)) =
   generate_call_id (recording result)"
  by (simp add: build_call_analysis_from_transcription_def build_call_metadata_def)

lemma built_dates:
  "dates_read_back lib (build_call_analysis_from_transcription utcnow result client)"
  by (simp add: dates_read_back_def build_call_analysis_from_transcription_def
      build_call_metadata_def)

lemma built_finite:
  "finite_floats (build_call_analysis_from_transcription utcnow result client)"
  by (simp add: finite_floats_def float_finite_def build_call_analysis_from_transcription_def
      build_call_metadata_def)

text \<open>
  C7, as stated, fails. The two recordings are distinct files, yet both get the call_id
  \<open>call_1732041234\<close>. Saving their transcriptions writes the same file twice: afterwards
  the only record is that of the second recording, and the first one's is gone.
\<close>

theorem distinct_recordings_share_call_id:
  "rec_path inbound_recording \<noteq> rec_path outbound_recording \<and>
   generate_call_id inbound_recording = ''call_1732041234'' \<and>
   generate_call_id outbound_recording = ''call_1732041234'' \<and>
   fst (save_transcription_results example_lib example_clock
          [inbound_result, outbound_result] ''client_123'' empty_world) =
     [''call_1732041234.json'', ''call_1732041234.json''] \<and>
   load_call example_lib
     (snd (save_transcription_results example_lib example_clock
             [inbound_result, outbound_result] ''client_123'' empty_world))
     ''call_1732041234.json'' =
     Inr (build_call_analysis_from_transcription example_clock outbound_result ''client_123'') \<and>
   dom (files (snd (save_transcription_results example_lib example_clock
                      [inbound_result, outbound_result] ''client_123'' empty_world))) =
     {''call_1732041234.json''}"
proof -
  let ?c1 = "build_call_analysis_from_transcription example_clock inbound_result ''client_123''"
  let ?c2 = "build_call_analysis_from_transcription example_clock outbound_result ''client_123''"
  have id1: "call_id (metadata ?c1) = ''call_1732041234''"
    by (simp add: built_call_id inbound_result_def example_call_ids)
  have id2: "call_id (metadata ?c2) = ''call_1732041234''"
    by (simp add: built_call_id outbound_result_def example_call_ids)
  have run: "save_transcription_results example_lib example_clock
      [inbound_result, outbound_result] ''client_123'' empty_world =
      ([''call_1732041234.json'', ''call_1732041234.json''],
       empty_world\<lparr>files := [''call_1732041234.json'' \<mapsto>
                                JsonText (dump_CallAnalysis example_lib ?c2)]\<rparr>)"
    by (simp add: save_transcription_result_def save_call_analysis_def id1 id2 Let_def
        empty_world_def)
  have "load_call example_lib
      (empty_world\<lparr>files := [''call_1732041234.json'' \<mapsto>
                               JsonText (dump_CallAnalysis example_lib ?c2)]\<rparr>)
      ''call_1732041234.json'' = Inr ?c2"
    by (rule load_dumped_file) (simp_all add: built_dates built_finite)
  moreover have "rec_path inbound_recording \<noteq> rec_path outbound_recording"
    by (simp add: inbound_recording_def outbound_recording_def)
  ultimately show ?thesis
    unfolding run fst_conv snd_conv by (simp add: example_call_ids)
qed

text \<open>
  C7, amended. The call_id assigned at ingestion is the stem of the recording's file
  name, an underscore and the whole seconds of its modification time, and it is the
  call_id of the record built from the recording. Two recordings get the same call_id
  exactly when they agree in stem and in whole-second modification time. Persisting a
  record writes the file \<open><call_id>.json\<close>, replacing what it held, and no other file:
  records with distinct call_ids never replace one another.
\<close>

theorem call_id_assignment:
  "(generate_call_id r1 = generate_call_id r2 \<longleftrightarrow>
      path_stem (rec_path r1) = path_stem (rec_path r2) \<and>
      int_of_float (modified_time r1) = int_of_float (modified_time r2)) \<and>
   call_id (metadata (build_call_analysis_from_transcription utcnow result client)) =
     generate_call_id (recording result) \<and>
   save_call_analysis lib c w =
     (call_id (metadata c) @ ''.json'',
      w\<lparr>files := (files w)(call_id (metadata c) @ ''.json'' \<mapsto>
                     JsonText (dump_CallAnalysis lib c))\<rparr>) \<and>
   (call_id (metadata c1) \<noteq> call_id (metadata c2) \<longrightarrow>
      files (snd (save_call_analysis lib c2 (snd (save_call_analysis lib c1 w))))
        (call_id (metadata c1) @ ''.json'') = Some (JsonText (dump_CallAnalysis lib c1)))"
proof (intro conjI impI)
  show "generate_call_id r1 = generate_call_id r2 \<longleftrightarrow>
      path_stem (rec_path r1) = path_stem (rec_path r2) \<and>
      int_of_float (modified_time r1) = int_of_float (modified_time r2)"
    by (rule generate_call_id_eq_iff)
  show "call_id (metadata (build_call_analysis_from_transcription utcnow result client)) =
     generate_call_id (recording result)"
    by (rule built_call_id)
  show "save_call_analysis lib c w =
     (call_id (metadata c) @ ''.json'',
      w\<lparr>files := (files w)(call_id (metadata c) @ ''.json'' \<mapsto>
                     JsonText (dump_CallAnalysis lib c))\<rparr>)"
    by (simp add: save_call_analysis_def Let_def)
  show "files (snd (save_call_analysis lib c2 (snd (save_call_analysis lib c1 w))))
        (call_id (metadata c1) @ ''.json'') = Some (JsonText (dump_CallAnalysis lib c1))"
    if "call_id (metadata c1) \<noteq> call_id (metadata c2)"
    using that by (simp add: save_call_analysis_def Let_def)
qed

theorem call_id_assignment_witness:
  "call_id (metadata call_a) \<noteq> call_id (metadata call_b) \<and>
   files (snd (save_call_analysis example_lib call_b
                 (snd (save_call_analysis example_lib call_a empty_world))))
     (call_id (metadata call_a) @ ''.json'') =
     Some (JsonText (dump_CallAnalysis example_lib call_a)) \<and>
   (generate_call_id inbound_recording = generate_call_id outbound_recording) =
     (path_stem (rec_path inbound_recording) = path_stem (rec_path outbound_recording) \<and>
      int_of_float (modified_time inbound_recording) =
      int_of_float (modified_time outbound_recording))"
proof -
  have ne: "call_id (metadata call_a) \<noteq> call_id (metadata call_b)"
    by (simp add: call_a_def call_b_def ingested_call_def)
  note t = call_id_assignment [where ?c1.0 = call_a and ?c2.0 = call_b and lib = example_lib
      and w = empty_world and ?r1.0 = inbound_recording and ?r2.0 = outbound_recording]
  from t ne show ?thesis by blast
qed


section \<open>The semantic index (\<open>app/vectorstore.py\<close>)\<close>

text \<open>
  \<open>str.strip()\<close> with no argument removes leading and trailing whitespace. A character is
  a code point below 256 here; those for which \<open>str.isspace\<close> holds are listed.
\<close>

definition py_isspace :: "char \<Rightarrow> bool" where
  "py_isspace c =
     (let n = (of_char c :: nat)
      in (9 \<le> n \<and> n \<le> 13) \<or> (28 \<le> n \<and> n \<le> 32) \<or> n = 133 \<or> n = 160)"

definition py_strip :: "string \<Rightarrow> string" where
  "py_strip s = rev (dropWhile py_isspace (rev (dropWhile py_isspace s)))"

type_synonym collection = "string \<rightharpoonup> (string \<times> (string \<times> json) list)"

text \<open>
  Modelled from the spec: the vector store's \<open>upsert(ids, documents, metadatas)\<close>, which
  is a call into the chromadb library and not code of the repository. Per the spec's
  vector index boundary, it stores each document with its metadata under its id and
  replaces what the id held.
\<close>

definition upsert ::
  "string list \<Rightarrow> string list \<Rightarrow> (string \<times> json) list list \<Rightarrow> collection \<Rightarrow> collection" where
  "upsert ids documents metadatas coll =
     fold (\<lambda>(i, d, m) c. c(i \<mapsto> (d, m))) (zip ids (zip documents metadatas)) coll"

definition load_call_from_json :: "pydantic \<Rightarrow> world \<Rightarrow> path \<Rightarrow> error + CallAnalysis" where
  "load_call_from_json lib w p = load_call lib w p"

text \<open>
  The metadata stored with a document. A pydantic model is truthy, and so is an enum
  member whose value is a non-empty string; an empty \<open>primary_intent\<close> is falsy.
\<close>

definition index_metadata :: "CallAnalysis \<Rightarrow> (string \<times> json) list" where
  "index_metadata call =
     [(''call_id'', JStr (call_id (metadata call))),
      (''client_id'', JStr (client_id (metadata call))),
      (''audio_file'', JStr (audio_file (metadata call))),
      (''sentiment'',
         (case sentiment call of
            Some s \<Rightarrow> JStr (SentimentLabel_value (overall s)) | None \<Rightarrow> JNull)),
      (''primary_intent'',
         (case intent_and_topics call of
            Some t \<Rightarrow>
              (case primary_intent t of
                 Some s \<Rightarrow> if s \<noteq> [] then JStr s else JNull
               | None \<Rightarrow> JNull)
          | None \<Rightarrow> JNull)),
      (''risk_level'',
         (case compliance_and_risk call of
            Some c \<Rightarrow> JStr (RiskLevel_value (risk_level c)) | None \<Rightarrow> JNull)),
      (''quality_score'',
         (case call_quality call of
            Some q \<Rightarrow> dump_optional JInt (overall_quality_score q) | None \<Rightarrow> JNull))]"

text \<open>The \<open>for path in call_paths\<close> loop of \<open>build_calls_index\<close>, with its three lists.\<close>

fun index_loop ::
  "pydantic \<Rightarrow> world \<Rightarrow> path list
     \<Rightarrow> string list \<times> string list \<times> (string \<times> json) list list
     \<Rightarrow> error + (string list \<times> string list \<times> (string \<times> json) list list)" where
  "index_loop lib w [] acc = Inr acc"
| "index_loop lib w (p # ps) (ids, documents, metadatas) =
     (case load_call_from_json lib w p of
        Inl e \<Rightarrow> Inl e
      | Inr call \<Rightarrow>
          if py_strip (transcript call) = [] then index_loop lib w ps (ids, documents, metadatas)
          else index_loop lib w ps
                 (ids @ [call_id (metadata call)], documents @ [transcript call],
                  metadatas @ [index_metadata call]))"

text \<open>
  \<open>build_calls_index\<close>, on the files of \<open>w\<close> and the collection \<open>coll\<close>; \<open>call_paths\<close> is what
  \<open>list_call_json_files\<close> returned. The result is the exception raised, if any, and the
  collection afterwards. The printed lines are left out.
\<close>

definition build_calls_index ::
  "pydantic \<Rightarrow> world \<Rightarrow> path list \<Rightarrow> collection \<Rightarrow> error option \<times> collection" where
  "build_calls_index lib w call_paths coll =
     (if call_paths = [] then (None, coll)
      else
        (case index_loop lib w call_paths ([], [], []) of
           Inl e \<Rightarrow> (Some e, coll)
         | Inr (ids, documents, metadatas) \<Rightarrow>
             if ids = [] then (None, coll)
             else (None, upsert ids documents metadatas coll)))"

text \<open>The documents of the records with a non-blank transcript, in the order of the records.\<close>

definition indexed_documents ::
  "CallAnalysis list \<Rightarrow> (string \<times> (string \<times> (string \<times> json) list)) list" where
  "indexed_documents calls =
     map (\<lambda>c. (call_id (metadata c), (transcript c, index_metadata c)))
       (filter (\<lambda>c. py_strip (transcript c) \<noteq> []) calls)"

lemma fold_update_map_add:
  "fold (\<lambda>(k, v) c. c(k \<mapsto> v)) xs coll = coll ++ map_of (rev xs)"
proof (induction xs arbitrary: coll)
  case Nil
  then show ?case by simp
next
  case (Cons x xs)
  obtain k v where x: "x = (k, v)" by (cases x)
  have "fold (\<lambda>(k, v) c. c(k \<mapsto> v)) (x # xs) coll =
      fold (\<lambda>(k, v) c. c(k \<mapsto> v)) xs (coll(k \<mapsto> v))"
    by (simp add: x)
  also have "\<dots> = coll(k \<mapsto> v) ++ map_of (rev xs)"
    by (rule Cons.IH)
  also have "\<dots> = coll ++ (map_of [(k, v)] ++ map_of (rev xs))"
    by (simp add: map_add_upd_left fun_eq_iff map_add_def split: option.splits)
  also have "\<dots> = coll ++ map_of (rev (x # xs))"
    using x by (simp add: map_of_append)
  finally show ?case .
qed

lemma upsert_map_add:
  "upsert ids documents metadatas coll =
     coll ++ map_of (rev (zip ids (zip documents metadatas)))"
proof -
  have "(\<lambda>(i, d, m) c. c(i \<mapsto> (d, m))) =
      (\<lambda>(k, v) c. (c::collection)(k \<mapsto> v))"
    by (auto simp: fun_eq_iff)
  then show ?thesis by (simp add: upsert_def fold_update_map_add)
qed

lemma upsert_idempotent:
  "upsert ids documents metadatas (upsert ids documents metadatas coll) =
   upsert ids documents metadatas coll"
  by (simp add: upsert_map_add fun_eq_iff map_add_def split: option.splits)

lemma build_calls_index_idempotent:
  "build_calls_index lib w ps (snd (build_calls_index lib w ps coll)) =
   build_calls_index lib w ps coll"
proof (cases "index_loop lib w ps ([], [], [])")
  case (Inl e)
  then show ?thesis by (simp add: build_calls_index_def)
next
  case (Inr res)
  obtain ids documents metadatas where "res = (ids, documents, metadatas)" by (cases res)
  with Inr show ?thesis by (simp add: build_calls_index_def upsert_idempotent)
qed

lemma index_loop_loaded:
  assumes "map (load_call_from_json lib w) ps = map Inr calls"
  shows "index_loop lib w ps (ids, documents, metadatas) =
         Inr (ids @ map fst (indexed_documents calls),
              documents @ map (fst \<circ> snd) (indexed_documents calls),
              metadatas @ map (snd \<circ> snd) (indexed_documents calls))"
  using assms
proof (induction ps arbitrary: calls ids documents metadatas)
  case Nil
  then show ?case by (simp add: indexed_documents_def)
next
  case (Cons p ps)
  then obtain c cs where calls: "calls = c # cs" and c: "load_call_from_json lib w p = Inr c"
    and rest: "map (load_call_from_json lib w) ps = map Inr cs"
    by (cases calls) auto
  show ?case
  proof (cases "py_strip (transcript c) = []")
    case True
    with Cons.IH [OF rest] c calls show ?thesis by (simp add: indexed_documents_def)
  next
    case False
    with Cons.IH [OF rest] c calls show ?thesis by (simp add: indexed_documents_def)
  qed
qed

lemma zip_of_maps:
  "zip (map fst xs) (zip (map (fst \<circ> snd) xs) (map (snd \<circ> snd) xs)) = xs"
  by (induction xs) auto

lemma build_calls_index_loaded:
  assumes "map (load_call_from_json lib w) ps = map Inr calls"
  shows "build_calls_index lib w ps coll = (None, coll ++ map_of (rev (indexed_documents calls)))"
proof (cases "ps = []")
  case True
  with assms show ?thesis by (simp add: build_calls_index_def indexed_documents_def)
next
  case False
  from index_loop_loaded [OF assms, of "[]" "[]" "[]"]
  have loop: "index_loop lib w ps ([], [], []) =
      Inr (map fst (indexed_documents calls), map (fst \<circ> snd) (indexed_documents calls),
           map (snd \<circ> snd) (indexed_documents calls))"
    by simp
  show ?thesis
  proof (cases "indexed_documents calls = []")
    case True
    with False loop show ?thesis by (simp add: build_calls_index_def)
  next
    case nonempty: False
    with False loop show ?thesis
      by (simp add: build_calls_index_def upsert_map_add zip_of_maps)
  qed
qed

lemma indexed_documents_keys:
  "map fst (indexed_documents calls) =
   map (\<lambda>c. call_id (metadata c)) (filter (\<lambda>c. py_strip (transcript c) \<noteq> []) calls)"
  by (simp add: indexed_documents_def comp_def)

lemma dom_map_of_rev: "dom (map_of (rev xs)) = fst ` set xs"
  by (simp add: dom_map_of_conv_image_fst)

text \<open>A data directory with one record that has a transcript and one whose transcript is blank.\<close>

definition blank_call :: CallAnalysis where
  "blank_call = ingested_call ''e'' [CHR '' '', CHR 0x0A, CHR 0x09]"

definition index_world :: world where
  "index_world =
     \<lparr>files = [''a.json'' \<mapsto> JsonText (dump_CallAnalysis example_lib call_a),
               ''e.json'' \<mapsto> JsonText (dump_CallAnalysis example_lib blank_call)],
      printed = [], llm_calls = []\<rparr>"

text \<open>
  C8. When every call file loads and the records have distinct call_ids, the index build
  upserts exactly the documents of the records with a non-blank transcript: the
  collection afterwards is the collection before, overridden at those call_ids (a prior
  document and its metadata under the same call_id is replaced). Building again from the
  same records returns the same collection. Built from an empty collection, the number
  of documents is the number of records with a non-blank transcript, and a record with
  a blank transcript leaves its call_id as it was.
\<close>

theorem index_build_upserts:
  assumes "map (load_call_from_json lib w) ps = map Inr calls"
    and "distinct (map (\<lambda>c. call_id (metadata c)) calls)"
  shows "build_calls_index lib w ps coll = (None, coll ++ map_of (indexed_documents calls)) \<and>
         build_calls_index lib w ps (snd (build_calls_index lib w ps coll)) =
           build_calls_index lib w ps coll \<and>
         card (dom (snd (build_calls_index lib w ps Map.empty))) =
           length (filter (\<lambda>c. py_strip (transcript c) \<noteq> []) calls) \<and>
         (\<forall>c \<in> set calls. py_strip (transcript c) = [] \<longrightarrow>
            snd (build_calls_index lib w ps coll) (call_id (metadata c)) =
            coll (call_id (metadata c)))"
proof -
  let ?nb = "filter (\<lambda>c. py_strip (transcript c) \<noteq> []) calls"
  have dk: "distinct (map fst (indexed_documents calls))"
    using assms(2) by (simp add: indexed_documents_keys distinct_map_filter)
  then have rev: "map_of (rev (indexed_documents calls)) = map_of (indexed_documents calls)"
    by (subst map_of_inject_set) (simp_all add: rev_map [symmetric])
  have b: "build_calls_index lib w ps c0 = (None, c0 ++ map_of (indexed_documents calls))" for c0
    using build_calls_index_loaded [OF assms(1), of c0] rev by simp
  have "dom (map_of (indexed_documents calls)) = set (map fst (indexed_documents calls))"
    by (simp add: dom_map_of_conv_image_fst)
  then have "card (dom (map_of (indexed_documents calls))) = length ?nb"
    using dk distinct_card [OF dk] by (simp add: indexed_documents_keys)
  then have size: "card (dom (snd (build_calls_index lib w ps Map.empty))) = length ?nb"
    by (simp add: b)
  have blank: "snd (build_calls_index lib w ps coll) (call_id (metadata c)) =
      coll (call_id (metadata c))"
    if "c \<in> set calls" "py_strip (transcript c) = []" for c
  proof -
    have "call_id (metadata c) \<notin> set (map fst (indexed_documents calls))"
    proof
      assume "call_id (metadata c) \<in> set (map fst (indexed_documents calls))"
      then obtain c' where c': "c' \<in> set calls" "py_strip (transcript c') \<noteq> []"
        "call_id (metadata c') = call_id (metadata c)"
        by (auto simp: indexed_documents_keys)
      with that assms(2) have "c' = c"
        by (meson distinct_map inj_onD)
      with c' that show False by simp
    qed
    then have "map_of (indexed_documents calls) (call_id (metadata c)) = None"
      by (simp add: map_of_eq_None_iff)
    then show ?thesis by (simp add: b map_add_def)
  qed
  from b size blank build_calls_index_idempotent [of lib w ps coll] show ?thesis by simp
qed


lemma blank_call_is_blank: "py_strip (transcript blank_call) = []"
  by (simp add: blank_call_def ingested_call_def py_strip_def py_isspace_def)

lemma call_a_not_blank: "py_strip (transcript call_a) \<noteq> []"
  by (simp add: call_a_def ingested_call_def py_strip_def py_isspace_def)

lemma index_world_loads:
  "map (load_call_from_json example_lib index_world) [''a.json'', ''e.json''] =
   map Inr [call_a, blank_call]"
  by (simp add: load_call_from_json_def index_world_def load_dumped_file call_a_def
      blank_call_def ingested_call_dates)

lemma index_world_ids: "distinct (map (\<lambda>c. call_id (metadata c)) [call_a, blank_call])"
  by (simp add: call_a_def blank_call_def ingested_call_def)

theorem index_build_upserts_witness:
  "map (load_call_from_json example_lib index_world) [''a.json'', ''e.json''] =
     map Inr [call_a, blank_call] \<and>
   distinct (map (\<lambda>c. call_id (metadata c)) [call_a, blank_call]) \<and>
   build_calls_index example_lib index_world [''a.json'', ''e.json''] Map.empty =
     (None, [call_id (metadata call_a) \<mapsto> (transcript call_a, index_metadata call_a)]) \<and>
   build_calls_index example_lib index_world [''a.json'', ''e.json'']
     (snd (build_calls_index example_lib index_world [''a.json'', ''e.json''] Map.empty)) =
     build_calls_index example_lib index_world [''a.json'', ''e.json''] Map.empty \<and>
   card (dom (snd (build_calls_index example_lib index_world [''a.json'', ''e.json'']
                     Map.empty))) = 1 \<and>
   py_strip (transcript blank_call) = [] \<and>
   snd (build_calls_index example_lib index_world [''a.json'', ''e.json''] Map.empty)
     (call_id (metadata blank_call)) = None"
proof -
  note t = index_build_upserts [OF index_world_loads index_world_ids, of Map.empty]
  have docs: "indexed_documents [call_a, blank_call] =
      [(call_id (metadata call_a), (transcript call_a, index_metadata call_a))]"
    by (simp add: indexed_documents_def blank_call_is_blank call_a_not_blank)
  have n: "length (filter (\<lambda>c. py_strip (transcript c) \<noteq> []) [call_a, blank_call]) = 1"
    by (simp add: blank_call_is_blank call_a_not_blank)
  from t have 1: "build_calls_index example_lib index_world [''a.json'', ''e.json''] Map.empty =
      (None, [call_id (metadata call_a) \<mapsto> (transcript call_a, index_metadata call_a)])"
    by (simp add: docs)
  from t have 2: "build_calls_index example_lib index_world [''a.json'', ''e.json'']
      (snd (build_calls_index example_lib index_world [''a.json'', ''e.json''] Map.empty)) =
      build_calls_index example_lib index_world [''a.json'', ''e.json''] Map.empty"
    by blast
  note size = t [THEN conjunct2, THEN conjunct2, THEN conjunct1]
  have 3: "card (dom (snd (build_calls_index example_lib index_world
      [''a.json'', ''e.json''] Map.empty))) = 1"
    by (rule trans [OF size n])
  note blank = t [THEN conjunct2, THEN conjunct2, THEN conjunct2]
  have "blank_call \<in> set [call_a, blank_call]"
    by simp
  from bspec [OF blank this, THEN mp, OF blank_call_is_blank]
  have 4: "snd (build_calls_index example_lib index_world [''a.json'', ''e.json''] Map.empty)
      (call_id (metadata blank_call)) = None"
    by simp
  from index_world_loads index_world_ids 1 2 3 blank_call_is_blank 4 show ?thesis
    by (intro conjI)
qed

subsection \<open>Search\<close>

text \<open>
  What \<open>collection.query(query_texts=[query], n_results=n)\<close> returns for its one query:
  the parallel lists of ids, documents, metadatas and distances; or it raises. The index
  is a parameter: it is the vector store behind the library.
\<close>

record query_result =
  result_ids :: "string list"
  result_documents :: "string list"
  result_metadatas :: "(string \<times> json) list list"
  result_distances :: "rat list"

type_synonym vector_index = "string \<Rightarrow> nat \<Rightarrow> error + query_result"

record match =
  match_id :: string
  match_document :: string
  match_metadata :: "(string \<times> json) list"
  match_distance :: rat

text \<open>
  \<open>semantic_search_calls\<close>. \<open>dispatched\<close> is the list of queries sent to the index so far;
  the function sends its query whatever it is. Indexing a list that is shorter than
  \<open>ids\<close> raises \<open>IndexError\<close>.
\<close>

definition semantic_search_calls ::
  "vector_index \<Rightarrow> string \<Rightarrow> nat \<Rightarrow> string list \<Rightarrow> (error + match list) \<times> string list" where
  "semantic_search_calls index query n_results dispatched =
     (case index query n_results of
        Inl e \<Rightarrow> (Inl e, dispatched @ [query])
      | Inr results \<Rightarrow>
          (let ids = result_ids results; docs = result_documents results;
               metas = result_metadatas results; distances = result_distances results
           in (if length docs < length ids \<or> length metas < length ids \<or>
                  length distances < length ids
               then Inl IndexError
               else Inr (map (\<lambda>i. \<lparr>match_id = ids ! i, match_document = docs ! i,
                                    match_metadata = metas ! i,
                                    match_distance = distances ! i\<rparr>)
                           [0..<length ids]),
               dispatched @ [query])))"

text \<open>\<open>" ".join(xs)\<close>.\<close>

fun py_join :: "string \<Rightarrow> string list \<Rightarrow> string" where
  "py_join sep [] = []"
| "py_join sep [x] = x"
| "py_join sep (x # y # ys) = x @ sep @ py_join sep (y # ys)"

datatype cli_output = NoQueryProvided | SearchRaised error | NoResults | TopResults "match list"

text \<open>
  \<open>main\<close> of \<open>run_search_cli.py\<close>: \<open>argv\<close> is \<open>sys.argv\<close>, \<open>stdin_line\<close> the line that \<open>input\<close>
  returns when it is called.
\<close>

definition run_search_cli_main ::
  "vector_index \<Rightarrow> string list \<Rightarrow> string \<Rightarrow> string list \<Rightarrow> cli_output \<times> string list" where
  "run_search_cli_main index argv stdin_line dispatched =
     (let query = (if length argv > 1 then py_join '' '' (tl argv) else py_strip stdin_line)
      in if query = [] then (NoQueryProvided, dispatched)
         else
           (case semantic_search_calls index query 5 dispatched of
              (Inl e, d) \<Rightarrow> (SearchRaised e, d)
            | (Inr matches, d) \<Rightarrow>
                (if matches = [] then NoResults else TopResults matches, d)))"

datatype dashboard_output =
  WarningEnterQuery | ErrorRunningSearch error | InfoNoMatches | ShowResults "match list"

text \<open>
  The search of \<open>render_semantic_search_section\<close> in \<open>app/dashboard.py\<close>, once the Search
  button is pressed with \<open>query\<close> in the text input.
\<close>

definition render_semantic_search ::
  "vector_index \<Rightarrow> string \<Rightarrow> nat \<Rightarrow> string list \<Rightarrow> dashboard_output \<times> string list" where
  "render_semantic_search index query n_results dispatched =
     (if py_strip query = [] then (WarningEnterQuery, dispatched)
      else
        (case semantic_search_calls index query n_results dispatched of
           (Inl e, d) \<Rightarrow> (ErrorRunningSearch e, d)
         | (Inr matches, d) \<Rightarrow>
             (if matches = [] then InfoNoMatches else ShowResults matches, d)))"

lemma semantic_search_calls_dispatches:
  "snd (semantic_search_calls index query n dispatched) = dispatched @ [query]"
  by (simp add: semantic_search_calls_def Let_def split: sum.splits)

text \<open>
  C9: the code at the failing input. The command line \<open>run_search_cli.py " "\<close> gives the
  query \<open>" "\<close>, which is blank, and the CLI sends it to the index: its test is
  \<open>if not query\<close> on the joined arguments, which are not stripped. The interactive branch
  of the same function strips the line it reads and rejects it, and the dashboard tests
  \<open>query.strip()\<close> and rejects it.
\<close>

theorem cli_dispatches_blank_query:
  "py_strip '' '' = [] \<and>
   snd (run_search_cli_main index [''run_search_cli.py'', '' ''] stdin_line dispatched) =
     dispatched @ ['' ''] \<and>
   run_search_cli_main index [''run_search_cli.py''] '' '' dispatched =
     (NoQueryProvided, dispatched) \<and>
   render_semantic_search index '' '' n dispatched = (WarningEnterQuery, dispatched)"
proof (intro conjI)
  show blank: "py_strip '' '' = []"
    by (simp add: py_strip_def py_isspace_def)
  have "run_search_cli_main index [''run_search_cli.py'', '' ''] stdin_line dispatched =
      (case semantic_search_calls index '' '' 5 dispatched of
         (Inl e, d) \<Rightarrow> (SearchRaised e, d)
       | (Inr matches, d) \<Rightarrow> (if matches = [] then NoResults else TopResults matches, d))"
    by (simp add: run_search_cli_main_def)
  then show "snd (run_search_cli_main index [''run_search_cli.py'', '' ''] stdin_line
      dispatched) = dispatched @ ['' '']"
    using semantic_search_calls_dispatches [of index "'' ''" 5 dispatched]
    by (cases "semantic_search_calls index '' '' 5 dispatched")
       (auto split: sum.splits)
  show "run_search_cli_main index [''run_search_cli.py''] '' '' dispatched =
      (NoQueryProvided, dispatched)"
    by (simp add: run_search_cli_main_def blank)
  show "render_semantic_search index '' '' n dispatched = (WarningEnterQuery, dispatched)"
    by (simp add: render_semantic_search_def blank)
qed

end
